theory Spec2Isabelle
  imports Complex_Main "HOL-Library.Sublist" "HOL-Library.Multiset"
begin

section \<open>JavaScript values used by the services\<close>

text \<open>
  The values an error object carries in its \<^verbatim>\<open>status\<close> and \<^verbatim>\<open>code\<close> properties. The
  SDK sets a numeric HTTP status; Node and the REST payload also use strings
  (\<^verbatim>\<open>"NOT_FOUND"\<close>), so both are kept apart: \<^verbatim>\<open>===\<close> does not convert.
\<close>

datatype jsval = JUndefined | JNull | JNum int | JStr string

text \<open>Truthiness as \<^verbatim>\<open>||\<close> and \<^verbatim>\<open>if\<close> see it.\<close>

fun truthy :: "jsval \<Rightarrow> bool" where
  "truthy JUndefined = False"
| "truthy JNull = False"
| "truthy (JNum n) = (n \<noteq> 0)"
| "truthy (JStr s) = (s \<noteq> [])"

definition js_or :: "jsval \<Rightarrow> jsval \<Rightarrow> jsval" where
  "js_or a b = (if truthy a then a else b)"

text \<open>\<^verbatim>\<open>a || b\<close> on optional strings: an absent and an empty string are both falsy.\<close>

definition str_or :: "string option \<Rightarrow> string option \<Rightarrow> string option" where
  "str_or a b = (case a of Some s \<Rightarrow> (if s \<noteq> [] then a else b) | None \<Rightarrow> b)"

definition str_or_lit :: "string option \<Rightarrow> string \<Rightarrow> string" where
  "str_or_lit a d = (case a of Some s \<Rightarrow> (if s \<noteq> [] then s else d) | None \<Rightarrow> d)"

text \<open>\<^verbatim>\<open>String.prototype.includes\<close>: the argument occurs as a contiguous run.\<close>

fun str_includes :: "string \<Rightarrow> string \<Rightarrow> bool" where
  "str_includes [] t = (t = [])"
| "str_includes (c # cs) t = (prefix t (c # cs) \<or> str_includes cs t)"

text \<open>Decimal rendering of an integer, as \<^verbatim>\<open>String(n)\<close> prints a status code.\<close>

definition digit_char :: "nat \<Rightarrow> char" where
  "digit_char d = ''0123456789'' ! d"

fun digits :: "nat \<Rightarrow> string" where
  "digits n = (if n < 10 then [digit_char n] else digits (n div 10) @ [digit_char (n mod 10)])"

definition String_of_int :: "int \<Rightarrow> string" where
  "String_of_int i = (if i < 0 then CHR ''-'' # digits (nat (- i)) else digits (nat i))"

fun String_of :: "jsval \<Rightarrow> string" where
  "String_of JUndefined = ''undefined''"
| "String_of JNull = ''null''"
| "String_of (JNum n) = String_of_int n"
| "String_of (JStr s) = s"

text \<open>
  \<^verbatim>\<open>Array.prototype.join\<close> renders \<^verbatim>\<open>undefined\<close> and \<^verbatim>\<open>null\<close> elements as the empty
  string and every other element with \<^verbatim>\<open>String\<close>.
\<close>

fun join_elem :: "jsval \<Rightarrow> string" where
  "join_elem JUndefined = []"
| "join_elem JNull = []"
| "join_elem v = String_of v"

fun join :: "string \<Rightarrow> jsval list \<Rightarrow> string" where
  "join sep [] = []"
| "join sep [x] = join_elem x"
| "join sep (x # y # ys) = join_elem x @ sep @ join sep (y # ys)"

text \<open>
  \<^verbatim>\<open>[...new Set(xs)]\<close>: the constructor adds the elements in order, an element already
  present is skipped, and iteration follows insertion order.
\<close>

definition Set_add :: "'a list \<Rightarrow> 'a \<Rightarrow> 'a list" where
  "Set_add seen x = (if x \<in> set seen then seen else seen @ [x])"

definition new_Set :: "'a list \<Rightarrow> 'a list" where
  "new_Set xs = foldl Set_add [] xs"

section \<open>The fallback invoker (services/geminiService.ts)\<close>

text \<open>
  What \<^verbatim>\<open>tryWithFallback\<close> reads of a caught error: \<^verbatim>\<open>error.status\<close>, \<^verbatim>\<open>error.code\<close>,
  \<^verbatim>\<open>error.error.code\<close>, \<^verbatim>\<open>error.message\<close> and \<^verbatim>\<open>error.error.message\<close>. A property that is
  absent (also because \<^verbatim>\<open>error.error\<close> is absent) is \<^const>\<open>JUndefined\<close>, respectively
  \<^const>\<open>None\<close>. Messages are strings where present, as on every \<^verbatim>\<open>Error\<close> object.
\<close>

record js_error =
  e_status :: jsval
  e_code :: jsval
  e_error_code :: jsval
  e_message :: "string option"
  e_error_message :: "string option"

text \<open>\<^verbatim>\<open>new Error(msg)\<close>: only the message is set.\<close>

definition new_Error :: "string \<Rightarrow> js_error" where
  "new_Error msg = \<lparr>e_status = JUndefined, e_code = JUndefined, e_error_code = JUndefined,
     e_message = Some msg, e_error_message = None\<rparr>"

text \<open>\<^verbatim>\<open>error?.status || error?.code || error?.error?.code\<close>\<close>

definition extract_status :: "js_error \<Rightarrow> jsval" where
  "extract_status error = js_or (js_or (e_status error) (e_code error)) (e_error_code error)"

text \<open>\<^verbatim>\<open>error?.message || error?.error?.message || ''\<close>\<close>

definition extract_message :: "js_error \<Rightarrow> string" where
  "extract_message error = str_or_lit (str_or (e_message error) (e_error_message error)) []"

definition isRetryable :: "jsval \<Rightarrow> string \<Rightarrow> bool" where
  "isRetryable status message \<longleftrightarrow>
     status = JNum 404 \<or>
     status = JNum 429 \<or>
     str_includes message ''not found'' \<or>
     str_includes message ''quota'' \<or>
     str_includes message ''NOT_FOUND'' \<or>
     str_includes message ''exceeded''"

text \<open>The message of the error thrown after the loop.\<close>

definition errorSummary :: "jsval list \<Rightarrow> string" where
  "errorSummary retryableErrors =
     (if length retryableErrors > 0
      then ''Errors encountered: '' @ join '', '' (new_Set retryableErrors)
      else ''Unknown errors'')"

definition last_message :: "js_error option \<Rightarrow> string" where
  "last_message lastError =
     (case lastError of
        None \<Rightarrow> ''Unknown error''
      | Some e \<Rightarrow> str_or_lit (str_or (e_message e) (e_error_message e)) ''Unknown error'')"

definition all_failed :: "js_error option \<Rightarrow> jsval list \<Rightarrow> js_error" where
  "all_failed lastError retryableErrors =
     new_Error (''All models failed. '' @ errorSummary retryableErrors @ ''. Last error: ''
                @ last_message lastError)"

text \<open>
  The operation is a call to the model provider: it takes the model identifier and the
  state of the world \<open>'w\<close>, and returns the response or the thrown error together with
  the world after the call.
\<close>

type_synonym ('a, 'w) operation = "string \<Rightarrow> 'w \<Rightarrow> (js_error + 'a) \<times> 'w"

record 'a fallback_result =
  result :: 'a
  model :: string

text \<open>
  The \<^verbatim>\<open>for (const model of models)\<close> loop with its two local variables. \<^const>\<open>Inl\<close> is a
  thrown error. The console output is not modelled.
\<close>

fun tryLoop :: "('a, 'w) operation \<Rightarrow> string list \<Rightarrow> js_error option \<Rightarrow> jsval list \<Rightarrow> 'w
    \<Rightarrow> (js_error + 'a fallback_result) \<times> 'w" where
  "tryLoop operation [] lastError retryableErrors w =
     (Inl (all_failed lastError retryableErrors), w)"
| "tryLoop operation (m # ms) lastError retryableErrors w =
     (case operation m w of
        (Inr r, w') \<Rightarrow> (Inr \<lparr>result = r, model = m\<rparr>, w')
      | (Inl error, w') \<Rightarrow>
          (let status = extract_status error;
               message = extract_message error
           in if isRetryable status message
              then tryLoop operation ms (Some error) (retryableErrors @ [js_or status (JNum 0)]) w'
              else (Inl error, w')))"

definition tryWithFallback :: "string list \<Rightarrow> ('a, 'w) operation \<Rightarrow> 'w
    \<Rightarrow> (js_error + 'a fallback_result) \<times> 'w" where
  "tryWithFallback models operation w = tryLoop operation models None [] w"

subsection \<open>Instrumentation and characterisation of runs\<close>

text \<open>
  \<open>logged operation\<close> is \<open>operation\<close> with the world extended by the list of the
  candidates it has been invoked with, in invocation order.
\<close>

definition logged :: "('a, 'w) operation \<Rightarrow> ('a, 'w \<times> string list) operation" where
  "logged operation m = (\<lambda>(w, calls). case operation m w of (r, w') \<Rightarrow> (r, (w', calls @ [m])))"

text \<open>
  \<open>retryable_failures operation ms w = Some (errs, w')\<close>: invoked one after the other
  from the world \<open>w\<close>, every candidate of \<open>ms\<close> fails with an error that
  \<^const>\<open>isRetryable\<close> accepts; \<open>errs\<close> are these errors in order and \<open>w'\<close> is the world
  after the last call.
\<close>

fun retryable_failures :: "('a, 'w) operation \<Rightarrow> string list \<Rightarrow> 'w
    \<Rightarrow> (js_error list \<times> 'w) option" where
  "retryable_failures operation [] w = Some ([], w)"
| "retryable_failures operation (m # ms) w =
     (case operation m w of
        (Inr r, w') \<Rightarrow> None
      | (Inl error, w') \<Rightarrow>
          if isRetryable (extract_status error) (extract_message error)
          then (case retryable_failures operation ms w' of
                  None \<Rightarrow> None
                | Some (errs, w'') \<Rightarrow> Some (error # errs, w''))
          else None)"

text \<open>The code the loop records for an error: \<^verbatim>\<open>status || 0\<close>.\<close>

definition recorded_status :: "js_error \<Rightarrow> jsval" where
  "recorded_status error = js_or (extract_status error) (JNum 0)"

definition last_option :: "'a list \<Rightarrow> 'a option \<Rightarrow> 'a option" where
  "last_option xs d = (if xs = [] then d else Some (last xs))"

text \<open>The message of the aggregate error after the attempts failed with \<open>errs\<close>.\<close>

definition aggregate_message :: "js_error list \<Rightarrow> string" where
  "aggregate_message errs =
     ''All models failed. Errors encountered: '' @
     join '', '' (new_Set (map recorded_status errs)) @
     ''. Last error: '' @ last_message (Some (last errs))"

subsection \<open>Example providers\<close>

definition api_error :: "int \<Rightarrow> string \<Rightarrow> js_error" where
  "api_error st msg = \<lparr>e_status = JNum st, e_code = JUndefined, e_error_code = JUndefined,
     e_message = Some msg, e_error_message = None\<rparr>"

text \<open>
  Three providers whose world is the number of calls made. With the first, two
  candidates are unavailable and every other one answers; with the second, the
  candidate \<^verbatim>\<open>model-b\<close> rejects the credential; with the third, no candidate is reachable.
\<close>

definition third_answers :: "(string, nat) operation" where
  "third_answers m n =
     (if m = ''model-a'' then (Inl (api_error 404 ''models/model-a is not found''), Suc n)
      else if m = ''model-b'' then (Inl (api_error 429 ''You exceeded your current quota''), Suc n)
      else (Inr (''response of '' @ m), Suc n))"

definition second_rejects :: "(string, nat) operation" where
  "second_rejects m n =
     (if m = ''model-a'' then (Inl (api_error 404 ''models/model-a is not found''), Suc n)
      else if m = ''model-b'' then (Inl (api_error 401 ''API key not valid''), Suc n)
      else (Inr (''response of '' @ m), Suc n))"

definition none_reachable :: "(string, nat) operation" where
  "none_reachable m n =
     (if m = ''model-b'' then (Inl (api_error 429 ''You exceeded your current quota''), Suc n)
      else (Inl (api_error 404 ''models/x is not found''), Suc n))"

section \<open>The card data model (types.ts)\<close>

text \<open>
  A number is the real that the double denotes (the cards hold finite numbers):
  comparison and truthiness of a price are exact. Where the source adds numbers, the
  addition is a parameter. Optional properties are options; \<^const>\<open>None\<close> stands for an
  absent property (and for \<^verbatim>\<open>null\<close> in a parsed response).
\<close>

datatype StrictnessLevel = Relaxed | Standard | Strict

datatype TCGPlayerCondition = NM | LP | MP | HP | DMG

record CardGrading =
  centering :: TCGPlayerCondition
  centeringReasoning :: string
  corners :: TCGPlayerCondition
  cornersReasoning :: string
  edges :: TCGPlayerCondition
  edgesReasoning :: string
  surface :: TCGPlayerCondition
  surfaceReasoning :: string
  overallCondition :: TCGPlayerCondition
  overallNotes :: string

record AgentOpinion =
  agent_id :: string
  agent_name :: string
  persona :: string
  price :: real
  reasoning :: string
  confidence :: real

record Agents =
  conservative :: AgentOpinion
  market :: AgentOpinion
  speculative :: AgentOpinion

record PriceRange =
  low :: real
  mid :: real
  high :: real

record PricePoint =
  pp_date :: string
  pp_price :: real
  pp_source :: string
  pp_condition :: "TCGPlayerCondition option"

record TCGPlayerPrices =
  tp_low :: "real option"
  tp_mid :: "real option"
  tp_high :: "real option"
  tp_market :: "real option"

record TCGPlayerData =
  productId :: int
  tp_url :: string
  prices :: "TCGPlayerPrices option"
  tp_lastUpdated :: string

record MarketLink =
  link_url :: string
  link_lastUpdated :: string

record MarketData =
  tcgplayer :: "TCGPlayerData option"
  ebay_data :: "MarketLink option"
  cardmarket :: "MarketLink option"
  cacheExpiry :: "string option"

record ListingCopy =
  title :: "string option"
  ebay :: "string option"
  tcg :: "string option"

record ListingInfo =
  listedDate :: "string option"
  soldDate :: "string option"
  listingPrice :: "real option"
  soldPrice :: "real option"
  platforms :: "string list option"
  listingUrls :: "(string \<times> string) list option"
  listingCopy :: "ListingCopy option"
  listing_notes :: "string option"

datatype CardStatus = Inventory | Listing | Sold

record CardMetadata =
  card_id :: string
  game :: string
  card_name :: string
  card_set :: string
  cardNumber :: string
  rarity :: string
  isHolo :: bool
  grading :: CardGrading
  strictness :: StrictnessLevel
  images :: "string list"
  status :: CardStatus
  tags :: "string list"
  suggestedPrice :: PriceRange
  agents :: Agents
  historicalData :: "PricePoint list"
  groundingSources :: "(string \<times> string) list"
  cardIdentifier :: "string option"
  marketData :: "MarketData option"
  listingInfo :: "ListingInfo option"

text \<open>\<^verbatim>\<open>a || b\<close> on an optional number: absent and \<open>0\<close> are both falsy.\<close>

definition num_or :: "real option \<Rightarrow> real \<Rightarrow> real" where
  "num_or a d = (case a of Some x \<Rightarrow> (if x \<noteq> 0 then x else d) | None \<Rightarrow> d)"

text \<open>\<^verbatim>\<open>card.listingInfo?.p\<close> for an optional property \<open>p\<close>.\<close>

definition listing_prop :: "(ListingInfo \<Rightarrow> 'a option) \<Rightarrow> CardMetadata \<Rightarrow> 'a option" where
  "listing_prop p c = (case listingInfo c of None \<Rightarrow> None | Some li \<Rightarrow> p li)"

section \<open>The derived view of the listing manager (components/ListingsManager.tsx)\<close>

text \<open>
  \<^verbatim>\<open>a < b\<close> on two strings: lexicographic on the character codes, a proper prefix is
  smaller. A character is a byte here; on ASCII strings, such as ISO dates, this is the
  order of the source.
\<close>

fun str_lt :: "string \<Rightarrow> string \<Rightarrow> bool" where
  "str_lt [] [] = False"
| "str_lt [] (y # ys) = True"
| "str_lt (x # xs) [] = False"
| "str_lt (x # xs) (y # ys) =
     ((of_char x :: nat) < of_char y \<or> (x = y \<and> str_lt xs ys))"

datatype StatusFilter = All_statuses | Only CardStatus

datatype SortField = By_name | By_price | By_date | By_status

datatype SortDirection = Asc | Desc

text \<open>The status as the string the source compares.\<close>

fun status_string :: "CardStatus \<Rightarrow> string" where
  "status_string Inventory = ''inventory''"
| "status_string Listing = ''listing''"
| "status_string Sold = ''sold''"

text \<open>
  The values \<^verbatim>\<open>aVal\<close> and \<^verbatim>\<open>bVal\<close> of the comparator: a string or a number, by the sort
  field.
\<close>

datatype sort_value = VStr string | VNum real

text \<open>
  \<^verbatim>\<open>aVal < bVal\<close>. Both values come from the same branch of the \<^verbatim>\<open>switch\<close>, so they are
  two strings or two numbers; the mixed cases do not arise.
\<close>

fun js_lt :: "sort_value \<Rightarrow> sort_value \<Rightarrow> bool" where
  "js_lt (VStr a) (VStr b) = str_lt a b"
| "js_lt (VNum a) (VNum b) = (a < b)"
| "js_lt (VStr a) (VNum b) = False"
| "js_lt (VNum a) (VStr b) = False"

text \<open>\<^verbatim>\<open>c.listingInfo?.listingPrice || c.suggestedPrice.mid\<close>\<close>

definition priceValue :: "CardMetadata \<Rightarrow> real" where
  "priceValue c = num_or (listing_prop listingPrice c) (mid (suggestedPrice c))"

text \<open>\<^verbatim>\<open>c.listingInfo?.listedDate || c.listingInfo?.soldDate || ''\<close>\<close>

definition dateValue :: "CardMetadata \<Rightarrow> string" where
  "dateValue c = str_or_lit (str_or (listing_prop listedDate c) (listing_prop soldDate c)) []"

fun sortValue :: "SortField \<Rightarrow> CardMetadata \<Rightarrow> sort_value" where
  "sortValue By_name c = VStr (card_name c)"
| "sortValue By_price c = VNum (priceValue c)"
| "sortValue By_date c = VStr (dateValue c)"
| "sortValue By_status c = VStr (status_string (status c))"

text \<open>
  The comparator passed to \<^verbatim>\<open>sort\<close>. The \<^verbatim>\<open>default\<close> branch of its \<^verbatim>\<open>switch\<close> is not
  reached: the sort field is one of the four.
\<close>

definition compareCards :: "SortField \<Rightarrow> SortDirection \<Rightarrow> CardMetadata \<Rightarrow> CardMetadata \<Rightarrow> int" where
  "compareCards sortField sortDirection a b =
     (let aVal = sortValue sortField a;
          bVal = sortValue sortField b
      in if js_lt aVal bVal then (if sortDirection = Asc then - 1 else 1)
         else if js_lt bVal aVal then (if sortDirection = Asc then 1 else - 1)
         else 0)"

text \<open>
  \<^verbatim>\<open>Array.prototype.sort\<close> is a stable sort (ECMAScript 2019): with a consistent
  comparator its result is the sorted arrangement in which elements that compare equal
  keep their order. It is modelled by insertion from the right, an element going in
  front of the first element it does not compare greater than.
\<close>

fun insert_sorted :: "('a \<Rightarrow> 'a \<Rightarrow> int) \<Rightarrow> 'a \<Rightarrow> 'a list \<Rightarrow> 'a list" where
  "insert_sorted cmp x [] = [x]"
| "insert_sorted cmp x (y # ys) =
     (if cmp x y \<le> 0 then x # y # ys else y # insert_sorted cmp x ys)"

definition Array_sort :: "('a \<Rightarrow> 'a \<Rightarrow> int) \<Rightarrow> 'a list \<Rightarrow> 'a list" where
  "Array_sort cmp xs = foldr (insert_sorted cmp) xs []"

text \<open>
  \<^verbatim>\<open>String.prototype.toLowerCase\<close> is a parameter of the filter, \<open>toLowerCase\<close>: the
  lower-casing of the runtime, on every cased letter. The predicate of the search
  filter, for the lower-cased query:
\<close>

definition matchesQuery :: "(string \<Rightarrow> string) \<Rightarrow> string \<Rightarrow> CardMetadata \<Rightarrow> bool" where
  "matchesQuery toLowerCase query c \<longleftrightarrow>
     str_includes (toLowerCase (card_name c)) query \<or>
     str_includes (toLowerCase (card_set c)) query \<or>
     str_includes (toLowerCase (cardNumber c)) query \<or>
     str_includes (toLowerCase (game c)) query"

text \<open>The two filter steps of \<^verbatim>\<open>filteredCards\<close>, before the sort.\<close>

definition filterCards :: "(string \<Rightarrow> string) \<Rightarrow> CardMetadata list \<Rightarrow> StatusFilter \<Rightarrow> string
    \<Rightarrow> CardMetadata list" where
  "filterCards toLowerCase inventory statusFilter searchQuery =
     (let filtered = inventory;
          filtered = (if statusFilter \<noteq> All_statuses
                      then filter (\<lambda>c. Only (status c) = statusFilter) filtered
                      else filtered);
          filtered = (if searchQuery \<noteq> []
                      then (let query = toLowerCase searchQuery
                            in filter (matchesQuery toLowerCase query) filtered)
                      else filtered)
      in filtered)"

definition filteredCards :: "(string \<Rightarrow> string) \<Rightarrow> CardMetadata list \<Rightarrow> StatusFilter \<Rightarrow> string
    \<Rightarrow> SortField \<Rightarrow> SortDirection \<Rightarrow> CardMetadata list" where
  "filteredCards toLowerCase inventory statusFilter searchQuery sortField sortDirection =
     Array_sort (compareCards sortField sortDirection)
       (filterCards toLowerCase inventory statusFilter searchQuery)"

record Stats =
  stat_all :: nat
  stat_inventory :: nat
  stat_listing :: nat
  stat_sold :: nat
  totalValue :: real

text \<open>
  The \<^verbatim>\<open>stats\<close> memo, a function of the filtered and sorted cards. The source adds the
  values as IEEE doubles, from 0 and in the order of the view, each sum rounded; this
  addition of two numbers is the parameter \<open>fadd\<close>.
\<close>

definition stats :: "(real \<Rightarrow> real \<Rightarrow> real) \<Rightarrow> CardMetadata list \<Rightarrow> Stats" where
  "stats fadd cards =
     \<lparr>stat_all = length cards,
      stat_inventory = length (filter (\<lambda>c. status c = Inventory) cards),
      stat_listing = length (filter (\<lambda>c. status c = Listing) cards),
      stat_sold = length (filter (\<lambda>c. status c = Sold) cards),
      totalValue = foldl (\<lambda>sum c. fadd sum (priceValue c)) 0 cards\<rparr>"

subsection \<open>The sort values and the total as the specification words them\<close>

text \<open>
  The specification's wording of the price: the listing price if set, else the suggested
  mid price; and of the date: the listed date, else the sold date, else the empty string.
  They differ from \<^const>\<open>priceValue\<close> and \<^const>\<open>dateValue\<close> where a property is present and
  falsy.
\<close>

definition spec_priceKey :: "CardMetadata \<Rightarrow> real" where
  "spec_priceKey c =
     (case listing_prop listingPrice c of Some p \<Rightarrow> p | None \<Rightarrow> mid (suggestedPrice c))"

definition spec_dateKey :: "CardMetadata \<Rightarrow> string" where
  "spec_dateKey c =
     (case listing_prop listedDate c of
        Some d \<Rightarrow> d
      | None \<Rightarrow> (case listing_prop soldDate c of Some d \<Rightarrow> d | None \<Rightarrow> []))"

definition spec_totalValue :: "(real \<Rightarrow> real \<Rightarrow> real) \<Rightarrow> CardMetadata list \<Rightarrow> real" where
  "spec_totalValue fadd cards = foldl (\<lambda>sum c. fadd sum (spec_priceKey c)) 0 cards"

subsection \<open>Example runtime and cards\<close>

text \<open>
  The examples use ASCII strings and small whole numbers. On ASCII strings
  \<^verbatim>\<open>toLowerCase\<close> maps the letters A to Z to a to z and leaves every other character; on
  whole numbers of this size the addition of doubles is exact.
\<close>

definition lower_char :: "char \<Rightarrow> char" where
  "lower_char c =
     (case map_of (zip ''ABCDEFGHIJKLMNOPQRSTUVWXYZ'' ''abcdefghijklmnopqrstuvwxyz'') c of
        None \<Rightarrow> c
      | Some l \<Rightarrow> l)"

definition ascii_toLowerCase :: "string \<Rightarrow> string" where
  "ascii_toLowerCase s = map lower_char s"

definition exact_add :: "real \<Rightarrow> real \<Rightarrow> real" where
  "exact_add a b = a + b"

definition blank_grading :: CardGrading where
  "blank_grading =
     \<lparr>centering = NM, centeringReasoning = [], corners = NM, cornersReasoning = [],
      edges = NM, edgesReasoning = [], surface = NM, surfaceReasoning = [],
      overallCondition = NM, overallNotes = []\<rparr>"

definition blank_agent :: AgentOpinion where
  "blank_agent =
     \<lparr>agent_id = [], agent_name = [], persona = [], price = 0, reasoning = [], confidence = 0\<rparr>"

definition blank_listing :: ListingInfo where
  "blank_listing =
     \<lparr>listedDate = None, soldDate = None, listingPrice = None, soldPrice = None,
      platforms = None, listingUrls = None, listingCopy = None, listing_notes = None\<rparr>"

definition blank_card :: CardMetadata where
  "blank_card =
     \<lparr>card_id = [], game = ''Pokemon'', card_name = ''Pikachu'', card_set = ''Base Set'',
      cardNumber = ''58'', rarity = ''Common'', isHolo = False, grading = blank_grading,
      strictness = Standard, images = [], status = Inventory, tags = [],
      suggestedPrice = \<lparr>low = 4, mid = 5, high = 6\<rparr>,
      agents = \<lparr>conservative = blank_agent, market = blank_agent, speculative = blank_agent\<rparr>,
      historicalData = [], groundingSources = [], cardIdentifier = None, marketData = None,
      listingInfo = None\<rparr>"

text \<open>
  Three cards for the sort: \<open>card_A\<close> was listed and \<open>card_C\<close> was sold on the same day,
  \<open>card_B\<close> has no listing information.
\<close>

definition card_A :: CardMetadata where
  "card_A = blank_card\<lparr>card_id := ''A'', status := Listing,
     listingInfo := Some (blank_listing\<lparr>listedDate := Some ''2024-01-01''\<rparr>)\<rparr>"

definition card_B :: CardMetadata where
  "card_B = blank_card\<lparr>card_id := ''B''\<rparr>"

definition card_C :: CardMetadata where
  "card_C = blank_card\<lparr>card_id := ''C'', status := Sold,
     listingInfo := Some (blank_listing\<lparr>soldDate := Some ''2024-01-01''\<rparr>)\<rparr>"

text \<open>A card listed at the price 0, and a sold card with a listing price.\<close>

definition free_listing :: CardMetadata where
  "free_listing = blank_card\<lparr>card_id := ''F'', status := Listing,
     listingInfo := Some (blank_listing\<lparr>listingPrice := Some 0\<rparr>)\<rparr>"

definition give_away :: CardMetadata where
  "give_away = blank_card\<lparr>card_id := ''G'', card_name := ''Charizard'', status := Listing,
     listingInfo := Some (blank_listing\<lparr>listingPrice := Some 0\<rparr>)\<rparr>"

definition card_D :: CardMetadata where
  "card_D = blank_card\<lparr>card_id := ''D'', card_name := ''Charizard'', status := Sold,
     listingInfo := Some (blank_listing\<lparr>listingPrice := Some 120\<rparr>)\<rparr>"

definition card_E :: CardMetadata where
  "card_E = blank_card\<lparr>card_id := ''E''\<rparr>"

text \<open>A collection with the statuses inventory, inventory, listing, sold, sold.\<close>

definition five_cards :: "CardMetadata list" where
  "five_cards = [card_B, card_E, card_A, card_C, card_D]"

section \<open>Grading and listing copy (services/geminiService.ts, components)\<close>

text \<open>
  A thrown value: an error of the provider or of the fallback invoker, the
  \<^verbatim>\<open>SyntaxError\<close> of \<^verbatim>\<open>JSON.parse\<close>, a \<^verbatim>\<open>TypeError\<close>, or a rejected request.
\<close>

datatype exn = Thrown js_error | SyntaxError | TypeError | NetworkError

text \<open>
  \<^verbatim>\<open>Partial<CardMetadata>\<close>, the parsed response of the grading request: every property
  may be absent.
\<close>

record PartialCard =
  p_game :: "string option"
  p_name :: "string option"
  p_set :: "string option"
  p_cardNumber :: "string option"
  p_rarity :: "string option"
  p_isHolo :: "bool option"
  p_grading :: "CardGrading option"
  p_strictness :: "StrictnessLevel option"
  p_suggestedPrice :: "PriceRange option"
  p_agents :: "Agents option"
  p_historicalData :: "PricePoint list option"
  p_groundingSources :: "(string \<times> string) list option"
  p_cardIdentifier :: "string option"

definition ANALYSIS_MODELS :: "string list" where
  "ANALYSIS_MODELS =
     [''gemini-2.5-flash'', ''gemini-3-flash-preview'', ''gemini-2.0-flash-lite'',
      ''gemini-2.5-flash-preview-09-2025'', ''gemini-2.5-flash-lite-preview-09-2025'']"

definition LISTING_MODELS :: "string list" where
  "LISTING_MODELS =
     [''gemini-2.5-flash'', ''gemini-3-flash-preview'', ''gemini-2.0-flash-lite'',
      ''gemini-2.5-flash-preview-09-2025'', ''gemini-2.5-flash-lite-preview-09-2025'']"

text \<open>
  \<^verbatim>\<open>preferredModel ? [preferredModel, ...MODELS.filter(m => m !== preferredModel)] : MODELS\<close>
\<close>

definition candidate_models :: "string list \<Rightarrow> string option \<Rightarrow> string list" where
  "candidate_models MODELS preferredModel =
     (case preferredModel of
        None \<Rightarrow> MODELS
      | Some p \<Rightarrow> if p \<noteq> [] then p # filter (\<lambda>m. m \<noteq> p) MODELS else MODELS)"

text \<open>
  \<^verbatim>\<open>analyzeCard\<close>. The request (images, prompt, response schema) is the same for every
  candidate, so the call \<^verbatim>\<open>ai.models.generateContent\<close> is an operation on the model
  identifier that returns the text of the response. \<^verbatim>\<open>JSON.parse\<close> is a parameter:
  \<^const>\<open>None\<close> where it throws, else the parsed object read at the declared type.
\<close>

definition analyzeCard :: "(string \<Rightarrow> PartialCard option) \<Rightarrow> StrictnessLevel \<Rightarrow> string option
    \<Rightarrow> (string, 'w) operation \<Rightarrow> 'w \<Rightarrow> (exn + PartialCard) \<times> 'w" where
  "analyzeCard JSON_parse strictness' preferredModel generateContent w =
     (case tryWithFallback (candidate_models ANALYSIS_MODELS preferredModel) generateContent w of
        (Inl e, w') \<Rightarrow> (Inl (Thrown e), w')
      | (Inr response, w') \<Rightarrow>
          (case JSON_parse (result response) of
             None \<Rightarrow> (Inl SyntaxError, w')
           | Some data \<Rightarrow>
               (Inr (data\<lparr>p_strictness := Some strictness', p_groundingSources := Some []\<rparr>), w')))"

subsection \<open>The scanner (startAnalysis)\<close>

text \<open>\<^verbatim>\<open>a || d\<close> for an optional object or array (always truthy when present).\<close>

definition obj_or :: "'a option \<Rightarrow> 'a \<Rightarrow> 'a" where
  "obj_or a d = (case a of Some x \<Rightarrow> x | None \<Rightarrow> d)"

text \<open>\<^verbatim>\<open>a || false\<close>\<close>

definition bool_or_false :: "bool option \<Rightarrow> bool" where
  "bool_or_false a = (case a of Some b \<Rightarrow> b | None \<Rightarrow> False)"

definition default_grading :: CardGrading where
  "default_grading =
     \<lparr>centering = NM, centeringReasoning = [], corners = NM, cornersReasoning = [],
      edges = NM, edgesReasoning = [], surface = NM, surfaceReasoning = [],
      overallCondition = NM, overallNotes = []\<rparr>"

definition default_agents :: Agents where
  "default_agents =
     \<lparr>conservative = \<lparr>agent_id = ''1'', agent_name = ''Shopkeeper'', persona = ''Conservative'',
                       price = 0, reasoning = [], confidence = 0\<rparr>,
      market = \<lparr>agent_id = ''2'', agent_name = ''Collector'', persona = ''Market'',
                 price = 0, reasoning = [], confidence = 0\<rparr>,
      speculative = \<lparr>agent_id = ''3'', agent_name = ''Investor'', persona = ''Speculative'',
                      price = 0, reasoning = [], confidence = 0\<rparr>\<rparr>"

text \<open>
  The object literal \<^verbatim>\<open>newCard\<close>. The identifier drawn from \<^verbatim>\<open>Math.random\<close> is a parameter.
\<close>

definition newCard :: "string \<Rightarrow> StrictnessLevel \<Rightarrow> string list \<Rightarrow> PartialCard \<Rightarrow> CardMetadata" where
  "newCard new_id strictness' capturedImages res =
     \<lparr>card_id = new_id,
      game = str_or_lit (p_game res) ''Unknown TCG'',
      card_name = str_or_lit (p_name res) ''Unknown Card'',
      card_set = str_or_lit (p_set res) ''Unknown Set'',
      cardNumber = str_or_lit (p_cardNumber res) ''???'',
      rarity = str_or_lit (p_rarity res) ''Common'',
      isHolo = bool_or_false (p_isHolo res),
      grading = obj_or (p_grading res) default_grading,
      strictness = strictness',
      images = capturedImages,
      status = Inventory,
      tags = [],
      suggestedPrice = obj_or (p_suggestedPrice res) \<lparr>low = 0, mid = 0, high = 0\<rparr>,
      agents = obj_or (p_agents res) default_agents,
      historicalData = obj_or (p_historicalData res) [],
      groundingSources = obj_or (p_groundingSources res) [],
      cardIdentifier = Some (str_or_lit (p_cardIdentifier res) []),
      marketData = None,
      listingInfo = None\<rparr>"

text \<open>
  What \<^verbatim>\<open>startAnalysis\<close> does: nothing without an image, else it hands the new card to
  \<^verbatim>\<open>onCardAnalyzed\<close> or, when anything was thrown, sets the error message. The request
  for market data in the background, which sets \<^verbatim>\<open>marketData\<close> on the card when it
  returns, is not modelled.
\<close>

datatype scan_outcome = Not_started | Analyzed CardMetadata | Scan_error string

definition startAnalysis :: "(string \<Rightarrow> PartialCard option) \<Rightarrow> string \<Rightarrow> StrictnessLevel
    \<Rightarrow> string option \<Rightarrow> string list \<Rightarrow> (string, 'w) operation \<Rightarrow> 'w \<Rightarrow> scan_outcome \<times> 'w" where
  "startAnalysis JSON_parse new_id strictness' analysisModel capturedImages generateContent w =
     (if length capturedImages = 0 then (Not_started, w)
      else (case analyzeCard JSON_parse strictness' analysisModel generateContent w of
              (Inl err, w') \<Rightarrow>
                (Scan_error ''Failed to analyze card. Check connection and image clarity.'', w')
            | (Inr res, w') \<Rightarrow> (Analyzed (newCard new_id strictness' capturedImages res), w')))"

subsection \<open>Regrading (handleRegrade)\<close>

text \<open>The object literal \<^verbatim>\<open>updatedCard\<close>.\<close>

definition updatedCard :: "CardMetadata \<Rightarrow> PartialCard \<Rightarrow> CardMetadata" where
  "updatedCard editedCard res =
     editedCard\<lparr>grading := obj_or (p_grading res) (grading editedCard),
                suggestedPrice := obj_or (p_suggestedPrice res) (suggestedPrice editedCard),
                agents := obj_or (p_agents res) (agents editedCard)\<rparr>"

text \<open>
  \<^verbatim>\<open>handleRegrade\<close>. The conversion of the images to base64 (a split of a data URL or a
  download) is an operation on the world that returns the converted images, the empty
  string for an image that could not be converted.
\<close>

datatype regrade_outcome = No_images | Regraded CardMetadata | Regrade_failed

definition handleRegrade :: "(string \<Rightarrow> PartialCard option) \<Rightarrow> string option
    \<Rightarrow> (string list \<Rightarrow> 'w \<Rightarrow> string list \<times> 'w) \<Rightarrow> (string, 'w) operation
    \<Rightarrow> CardMetadata \<Rightarrow> 'w \<Rightarrow> regrade_outcome \<times> 'w" where
  "handleRegrade JSON_parse analysisModel convertImages generateContent editedCard w =
     (if length (images editedCard) = 0 then (No_images, w)
      else (case convertImages (images editedCard) w of
              (base64Images, w1) \<Rightarrow>
                (let validImages = filter (\<lambda>img. length img > 0) base64Images
                 in if length validImages = 0 then (Regrade_failed, w1)
                    else (case analyzeCard JSON_parse (strictness editedCard) analysisModel
                                 generateContent w1 of
                            (Inl err, w2) \<Rightarrow> (Regrade_failed, w2)
                          | (Inr res, w2) \<Rightarrow> (Regraded (updatedCard editedCard res), w2)))))"

text \<open>
  The merge as the specification words it: the reconciled grading, pricing, identifier
  and agents replace the fields of the card.
\<close>

definition spec_merge :: "CardMetadata \<Rightarrow> PartialCard \<Rightarrow> CardMetadata" where
  "spec_merge editedCard res =
     editedCard\<lparr>grading := obj_or (p_grading res) default_grading,
                suggestedPrice := obj_or (p_suggestedPrice res) \<lparr>low = 0, mid = 0, high = 0\<rparr>,
                agents := obj_or (p_agents res) default_agents,
                cardIdentifier := Some (str_or_lit (p_cardIdentifier res) [])\<rparr>"

subsection \<open>Listing copy (generateListingCopy)\<close>

text \<open>
  \<^verbatim>\<open>generateListingCopy\<close> returns what \<^verbatim>\<open>JSON.parse\<close> gives; the three properties are
  options because nothing checks them.
\<close>

definition generateListingCopy :: "(string \<Rightarrow> ListingCopy option) \<Rightarrow> string option
    \<Rightarrow> (string, 'w) operation \<Rightarrow> 'w \<Rightarrow> (exn + ListingCopy) \<times> 'w" where
  "generateListingCopy JSON_parse preferredModel generateContent w =
     (case tryWithFallback (candidate_models LISTING_MODELS preferredModel) generateContent w of
        (Inl e, w') \<Rightarrow> (Inl (Thrown e), w')
      | (Inr response, w') \<Rightarrow>
          (case JSON_parse (result response) of
             None \<Rightarrow> (Inl SyntaxError, w')
           | Some copy \<Rightarrow> (Inr copy, w')))"

text \<open>The contract of the specification: all three fields present.\<close>

definition complete_copy :: "ListingCopy \<Rightarrow> bool" where
  "complete_copy copy \<longleftrightarrow> title copy \<noteq> None \<and> ebay copy \<noteq> None \<and> tcg copy \<noteq> None"

subsection \<open>Example responses\<close>

definition quoted :: "string \<Rightarrow> string" where
  "quoted s = [char_of (34::nat)] @ s @ [char_of (34::nat)]"

text \<open>
  The text \<^verbatim>\<open>{"name":"Pikachu","cardIdentifier":"BS-58"}\<close> and the readings of a parser that
  accepts it as a grading response.
\<close>

definition name_only_text :: string where
  "name_only_text = ''{'' @ quoted ''name'' @ '':'' @ quoted ''Pikachu'' @ '','' @
     quoted ''cardIdentifier'' @ '':'' @ quoted ''BS-58'' @ ''}''"

definition empty_partial :: PartialCard where
  "empty_partial =
     \<lparr>p_game = None, p_name = None, p_set = None, p_cardNumber = None, p_rarity = None,
      p_isHolo = None, p_grading = None, p_strictness = None, p_suggestedPrice = None,
      p_agents = None, p_historicalData = None, p_groundingSources = None,
      p_cardIdentifier = None\<rparr>"

definition name_only :: PartialCard where
  "name_only = empty_partial\<lparr>p_name := Some ''Pikachu'', p_cardIdentifier := Some ''BS-58''\<rparr>"

text \<open>
  A response that carries a grading, a price triple and an identifier, and no agents:
  the text
  \<^verbatim>\<open>{"grading":{"centering":"LP","centeringReasoning":"off-centre",...},\<close>
  \<^verbatim>\<open>"suggestedPrice":{"low":10,"mid":12,"high":15},"cardIdentifier":"BS-58"}\<close>.
\<close>

definition lp_grading :: CardGrading where
  "lp_grading =
     \<lparr>centering = LP, centeringReasoning = ''off-centre'', corners = LP,
      cornersReasoning = ''soft'', edges = NM, edgesReasoning = ''clean'', surface = LP,
      surfaceReasoning = ''scratch'', overallCondition = LP, overallNotes = ''played''\<rparr>"

definition json_string_field :: "string \<Rightarrow> string \<Rightarrow> string" where
  "json_string_field k v = quoted k @ '':'' @ quoted v"

definition regrade_text :: string where
  "regrade_text =
     ''{'' @ quoted ''grading'' @ '':{'' @
       json_string_field ''centering'' ''LP'' @ '','' @
       json_string_field ''centeringReasoning'' ''off-centre'' @ '','' @
       json_string_field ''corners'' ''LP'' @ '','' @
       json_string_field ''cornersReasoning'' ''soft'' @ '','' @
       json_string_field ''edges'' ''NM'' @ '','' @
       json_string_field ''edgesReasoning'' ''clean'' @ '','' @
       json_string_field ''surface'' ''LP'' @ '','' @
       json_string_field ''surfaceReasoning'' ''scratch'' @ '','' @
       json_string_field ''overallCondition'' ''LP'' @ '','' @
       json_string_field ''overallNotes'' ''played'' @ ''},'' @
     quoted ''suggestedPrice'' @ '':{'' @ quoted ''low'' @ '':10,'' @ quoted ''mid'' @ '':12,'' @
       quoted ''high'' @ '':15},'' @
     json_string_field ''cardIdentifier'' ''BS-58'' @ ''}''"

definition regrade_response :: PartialCard where
  "regrade_response =
     empty_partial\<lparr>p_grading := Some lp_grading,
       p_suggestedPrice := Some \<lparr>low = 10, mid = 12, high = 15\<rparr>,
       p_cardIdentifier := Some ''BS-58''\<rparr>"

definition parse_grading_example :: "string \<Rightarrow> PartialCard option" where
  "parse_grading_example text =
     (if text = name_only_text then Some name_only
      else if text = regrade_text then Some regrade_response
      else None)"

definition first_answers :: "string \<Rightarrow> (string, nat) operation" where
  "first_answers text m n = (Inr text, Suc n)"

text \<open>The text \<^verbatim>\<open>{"title":"Pikachu"}\<close> as a response to the listing request.\<close>

definition title_only_text :: string where
  "title_only_text = ''{'' @ quoted ''title'' @ '':'' @ quoted ''Pikachu'' @ ''}''"

definition title_only :: ListingCopy where
  "title_only = \<lparr>title = Some ''Pikachu'', ebay = None, tcg = None\<rparr>"

definition parse_listing_example :: "string \<Rightarrow> ListingCopy option" where
  "parse_listing_example text = (if text = title_only_text then Some title_only else None)"

definition keep_images :: "string list \<Rightarrow> nat \<Rightarrow> string list \<times> nat" where
  "keep_images imgs n = (imgs, n)"

text \<open>A listed card with two images and an identifier.\<close>

definition listed_card :: CardMetadata where
  "listed_card = blank_card\<lparr>card_id := ''L'', images := [''url1'', ''url2''], status := Listing,
     cardIdentifier := Some ''OLD-1''\<rparr>"

section \<open>Market data (services/marketDataService.ts)\<close>

definition CACHE_DURATION_MS :: int where
  "CACHE_DURATION_MS = 24 * 60 * 60 * 1000"

text \<open>
  The built-in functions the service calls, as parameters: \<^verbatim>\<open>new Date(s).getTime()\<close>
  (\<^const>\<open>None\<close> for \<^verbatim>\<open>NaN\<close>, which compares greater than nothing),
  \<^verbatim>\<open>new Date(t).toISOString()\<close> and \<^verbatim>\<open>encodeURIComponent\<close>. Times are milliseconds.
\<close>

record js_runtime =
  Date_getTime :: "string \<Rightarrow> int option"
  toISOString :: "int \<Rightarrow> string"
  encodeURIComponent :: "string \<Rightarrow> string"

definition getEbaySearchUrl :: "js_runtime \<Rightarrow> CardMetadata \<Rightarrow> string" where
  "getEbaySearchUrl rt c =
     ''https://www.ebay.com/sch/i.html?_nkw='' @
     encodeURIComponent rt (card_name c @ '' '' @ card_set c @ '' '' @ cardNumber c)"

definition getCardmarketSearchUrl :: "js_runtime \<Rightarrow> CardMetadata \<Rightarrow> string" where
  "getCardmarketSearchUrl rt c =
     ''https://www.cardmarket.com/en/'' @ game c @ ''/Products/Search?searchString='' @
     encodeURIComponent rt (card_name c @ '' '' @ card_set c)"

text \<open>
  The cache check at the head of \<^verbatim>\<open>fetchMarketData\<close>: the cached market data when it is
  to be returned, at the time \<open>now\<close>.
\<close>

definition cachedMarketData :: "js_runtime \<Rightarrow> int \<Rightarrow> CardMetadata \<Rightarrow> bool \<Rightarrow> MarketData option" where
  "cachedMarketData rt now c forceRefresh =
     (if forceRefresh then None
      else (case marketData c of
              None \<Rightarrow> None
            | Some md \<Rightarrow>
                (case cacheExpiry md of
                   None \<Rightarrow> None
                 | Some s \<Rightarrow>
                     if s = [] then None
                     else (case Date_getTime rt s of
                             None \<Rightarrow> None
                           | Some expiry \<Rightarrow> if expiry > now then Some md else None))))"

subsection \<open>Requests to the price provider\<close>

text \<open>
  A request as \<^verbatim>\<open>fetch\<close> gets it: the URL, the method, the headers and the form
  parameters of the body.
\<close>

record http_request =
  req_url :: string
  req_method :: string
  req_headers :: "(string \<times> string) list"
  req_form :: "(string \<times> string) list"

text \<open>
  The parsed body of a response, read at the properties the service reads:
  \<^verbatim>\<open>access_token\<close> and \<^verbatim>\<open>expires_in\<close> of the token response, and \<^verbatim>\<open>results\<close> with, of each
  element, \<^verbatim>\<open>productId\<close> (product search) and \<^verbatim>\<open>subTypeName\<close> and the four prices
  (pricing). \<^const>\<open>None\<close> is an absent property. The elements of \<^verbatim>\<open>results\<close> are objects
  and the product identifiers are integers.
\<close>

record result_row =
  row_productId :: "int option"
  subTypeName :: "string option"
  lowPrice :: "real option"
  midPrice :: "real option"
  highPrice :: "real option"
  marketPrice :: "real option"

record api_body =
  access_token :: "string option"
  expires_in :: "real option"
  results :: "result_row list option"

text \<open>
  A response: \<^verbatim>\<open>response.ok\<close> and the outcome of \<^verbatim>\<open>response.json()\<close>, which rejects or
  gives \<^verbatim>\<open>null\<close> (\<^const>\<open>None\<close>) or an object. \<^verbatim>\<open>fetch\<close> is an operation on the world; it
  rejects with \<^const>\<open>Inl\<close>.
\<close>

record http_response =
  resp_ok :: bool
  resp_json :: "exn + api_body option"

type_synonym 'w fetch = "http_request \<Rightarrow> 'w \<Rightarrow> (exn + http_response) \<times> 'w"

text \<open>
  What \<^verbatim>\<open>getTCGPlayerConfig\<close> returns, from the local storage or the environment; the
  service reads its two keys. The function is a parameter of the model, read at the world,
  with \<^const>\<open>None\<close> for \<^verbatim>\<open>null\<close> (the stored text may be the JSON text \<^verbatim>\<open>null\<close>).
\<close>

record TCGPlayerConfig =
  publicKey :: "string option"
  privateKey :: "string option"

text \<open>Truthiness of an optional string.\<close>

definition str_truthy :: "string option \<Rightarrow> bool" where
  "str_truthy a = (case a of Some s \<Rightarrow> s \<noteq> [] | None \<Rightarrow> False)"

text \<open>
  The module variable \<^verbatim>\<open>tokenCache\<close>. The state of the service is the world together
  with this variable.
\<close>

record token_entry =
  tc_token :: "string option"
  tc_expires :: real

type_synonym 'w service_state = "'w \<times> token_entry option"

definition token_request :: "TCGPlayerConfig \<Rightarrow> http_request" where
  "token_request config =
     \<lparr>req_url = ''https://api.tcgplayer.com/token'',
      req_method = ''POST'',
      req_headers = [(''Content-Type'', ''application/x-www-form-urlencoded'')],
      req_form = [(''grant_type'', ''client_credentials''),
                  (''client_id'', str_or_lit (publicKey config) []),
                  (''client_secret'', str_or_lit (privateKey config) [])]\<rparr>"

text \<open>\<^verbatim>\<open>tokenCache && tokenCache.expires > Date.now()\<close>\<close>

definition cachedToken :: "int \<Rightarrow> token_entry option \<Rightarrow> token_entry option" where
  "cachedToken now tokenCache =
     (case tokenCache of
        None \<Rightarrow> None
      | Some entry \<Rightarrow> if tc_expires entry > real_of_int now then Some entry else None)"

text \<open>
  The \<^verbatim>\<open>try\<close> block of \<^verbatim>\<open>getTCGPlayerToken\<close> with its \<^verbatim>\<open>catch\<close>, which returns
  \<^verbatim>\<open>null\<close>: a rejected request, a response that is not ok, a body that cannot be read
  or is \<^verbatim>\<open>null\<close>.
\<close>

definition requestToken :: "('w \<Rightarrow> int) \<Rightarrow> TCGPlayerConfig \<Rightarrow> 'w fetch \<Rightarrow> 'w service_state
    \<Rightarrow> string option \<times> 'w service_state" where
  "requestToken Date_now config fetch st =
     (case st of
        (w, tokenCache) \<Rightarrow>
          (case fetch (token_request config) w of
             (Inl e, w') \<Rightarrow> (None, (w', tokenCache))
           | (Inr response, w') \<Rightarrow>
               if \<not> resp_ok response then (None, (w', tokenCache))
               else (case resp_json response of
                       Inl e \<Rightarrow> (None, (w', tokenCache))
                     | Inr None \<Rightarrow> (None, (w', tokenCache))
                     | Inr (Some data) \<Rightarrow>
                         (let expiresIn = num_or (expires_in data) 3600 * 1000;
                              entry = \<lparr>tc_token = access_token data,
                                       tc_expires =
                                         real_of_int (Date_now w') + expiresIn - 60000\<rparr>
                          in (tc_token entry, (w', Some entry))))))"

text \<open>
  \<^verbatim>\<open>getTCGPlayerToken\<close>. Reading a key of the config \<^verbatim>\<open>null\<close> throws, outside the
  \<^verbatim>\<open>try\<close> block.
\<close>

definition getTCGPlayerToken :: "('w \<Rightarrow> int) \<Rightarrow> ('w \<Rightarrow> TCGPlayerConfig option) \<Rightarrow> 'w fetch
    \<Rightarrow> 'w service_state \<Rightarrow> (exn + string option) \<times> 'w service_state" where
  "getTCGPlayerToken Date_now getTCGPlayerConfig fetch st =
     (case st of
        (w, tokenCache) \<Rightarrow>
          (case getTCGPlayerConfig w of
             None \<Rightarrow> (Inl TypeError, st)
           | Some config \<Rightarrow>
               if \<not> str_truthy (publicKey config) \<or> \<not> str_truthy (privateKey config)
               then (Inr None, st)
               else (case cachedToken (Date_now w) tokenCache of
                       Some entry \<Rightarrow> (Inr (tc_token entry), st)
                     | None \<Rightarrow>
                         (case requestToken Date_now config fetch st of
                            (token, st') \<Rightarrow> (Inr token, st')))))"

text \<open>The credentials are configured: the config is an object with two truthy keys.\<close>

definition configured :: "TCGPlayerConfig option \<Rightarrow> bool" where
  "configured cfg =
     (case cfg of
        None \<Rightarrow> False
      | Some config \<Rightarrow> str_truthy (publicKey config) \<and> str_truthy (privateKey config))"

text \<open>
  \<^verbatim>\<open>categoryMap[game] || 1\<close>, for the names of games (the names of the properties that
  every object inherits are left aside).
\<close>

definition categoryId :: "string \<Rightarrow> int" where
  "categoryId game' =
     (case map_of [(''Pokemon'', 3), (''Yu-Gi-Oh'', 2), (''Magic: The Gathering'', 1),
                   (''Magic'', 1)] game' of
        Some n \<Rightarrow> n
      | None \<Rightarrow> 1)"

definition search_request :: "js_runtime \<Rightarrow> string \<Rightarrow> string \<Rightarrow> string \<Rightarrow> string \<Rightarrow> http_request" where
  "search_request rt token cardName setName game' =
     \<lparr>req_url = ''https://api.tcgplayer.com/catalog/products?categoryId='' @
                  String_of_int (categoryId game') @ ''&productName='' @
                  encodeURIComponent rt (cardName @ '' '' @ setName) @ ''&limit=10'',
      req_method = ''GET'',
      req_headers = [(''Authorization'', ''bearer '' @ token)],
      req_form = []\<rparr>"

text \<open>
  \<^verbatim>\<open>searchTCGPlayerProduct\<close>: \<^verbatim>\<open>null\<close> without a token, without a request; else the
  \<^verbatim>\<open>productId\<close> of the first result, \<^verbatim>\<open>null\<close> when there is none or anything is thrown.
\<close>

definition searchTCGPlayerProduct :: "js_runtime \<Rightarrow> ('w \<Rightarrow> int) \<Rightarrow> ('w \<Rightarrow> TCGPlayerConfig option)
    \<Rightarrow> 'w fetch \<Rightarrow> string \<Rightarrow> string \<Rightarrow> string \<Rightarrow> 'w service_state
    \<Rightarrow> (exn + int option) \<times> 'w service_state" where
  "searchTCGPlayerProduct rt Date_now getTCGPlayerConfig fetch cardName setName game' st =
     (case getTCGPlayerToken Date_now getTCGPlayerConfig fetch st of
        (Inl e, st1) \<Rightarrow> (Inl e, st1)
      | (Inr token, (w1, tc1)) \<Rightarrow>
          if \<not> str_truthy token then (Inr None, (w1, tc1))
          else (case fetch (search_request rt (str_or_lit token []) cardName setName game') w1 of
                  (Inl e, w2) \<Rightarrow> (Inr None, (w2, tc1))
                | (Inr response, w2) \<Rightarrow>
                    if \<not> resp_ok response then (Inr None, (w2, tc1))
                    else (case resp_json response of
                            Inl e \<Rightarrow> (Inr None, (w2, tc1))
                          | Inr None \<Rightarrow> (Inr None, (w2, tc1))
                          | Inr (Some data) \<Rightarrow>
                              (case results data of
                                 Some (r # rs) \<Rightarrow> (Inr (row_productId r), (w2, tc1))
                               | _ \<Rightarrow> (Inr None, (w2, tc1))))))"

definition pricing_request :: "string \<Rightarrow> int \<Rightarrow> http_request" where
  "pricing_request token pid =
     \<lparr>req_url = ''https://api.tcgplayer.com/pricing/product/'' @ String_of_int pid,
      req_method = ''GET'',
      req_headers = [(''Authorization'', ''bearer '' @ token)],
      req_form = []\<rparr>"

text \<open>
  The body of \<^verbatim>\<open>data.results.forEach\<close>: the truthy prices of a row are stored under the
  keys made of its \<^verbatim>\<open>subTypeName\<close> (the text \<^verbatim>\<open>undefined\<close> when it is absent).
\<close>

definition store_price :: "string \<Rightarrow> string \<Rightarrow> real option \<Rightarrow> (string \<rightharpoonup> real) \<Rightarrow> (string \<rightharpoonup> real)" where
  "store_price condition key v prices' =
     (case v of
        Some x \<Rightarrow> if x \<noteq> 0 then prices'(condition @ key \<mapsto> x) else prices'
      | None \<Rightarrow> prices')"

definition add_row :: "(string \<rightharpoonup> real) \<Rightarrow> result_row \<Rightarrow> (string \<rightharpoonup> real)" where
  "add_row prices' r =
     (let condition = (case subTypeName r of Some s \<Rightarrow> s | None \<Rightarrow> ''undefined'')
      in store_price condition ''_market'' (marketPrice r)
           (store_price condition ''_high'' (highPrice r)
              (store_price condition ''_mid'' (midPrice r)
                 (store_price condition ''_low'' (lowPrice r) prices'))))"

text \<open>\<^verbatim>\<open>prices['NM_x'] || prices['Near Mint_x']\<close>; a stored price is truthy.\<close>

definition nm_price :: "(string \<rightharpoonup> real) \<Rightarrow> string \<Rightarrow> real option" where
  "nm_price prices' key =
     (case prices' (''NM'' @ key) of
        Some v \<Rightarrow> Some v
      | None \<Rightarrow> prices' (''Near Mint'' @ key))"

text \<open>
  \<^verbatim>\<open>getTCGPlayerPricing\<close>. The properties \<^verbatim>\<open>historicalPrices\<close> and \<^verbatim>\<open>recentSales\<close> of its
  result are always undefined and are not part of the record.
\<close>

definition getTCGPlayerPricing :: "js_runtime \<Rightarrow> ('w \<Rightarrow> int) \<Rightarrow> ('w \<Rightarrow> TCGPlayerConfig option)
    \<Rightarrow> 'w fetch \<Rightarrow> int \<Rightarrow> 'w service_state
    \<Rightarrow> (exn + TCGPlayerData option) \<times> 'w service_state" where
  "getTCGPlayerPricing rt Date_now getTCGPlayerConfig fetch pid st =
     (case getTCGPlayerToken Date_now getTCGPlayerConfig fetch st of
        (Inl e, st1) \<Rightarrow> (Inl e, st1)
      | (Inr token, (w1, tc1)) \<Rightarrow>
          if \<not> str_truthy token then (Inr None, (w1, tc1))
          else (case fetch (pricing_request (str_or_lit token []) pid) w1 of
                  (Inl e, w2) \<Rightarrow> (Inr None, (w2, tc1))
                | (Inr response, w2) \<Rightarrow>
                    if \<not> resp_ok response then (Inr None, (w2, tc1))
                    else (case resp_json response of
                            Inl e \<Rightarrow> (Inr None, (w2, tc1))
                          | Inr None \<Rightarrow> (Inr None, (w2, tc1))
                          | Inr (Some data) \<Rightarrow>
                              (case results data of
                                 Some (r # rs) \<Rightarrow>
                                   (let prices' = foldl add_row Map.empty (r # rs);
                                        nmPrices =
                                          \<lparr>tp_low = nm_price prices' ''_low'',
                                           tp_mid = nm_price prices' ''_mid'',
                                           tp_high = nm_price prices' ''_high'',
                                           tp_market = nm_price prices' ''_market''\<rparr>
                                    in (Inr (Some \<lparr>productId = pid,
                                                   tp_url = ''https://www.tcgplayer.com/product/'' @
                                                            String_of_int pid,
                                                   prices = Some nmPrices,
                                                   tp_lastUpdated =
                                                     toISOString rt (Date_now w2)\<rparr>),
                                        (w2, tc1)))
                               | _ \<Rightarrow> (Inr None, (w2, tc1))))))"

text \<open>
  The \<^verbatim>\<open>try\<close> block of \<^verbatim>\<open>fetchMarketData\<close> that asks the provider, with its \<^verbatim>\<open>catch\<close>,
  which logs the error and goes on.
\<close>

definition fetchTCGPlayer :: "js_runtime \<Rightarrow> ('w \<Rightarrow> int) \<Rightarrow> ('w \<Rightarrow> TCGPlayerConfig option) \<Rightarrow> 'w fetch
    \<Rightarrow> CardMetadata \<Rightarrow> MarketData \<Rightarrow> 'w service_state \<Rightarrow> MarketData \<times> 'w service_state" where
  "fetchTCGPlayer rt Date_now getTCGPlayerConfig fetch c md st =
     (case searchTCGPlayerProduct rt Date_now getTCGPlayerConfig fetch
             (card_name c) (card_set c) (game c) st of
        (Inl e, st1) \<Rightarrow> (md, st1)
      | (Inr None, st1) \<Rightarrow> (md, st1)
      | (Inr (Some pid), st1) \<Rightarrow>
          if pid = 0 then (md, st1)
          else (case getTCGPlayerPricing rt Date_now getTCGPlayerConfig fetch pid st1 of
                  (Inl e, st2) \<Rightarrow> (md, st2)
                | (Inr None, st2) \<Rightarrow> (md, st2)
                | (Inr (Some tcgData), st2) \<Rightarrow> (md\<lparr>tcgplayer := Some tcgData\<rparr>, st2)))"

text \<open>\<^verbatim>\<open>fetchMarketData\<close>; \<open>Date_now\<close> reads the clock of the world.\<close>

definition fetchMarketData :: "js_runtime \<Rightarrow> ('w \<Rightarrow> int) \<Rightarrow> ('w \<Rightarrow> TCGPlayerConfig option) \<Rightarrow> 'w fetch
    \<Rightarrow> CardMetadata \<Rightarrow> bool \<Rightarrow> 'w service_state \<Rightarrow> MarketData \<times> 'w service_state" where
  "fetchMarketData rt Date_now getTCGPlayerConfig fetch c forceRefresh st =
     (case cachedMarketData rt (Date_now (fst st)) c forceRefresh of
        Some md \<Rightarrow> (md, st)
      | None \<Rightarrow>
          (let marketData0 =
                 \<lparr>tcgplayer = None, ebay_data = None, cardmarket = None,
                  cacheExpiry = Some (toISOString rt (Date_now (fst st) + CACHE_DURATION_MS))\<rparr>
           in case fetchTCGPlayer rt Date_now getTCGPlayerConfig fetch c marketData0 st of
                (md1, st1) \<Rightarrow>
                  (md1\<lparr>ebay_data :=
                         Some \<lparr>link_url = getEbaySearchUrl rt c,
                               link_lastUpdated = toISOString rt (Date_now (fst st1))\<rparr>,
                       cardmarket :=
                         Some \<lparr>link_url = getCardmarketSearchUrl rt c,
                               link_lastUpdated = toISOString rt (Date_now (fst st1))\<rparr>\<rparr>,
                   st1)))"

subsection \<open>Instrumentation\<close>

text \<open>\<^verbatim>\<open>fetch\<close> with the list of the requests made added to the world.\<close>

definition logged_fetch :: "'w fetch \<Rightarrow> ('w \<times> http_request list) fetch" where
  "logged_fetch fetch req =
     (\<lambda>(w, calls). case fetch req w of (r, w') \<Rightarrow> (r, (w', calls @ [req])))"

text \<open>The requests made, of a result of \<^const>\<open>fetchMarketData\<close> on the logged world.\<close>

definition requests_made :: "'a \<times> ('w \<times> http_request list) service_state \<Rightarrow> http_request list" where
  "requests_made outcome = snd (fst (snd outcome))"

text \<open>
  The TCGPlayer data that the provider block of a forced or uncached fetch obtains, with
  the state after it: the pricing of the product found, if one is found.
\<close>

definition provider_outcome :: "js_runtime \<Rightarrow> ('w \<Rightarrow> int) \<Rightarrow> ('w \<Rightarrow> TCGPlayerConfig option) \<Rightarrow> 'w fetch
    \<Rightarrow> CardMetadata \<Rightarrow> 'w service_state \<Rightarrow> TCGPlayerData option \<times> 'w service_state" where
  "provider_outcome rt Date_now getTCGPlayerConfig fetch c st =
     (case searchTCGPlayerProduct rt Date_now getTCGPlayerConfig fetch
             (card_name c) (card_set c) (game c) st of
        (Inl e, st1) \<Rightarrow> (None, st1)
      | (Inr None, st1) \<Rightarrow> (None, st1)
      | (Inr (Some pid), st1) \<Rightarrow>
          if pid = 0 then (None, st1)
          else (case getTCGPlayerPricing rt Date_now getTCGPlayerConfig fetch pid st1 of
                  (Inl e, st2) \<Rightarrow> (None, st2)
                | (Inr tcgData, st2) \<Rightarrow> (tcgData, st2)))"

subsection \<open>Example: a cache that expires in one hour\<close>

text \<open>
  The clock stands at 2026-01-01T00:00:00Z (1767225600000 ms); the runtime knows the
  dates of the example and encodes the letters, digits and spaces of the example. The
  server answers the token request, the search for the example card with the product 42,
  and the pricing of that product with one row.
\<close>

definition example_encode :: "string \<Rightarrow> string" where
  "example_encode s = concat (map (\<lambda>c. if c = CHR '' '' then ''%20'' else [c]) s)"

definition example_runtime :: js_runtime where
  "example_runtime =
     \<lparr>Date_getTime = map_of [(''2026-01-01T01:00:00.000Z'', 1767229200000)],
      toISOString = (\<lambda>t. if t = 1767312000000 then ''2026-01-02T00:00:00.000Z''
                         else if t = 1767225600000 then ''2026-01-01T00:00:00.000Z''
                         else ''other''),
      encodeURIComponent = example_encode\<rparr>"

definition example_clock :: "nat \<Rightarrow> int" where
  "example_clock n = 1767225600000"

definition no_credentials :: "nat \<Rightarrow> TCGPlayerConfig option" where
  "no_credentials n = Some \<lparr>publicKey = None, privateKey = None\<rparr>"

definition example_keys :: TCGPlayerConfig where
  "example_keys = \<lparr>publicKey = Some ''pk'', privateKey = Some ''sk''\<rparr>"

definition with_credentials :: "nat \<Rightarrow> TCGPlayerConfig option" where
  "with_credentials n = Some example_keys"

definition empty_body :: api_body where
  "empty_body = \<lparr>access_token = None, expires_in = None, results = None\<rparr>"

definition empty_row :: result_row where
  "empty_row = \<lparr>row_productId = None, subTypeName = None, lowPrice = None, midPrice = None,
     highPrice = None, marketPrice = None\<rparr>"

definition example_server :: "nat fetch" where
  "example_server req n =
     (if req_url req = ''https://api.tcgplayer.com/token''
      then (Inr \<lparr>resp_ok = True,
                 resp_json = Inr (Some (empty_body\<lparr>access_token := Some ''tok'',
                                                     expires_in := Some 3600\<rparr>))\<rparr>, Suc n)
      else if req_url req =
          ''https://api.tcgplayer.com/catalog/products?categoryId=3&productName=Pikachu%20Base%20Set&limit=10''
      then (Inr \<lparr>resp_ok = True,
                 resp_json = Inr (Some (empty_body\<lparr>results :=
                   Some [empty_row\<lparr>row_productId := Some 42\<rparr>]\<rparr>))\<rparr>, Suc n)
      else if req_url req = ''https://api.tcgplayer.com/pricing/product/42''
      then (Inr \<lparr>resp_ok = True,
                 resp_json = Inr (Some (empty_body\<lparr>results :=
                   Some [empty_row\<lparr>subTypeName := Some ''NM'', lowPrice := Some 4,
                           midPrice := Some 5, highPrice := Some 6,
                           marketPrice := Some 5\<rparr>]\<rparr>))\<rparr>, Suc n)
      else (Inr \<lparr>resp_ok = False, resp_json = Inl SyntaxError\<rparr>, Suc n))"

text \<open>
  The token entry that the token request of the example leaves in \<^verbatim>\<open>tokenCache\<close> (it
  expires one hour less one minute after the clock), and the TCGPlayer data of the example.
\<close>

definition example_entry :: token_entry where
  "example_entry = \<lparr>tc_token = Some ''tok'', tc_expires = 1767229140000\<rparr>"

definition example_tcgplayer :: TCGPlayerData where
  "example_tcgplayer =
     \<lparr>productId = 42,
      tp_url = ''https://www.tcgplayer.com/product/42'',
      prices = Some \<lparr>tp_low = Some 4, tp_mid = Some 5, tp_high = Some 6, tp_market = Some 5\<rparr>,
      tp_lastUpdated = ''2026-01-01T00:00:00.000Z''\<rparr>"

definition cached_data :: MarketData where
  "cached_data =
     \<lparr>tcgplayer = None,
      ebay_data = Some \<lparr>link_url = ''https://www.ebay.com/sch/i.html?_nkw=old'',
                        link_lastUpdated = ''2025-12-31T01:00:00.000Z''\<rparr>,
      cardmarket = None,
      cacheExpiry = Some ''2026-01-01T01:00:00.000Z''\<rparr>"

definition cached_card :: CardMetadata where
  "cached_card = blank_card\<lparr>card_id := ''M'', marketData := Some cached_data\<rparr>"

section \<open>Image upload (services/apiService.ts)\<close>

text \<open>A \<^verbatim>\<open>File\<close>: its bytes, its name and its media type.\<close>

record js_file =
  file_content :: string
  file_name :: string
  file_type :: string

definition file_size :: "js_file \<Rightarrow> nat" where
  "file_size f = length (file_content f)"

text \<open>\<^verbatim>\<open>String.prototype.split\<close> with a one-character separator.\<close>

fun split_on :: "char \<Rightarrow> string \<Rightarrow> string list" where
  "split_on sep [] = [[]]"
| "split_on sep (c # cs) =
     (if c = sep then [] # split_on sep cs
      else (case split_on sep cs of
              [] \<Rightarrow> [[c]]
            | seg # segs \<Rightarrow> (c # seg) # segs))"

text \<open>
  The first group of the first match of \<^verbatim>\<open>/:(.*?);/\<close>: after the first colon from which
  a semicolon is reached without a line feed or carriage return, the characters up to
  that semicolon.
\<close>

fun upto_semicolon :: "string \<Rightarrow> string option" where
  "upto_semicolon [] = None"
| "upto_semicolon (c # cs) =
     (if c = CHR '';'' then Some []
      else if c = CHR 0x0A \<or> c = CHR 0x0D then None
      else map_option ((#) c) (upto_semicolon cs))"

fun mimeMatch :: "string \<Rightarrow> string option" where
  "mimeMatch [] = None"
| "mimeMatch (c # cs) =
     (if c = CHR '':''
      then (case upto_semicolon cs of Some m \<Rightarrow> Some m | None \<Rightarrow> mimeMatch cs)
      else mimeMatch cs)"

text \<open>The dummy file returned when the conversion throws.\<close>

definition error_file :: js_file where
  "error_file = \<lparr>file_content = [], file_name = ''error.jpg'', file_type = ''image/jpeg''\<rparr>"

text \<open>
  \<^verbatim>\<open>base64ToFile\<close>. \<^verbatim>\<open>atob\<close> is a parameter, \<^const>\<open>None\<close> where it throws; the bytes of the
  file are the characters of the decoded string.
\<close>

definition base64ToFile :: "(string \<Rightarrow> string option) \<Rightarrow> string \<Rightarrow> string \<Rightarrow> js_file" where
  "base64ToFile atob dataurl filename =
     (case split_on CHR '','' dataurl of
        a0 # a1 # rest \<Rightarrow>
          (let mime = (case mimeMatch a0 of Some m \<Rightarrow> m | None \<Rightarrow> ''image/png'')
           in case atob a1 of
                None \<Rightarrow> error_file
              | Some bstr \<Rightarrow> \<lparr>file_content = bstr, file_name = filename, file_type = mime\<rparr>)
      | _ \<Rightarrow> error_file)"

text \<open>
  The response to the upload request: \<^verbatim>\<open>res.ok\<close> and the outcome of \<^verbatim>\<open>res.json()\<close>, which
  rejects, or gives \<^verbatim>\<open>null\<close>, or an object with or without the property \<^verbatim>\<open>url\<close>.
\<close>

datatype upload_body = Body_null | Body_object "string option"

record upload_response =
  res_ok :: bool
  res_json :: "exn + upload_body"

type_synonym 'w upload_request = "js_file \<Rightarrow> 'w \<Rightarrow> (exn + upload_response) \<times> 'w"

text \<open>The \<^verbatim>\<open>try\<close> block of \<^verbatim>\<open>uploadImage\<close>; the result is \<^verbatim>\<open>data.url\<close>, a string or undefined.\<close>

definition upload_try :: "(string \<Rightarrow> string option) \<Rightarrow> string \<Rightarrow> 'w upload_request \<Rightarrow> string
    \<Rightarrow> 'w \<Rightarrow> (exn + string option) \<times> 'w" where
  "upload_try atob filename fetchUpload base64Image w =
     (let file = base64ToFile atob base64Image filename
      in if file_size file = 0 then (Inr (Some base64Image), w)
         else (case fetchUpload file w of
                 (Inl e, w') \<Rightarrow> (Inl e, w')
               | (Inr res, w') \<Rightarrow>
                   if \<not> res_ok res then (Inl (Thrown (new_Error ''Upload failed'')), w')
                   else (case res_json res of
                           Inl e \<Rightarrow> (Inl e, w')
                         | Inr Body_null \<Rightarrow> (Inl TypeError, w')
                         | Inr (Body_object url) \<Rightarrow> (Inr url, w'))))"

text \<open>\<^verbatim>\<open>uploadImage\<close>: the \<^verbatim>\<open>try\<close> block with its \<^verbatim>\<open>catch\<close>.\<close>

definition uploadImage :: "(string \<Rightarrow> string option) \<Rightarrow> string \<Rightarrow> 'w upload_request \<Rightarrow> string
    \<Rightarrow> 'w \<Rightarrow> (exn + string option) \<times> 'w" where
  "uploadImage atob filename fetchUpload base64Image w =
     (case upload_try atob filename fetchUpload base64Image w of
        (Inl e, w') \<Rightarrow> (Inr (Some base64Image), w')
      | (Inr url, w') \<Rightarrow> (Inr url, w'))"

text \<open>
  The images of the card that \<^verbatim>\<open>handleCardAnalyzed\<close> saves: \<^verbatim>\<open>uploadImage\<close> on every
  image, here one request after the other.
\<close>

fun uploadedImages :: "(string \<Rightarrow> string option) \<Rightarrow> string \<Rightarrow> 'w upload_request \<Rightarrow> string list
    \<Rightarrow> 'w \<Rightarrow> (exn + string option list) \<times> 'w" where
  "uploadedImages atob filename fetchUpload [] w = (Inr [], w)"
| "uploadedImages atob filename fetchUpload (img # imgs) w =
     (case uploadImage atob filename fetchUpload img w of
        (Inl e, w1) \<Rightarrow> (Inl e, w1)
      | (Inr url, w1) \<Rightarrow>
          (case uploadedImages atob filename fetchUpload imgs w1 of
             (Inl e, w2) \<Rightarrow> (Inl e, w2)
           | (Inr urls, w2) \<Rightarrow> (Inr (url # urls), w2)))"

definition logged_upload :: "'w upload_request \<Rightarrow> ('w \<times> js_file list) upload_request" where
  "logged_upload fetchUpload file =
     (\<lambda>(w, calls). case fetchUpload file w of (r, w') \<Rightarrow> (r, (w', calls @ [file])))"

subsection \<open>Example uploads\<close>

definition example_atob :: "string \<Rightarrow> string option" where
  "example_atob s = (if s = ''QUJD'' then Some ''ABC'' else None)"

definition server_down :: "nat upload_request" where
  "server_down file n = (Inl NetworkError, Suc n)"

definition server_up :: "nat upload_request" where
  "server_up file n =
     (Inr \<lparr>res_ok = True,
           res_json = Inr (Body_object (Some ''http://localhost:3001/uploads/1.jpg''))\<rparr>, Suc n)"

section \<open>Properties of the fallback invoker\<close>

lemma str_includes_sublist: "str_includes s t \<longleftrightarrow> sublist t s"
  by (induction s) (auto simp: sublist_Cons_right)

lemma Set_add_foldl_set: "set (foldl Set_add acc xs) = set acc \<union> set xs"
  by (induction xs arbitrary: acc) (auto simp: Set_add_def)

lemma Set_add_foldl_distinct: "distinct acc \<Longrightarrow> distinct (foldl Set_add acc xs)"
  by (induction xs arbitrary: acc) (auto simp: Set_add_def)

lemma new_Set_set: "set (new_Set xs) = set xs"
  by (simp add: new_Set_def Set_add_foldl_set)

lemma new_Set_distinct: "distinct (new_Set xs)"
  by (simp add: new_Set_def Set_add_foldl_distinct)

lemma join_contains: "x \<in> set xs \<Longrightarrow> sublist (join_elem x) (join sep xs)"
proof (induction sep xs rule: join.induct)
  case (1 sep)
  then show ?case by simp
next
  case (2 sep y)
  then show ?case by simp
next
  case (3 sep y z zs)
  show ?case
  proof (cases "x = y")
    case True
    then show ?thesis by simp
  next
    case False
    with 3 have "sublist (join_elem x) (join sep (z # zs))" by simp
    then obtain ps ss where "join sep (z # zs) = ps @ join_elem x @ ss"
      by (auto simp: sublist_def)
    then have "join sep (y # z # zs) = (join_elem y @ sep @ ps) @ join_elem x @ ss"
      by simp
    then show ?thesis unfolding sublist_def by blast
  qed
qed

lemma last_message_contains: "sublist (extract_message e) (last_message (Some e))"
  by (auto simp: extract_message_def last_message_def str_or_lit_def split: option.splits)

text \<open>
  While the candidates fail with retryable errors the loop goes on: it reaches the rest
  of the list with the last error, the recorded codes and the world of these calls.
\<close>

lemma tryLoop_retryable_prefix:
  "retryable_failures operation pre w = Some (errs, w1) \<Longrightarrow>
   tryLoop operation (pre @ rest) lastError acc w =
   tryLoop operation rest (last_option errs lastError) (acc @ map recorded_status errs) w1"
proof (induction pre arbitrary: w errs lastError acc)
  case Nil
  then show ?case by (simp add: last_option_def)
next
  case (Cons m ms)
  obtain r w' where op: "operation m w = (r, w')" by (cases "operation m w")
  from Cons.prems op obtain error where r: "r = Inl error"
    by (cases r) auto
  from Cons.prems op r have retry: "isRetryable (extract_status error) (extract_message error)"
    by (auto split: if_splits)
  from Cons.prems op r retry obtain errs' where
    tl: "retryable_failures operation ms w' = Some (errs', w1)" and errs: "errs = error # errs'"
    by (auto split: option.splits)
  have "tryLoop operation ((m # ms) @ rest) lastError acc w =
        tryLoop operation (ms @ rest) (Some error) (acc @ [recorded_status error]) w'"
    using op r retry by (simp add: recorded_status_def)
  also have "\<dots> = tryLoop operation rest (last_option errs' (Some error))
                     ((acc @ [recorded_status error]) @ map recorded_status errs') w1"
    by (rule Cons.IH [OF tl])
  finally show ?case using errs by (simp add: last_option_def)
qed

lemma logged_apply:
  "logged operation m (w, calls) =
     (case operation m w of (r, w') \<Rightarrow> (r, (w', calls @ [m])))"
  by (simp add: logged_def)

text \<open>Whatever the operation does, the candidates invoked are an initial part of the list.\<close>

lemma tryLoop_invokes_prefix:
  "\<exists>pre. prefix pre ms \<and>
     snd (snd (tryLoop (logged operation) ms lastError acc (w, calls))) = calls @ pre"
proof (induction ms arbitrary: lastError acc w calls)
  case Nil
  then show ?case by simp
next
  case (Cons m ms)
  obtain r w' where op: "operation m w = (r, w')" by (cases "operation m w")
  show ?case
  proof (cases r)
    case (Inr v)
    with op have "snd (snd (tryLoop (logged operation) (m # ms) lastError acc (w, calls))) =
        calls @ [m]"
      by (simp add: logged_apply)
    moreover have "prefix [m] (m # ms)" by simp
    ultimately show ?thesis by blast
  next
    case (Inl error)
    show ?thesis
    proof (cases "isRetryable (extract_status error) (extract_message error)")
      case False
      with op Inl have "snd (snd (tryLoop (logged operation) (m # ms) lastError acc (w, calls))) =
          calls @ [m]"
        by (simp add: logged_apply)
      moreover have "prefix [m] (m # ms)" by simp
      ultimately show ?thesis by blast
    next
      case True
      with op Inl have step: "tryLoop (logged operation) (m # ms) lastError acc (w, calls) =
          tryLoop (logged operation) ms (Some error)
            (acc @ [js_or (extract_status error) (JNum 0)]) (w', calls @ [m])"
        by (simp add: logged_apply)
      obtain pre where pre: "prefix pre ms"
        and lg: "snd (snd (tryLoop (logged operation) ms (Some error)
            (acc @ [js_or (extract_status error) (JNum 0)]) (w', calls @ [m]))) =
          (calls @ [m]) @ pre"
        using Cons.IH by blast
      have "prefix (m # pre) (m # ms)" using pre by simp
      moreover have "snd (snd (tryLoop (logged operation) (m # ms) lastError acc (w, calls))) =
          calls @ (m # pre)"
        using step lg by simp
      ultimately show ?thesis by blast
    qed
  qed
qed

lemma tryWithFallback_invokes_prefix:
  "prefix (snd (snd (tryWithFallback models (logged operation) (w, [])))) models"
  using tryLoop_invokes_prefix [of models operation None "[]" w "[]"]
  by (auto simp: tryWithFallback_def)

lemma logged_retryable_failures:
  "retryable_failures (logged operation) ms (w, calls) =
   map_option (\<lambda>(errs, w'). (errs, (w', calls @ ms))) (retryable_failures operation ms w)"
proof (induction ms arbitrary: w calls)
  case Nil
  then show ?case by simp
next
  case (Cons m ms)
  show ?case
  proof (cases "operation m w")
    case (Pair r w')
    then show ?thesis
      by (cases r) (simp_all add: logged_apply Cons.IH split: option.splits)
  qed
qed

lemma retryable_failures_length:
  "retryable_failures operation ms w = Some (errs, w1) \<Longrightarrow> length errs = length ms"
  by (induction ms arbitrary: w errs) (auto split: prod.splits sum.splits if_splits option.splits)

lemmas fallback_eval =
  api_error_def isRetryable_def extract_status_def extract_message_def js_or_def str_or_def
  str_or_lit_def

text \<open>
  C1. For every list \<open>candidates\<close> and every operation, the candidates invoked are an
  initial part of the list, in list order. When the candidates before \<open>m\<close> have
  failed with retryable errors and the operation succeeds on \<open>m\<close>, the invoker returns
  that result with \<open>m\<close> as the model used. The candidates invoked are exactly those
  before \<open>m\<close> and \<open>m\<close> itself, in list order: none of \<open>post\<close> is invoked.
\<close>

theorem fallback_first_success:
  assumes "models = pre @ m # post"
    and "retryable_failures operation pre w = Some (errs, w1)"
    and "operation m w1 = (Inr r, w2)"
  shows "tryWithFallback models operation w = (Inr \<lparr>result = r, model = m\<rparr>, w2) \<and>
         tryWithFallback models (logged operation) (w, []) =
           (Inr \<lparr>result = r, model = m\<rparr>, (w2, pre @ [m])) \<and>
         prefix (snd (snd (tryWithFallback candidates (logged any_operation) (v, []))))
           candidates"
proof (intro conjI)
  show "prefix (snd (snd (tryWithFallback candidates (logged any_operation) (v, []))))
           candidates"
    by (rule tryWithFallback_invokes_prefix)
  show "tryWithFallback models operation w = (Inr \<lparr>result = r, model = m\<rparr>, w2)"
    using assms by (simp add: tryWithFallback_def tryLoop_retryable_prefix)
  have "retryable_failures (logged operation) pre (w, []) = Some (errs, (w1, pre))"
    using assms(2) by (simp add: logged_retryable_failures)
  moreover have "logged operation m (w1, pre) = (Inr r, (w2, pre @ [m]))"
    using assms(3) by (simp add: logged_apply)
  ultimately show "tryWithFallback models (logged operation) (w, []) =
           (Inr \<lparr>result = r, model = m\<rparr>, (w2, pre @ [m]))"
    using assms(1) by (simp add: tryWithFallback_def tryLoop_retryable_prefix)
qed

theorem fallback_first_success_witness:
  "[''model-a'', ''model-b'', ''model-c'', ''model-d''] =
     [''model-a'', ''model-b''] @ ''model-c'' # [''model-d''] \<and>
   retryable_failures third_answers [''model-a'', ''model-b''] 0 =
     Some ([api_error 404 ''models/model-a is not found'',
            api_error 429 ''You exceeded your current quota''], 2) \<and>
   third_answers ''model-c'' 2 = (Inr ''response of model-c'', 3) \<and>
   tryWithFallback [''model-a'', ''model-b'', ''model-c'', ''model-d''] third_answers 0 =
     (Inr \<lparr>result = ''response of model-c'', model = ''model-c''\<rparr>, 3) \<and>
   tryWithFallback [''model-a'', ''model-b'', ''model-c'', ''model-d''] (logged third_answers)
       (0, []) =
     (Inr \<lparr>result = ''response of model-c'', model = ''model-c''\<rparr>,
      (3, [''model-a'', ''model-b'', ''model-c'']))"
proof -
  have h1: "[''model-a'', ''model-b'', ''model-c'', ''model-d''] =
     [''model-a'', ''model-b''] @ ''model-c'' # [''model-d'']"
    by simp
  have h2: "retryable_failures third_answers [''model-a'', ''model-b''] 0 =
     Some ([api_error 404 ''models/model-a is not found'',
            api_error 429 ''You exceeded your current quota''], 2)"
    by (simp add: third_answers_def fallback_eval)
  have h3: "third_answers ''model-c'' 2 = (Inr ''response of model-c'', 3)"
    by (simp add: third_answers_def)
  note t = fallback_first_success [OF h1 h2 h3]
  show ?thesis
    using t [THEN conjunct1] t [THEN conjunct2, THEN conjunct1] h2 h3 by simp
qed

text \<open>
  C2. An error is retryable exactly when the extracted status is the number 404 or 429
  or the extracted message contains one of the four substrings. When the candidates
  before \<open>m\<close> have failed with retryable errors and the operation fails on \<open>m\<close> with an
  error that is not retryable, the invoker throws that very error, and the candidates
  invoked are those before \<open>m\<close> and \<open>m\<close>: none of \<open>post\<close> is invoked.
\<close>

theorem fallback_fatal_short_circuit:
  assumes "models = pre @ m # post"
    and "retryable_failures operation pre w = Some (errs, w1)"
    and "operation m w1 = (Inl error, w2)"
    and "\<not> isRetryable (extract_status error) (extract_message error)"
  shows "tryWithFallback models (logged operation) (w, []) = (Inl error, (w2, pre @ [m])) \<and>
         (\<forall>status message. isRetryable status message \<longleftrightarrow>
            status = JNum 404 \<or> status = JNum 429 \<or>
            (\<exists>s \<in> {''not found'', ''quota'', ''NOT_FOUND'', ''exceeded''}.
               \<exists>ps ss. message = ps @ s @ ss))"
proof
  have "retryable_failures (logged operation) pre (w, []) = Some (errs, (w1, pre))"
    using assms(2) by (simp add: logged_retryable_failures)
  moreover have "logged operation m (w1, pre) = (Inl error, (w2, pre @ [m]))"
    using assms(3) by (simp add: logged_apply)
  ultimately show "tryWithFallback models (logged operation) (w, []) =
      (Inl error, (w2, pre @ [m]))"
    using assms(1,4) by (simp add: tryWithFallback_def tryLoop_retryable_prefix)
  show "\<forall>status message. isRetryable status message \<longleftrightarrow>
            status = JNum 404 \<or> status = JNum 429 \<or>
            (\<exists>s \<in> {''not found'', ''quota'', ''NOT_FOUND'', ''exceeded''}.
               \<exists>ps ss. message = ps @ s @ ss)"
    unfolding isRetryable_def str_includes_sublist sublist_def by blast
qed

theorem fallback_fatal_short_circuit_witness:
  "[''model-a'', ''model-b'', ''model-c''] = [''model-a''] @ ''model-b'' # [''model-c''] \<and>
   retryable_failures second_rejects [''model-a''] 0 =
     Some ([api_error 404 ''models/model-a is not found''], 1) \<and>
   second_rejects ''model-b'' 1 = (Inl (api_error 401 ''API key not valid''), 2) \<and>
   \<not> isRetryable (extract_status (api_error 401 ''API key not valid''))
        (extract_message (api_error 401 ''API key not valid'')) \<and>
   tryWithFallback [''model-a'', ''model-b'', ''model-c''] (logged second_rejects) (0, []) =
     (Inl (api_error 401 ''API key not valid''), (2, [''model-a'', ''model-b'']))"
proof -
  have h1: "[''model-a'', ''model-b'', ''model-c''] = [''model-a''] @ ''model-b'' # [''model-c'']"
    by simp
  have h2: "retryable_failures second_rejects [''model-a''] 0 =
     Some ([api_error 404 ''models/model-a is not found''], 1)"
    by (simp add: second_rejects_def fallback_eval)
  have h3: "second_rejects ''model-b'' 1 = (Inl (api_error 401 ''API key not valid''), 2)"
    by (simp add: second_rejects_def)
  have h4: "\<not> isRetryable (extract_status (api_error 401 ''API key not valid''))
        (extract_message (api_error 401 ''API key not valid''))"
    by (simp add: fallback_eval)
  show ?thesis
    using fallback_fatal_short_circuit [OF h1 h2 h3 h4] h2 h3 h4 by simp
qed

lemma all_retryable_run:
  assumes "models \<noteq> []"
    and "retryable_failures operation models w = Some (errs, w1)"
  shows "tryWithFallback models (logged operation) (w, []) =
           (Inl (new_Error (aggregate_message errs)), (w1, models)) \<and>
         distinct (new_Set (map recorded_status errs)) \<and>
         set (new_Set (map recorded_status errs)) = recorded_status ` set errs \<and>
         (\<forall>e \<in> set errs. sublist (String_of (recorded_status e)) (aggregate_message errs)) \<and>
         sublist (extract_message (last errs)) (aggregate_message errs)"
proof -
  have len: "length errs = length models"
    using assms(2) by (rule retryable_failures_length)
  with assms(1) have ne: "errs \<noteq> []" by auto
  have lg: "retryable_failures (logged operation) models (w, []) = Some (errs, (w1, models))"
    using assms(2) by (simp add: logged_retryable_failures)
  have "tryWithFallback models (logged operation) (w, []) =
        tryLoop (logged operation) (models @ []) None [] (w, [])"
    by (simp add: tryWithFallback_def)
  also have "\<dots> = tryLoop (logged operation) [] (last_option errs None)
                      ([] @ map recorded_status errs) (w1, models)"
    by (rule tryLoop_retryable_prefix [OF lg])
  also have "\<dots> = (Inl (new_Error (aggregate_message errs)), (w1, models))"
    using ne by (simp add: last_option_def all_failed_def errorSummary_def aggregate_message_def)
  finally have run: "tryWithFallback models (logged operation) (w, []) =
           (Inl (new_Error (aggregate_message errs)), (w1, models))" .
  have codes: "\<forall>e \<in> set errs. sublist (String_of (recorded_status e)) (aggregate_message errs)"
  proof
    fix e assume e: "e \<in> set errs"
    have t: "truthy (recorded_status e) \<or> recorded_status e = JNum 0"
      by (simp add: recorded_status_def js_or_def)
    then have je: "join_elem (recorded_status e) = String_of (recorded_status e)"
      by (cases "recorded_status e") auto
    from e have "recorded_status e \<in> set (new_Set (map recorded_status errs))"
      by (simp add: new_Set_set)
    then have "sublist (join_elem (recorded_status e))
                 (join '', '' (new_Set (map recorded_status errs)))"
      by (rule join_contains)
    then obtain ps ss where
      "join '', '' (new_Set (map recorded_status errs)) = ps @ String_of (recorded_status e) @ ss"
      by (auto simp: sublist_def je)
    then have "aggregate_message errs =
       (''All models failed. Errors encountered: '' @ ps) @ String_of (recorded_status e) @
       (ss @ ''. Last error: '' @ last_message (Some (last errs)))"
      by (simp add: aggregate_message_def)
    then show "sublist (String_of (recorded_status e)) (aggregate_message errs)"
      unfolding sublist_def by blast
  qed
  have "sublist (extract_message (last errs)) (last_message (Some (last errs)))"
    by (rule last_message_contains)
  then obtain ps ss where "last_message (Some (last errs)) = ps @ extract_message (last errs) @ ss"
    by (auto simp: sublist_def)
  then have "aggregate_message errs =
     (''All models failed. Errors encountered: '' @
      join '', '' (new_Set (map recorded_status errs)) @ ''. Last error: '' @ ps) @
     extract_message (last errs) @ ss"
    by (simp add: aggregate_message_def)
  then have lastm: "sublist (extract_message (last errs)) (aggregate_message errs)"
    unfolding sublist_def by blast
  show ?thesis
    using run codes lastm by (simp add: new_Set_set new_Set_distinct)
qed

lemma last_message_cases:
  "last_message (Some e) =
     (if extract_message e = [] then ''Unknown error'' else extract_message e)"
  by (auto simp: extract_message_def last_message_def str_or_lit_def str_or_def
      split: option.splits)

text \<open>
  C3. When the list is not empty and every candidate fails with a retryable error, the
  invoker has invoked every candidate and throws one new error, with no status of its
  own. The message of that error is \<^verbatim>\<open>All models failed. Errors encountered: \<close>, the
  recorded codes (\<^verbatim>\<open>status || 0\<close>) without repetition, joined by commas, then
  \<^verbatim>\<open>. Last error: \<close> and the message of the last error, or \<^verbatim>\<open>Unknown error\<close> when that
  error has none. So the rendering of the code of every attempt and the message of the
  last error occur in the message of the error thrown.
\<close>

theorem fallback_all_retryable:
  assumes "models \<noteq> []"
    and "retryable_failures operation models w = Some (errs, w1)"
  shows "\<exists>err msg.
           tryWithFallback models (logged operation) (w, []) = (Inl err, (w1, models)) \<and>
           e_message err = Some msg \<and>
           e_status err = JUndefined \<and> e_code err = JUndefined \<and>
           msg = ''All models failed. Errors encountered: '' @
                 join '', '' (new_Set (map recorded_status errs)) @ ''. Last error: '' @
                 (if extract_message (last errs) = [] then ''Unknown error''
                  else extract_message (last errs)) \<and>
           distinct (new_Set (map recorded_status errs)) \<and>
           set (new_Set (map recorded_status errs)) = recorded_status ` set errs \<and>
           (\<forall>e \<in> set errs. sublist (String_of (recorded_status e)) msg) \<and>
           sublist (extract_message (last errs)) msg"
proof -
  note run = all_retryable_run [OF assms]
  have msg: "aggregate_message errs =
      ''All models failed. Errors encountered: '' @
      join '', '' (new_Set (map recorded_status errs)) @ ''. Last error: '' @
      (if extract_message (last errs) = [] then ''Unknown error''
       else extract_message (last errs))"
    by (simp only: aggregate_message_def last_message_cases)
  have thrown: "e_message (new_Error (aggregate_message errs)) = Some (aggregate_message errs)"
    "e_status (new_Error (aggregate_message errs)) = JUndefined"
    "e_code (new_Error (aggregate_message errs)) = JUndefined"
    by (simp_all add: new_Error_def)
  show ?thesis
    by (intro exI [where x = "new_Error (aggregate_message errs)"]
        exI [where x = "aggregate_message errs"] conjI)
      (rule run [THEN conjunct1] thrown msg run [THEN conjunct2, THEN conjunct1]
        run [THEN conjunct2, THEN conjunct2, THEN conjunct1]
        run [THEN conjunct2, THEN conjunct2, THEN conjunct2, THEN conjunct1]
        run [THEN conjunct2, THEN conjunct2, THEN conjunct2, THEN conjunct2])+
qed

lemma none_reachable_failures:
  "retryable_failures none_reachable [''model-a'', ''model-b'', ''model-c''] 0 =
     Some ([api_error 404 ''models/x is not found'',
            api_error 429 ''You exceeded your current quota'',
            api_error 404 ''models/x is not found''], 3)"
  by (simp add: none_reachable_def fallback_eval)

theorem fallback_all_retryable_witness:
  "[''model-a'', ''model-b'', ''model-c''] \<noteq> [] \<and>
   retryable_failures none_reachable [''model-a'', ''model-b'', ''model-c''] 0 =
     Some ([api_error 404 ''models/x is not found'',
            api_error 429 ''You exceeded your current quota'',
            api_error 404 ''models/x is not found''], 3) \<and>
   (\<exists>err.
      tryWithFallback [''model-a'', ''model-b'', ''model-c''] (logged none_reachable) (0, []) =
        (Inl err, (3, [''model-a'', ''model-b'', ''model-c''])) \<and>
      e_message err =
        Some ''All models failed. Errors encountered: 404, 429. Last error: models/x is not found'')"
proof -
  have h1: "[''model-a'', ''model-b'', ''model-c''] \<noteq> []" by simp
  obtain err msg where
    run: "tryWithFallback [''model-a'', ''model-b'', ''model-c''] (logged none_reachable) (0, []) =
        (Inl err, (3, [''model-a'', ''model-b'', ''model-c'']))"
    and m: "e_message err = Some msg"
    and msg: "msg = ''All models failed. Errors encountered: '' @
        join '', '' (new_Set (map recorded_status
          [api_error 404 ''models/x is not found'',
           api_error 429 ''You exceeded your current quota'',
           api_error 404 ''models/x is not found''])) @ ''. Last error: '' @
        (if extract_message (last [api_error 404 ''models/x is not found'',
           api_error 429 ''You exceeded your current quota'',
           api_error 404 ''models/x is not found'']) = [] then ''Unknown error''
         else extract_message (last [api_error 404 ''models/x is not found'',
           api_error 429 ''You exceeded your current quota'',
           api_error 404 ''models/x is not found'']))"
    using fallback_all_retryable [OF h1 none_reachable_failures] by blast
  have "msg =
    ''All models failed. Errors encountered: 404, 429. Last error: models/x is not found''"
    unfolding msg
    by (simp add: recorded_status_def new_Set_def Set_add_def String_of_int_def digit_char_def
        fallback_eval)
  with m have m': "e_message err =
    Some ''All models failed. Errors encountered: 404, 429. Last error: models/x is not found''"
    by simp
  show ?thesis
    by (intro conjI exI [where x = err]) (rule h1 none_reachable_failures run m')+
qed

section \<open>Properties of the derived view\<close>

subsection \<open>String comparison\<close>

lemma str_lt_irrefl: "\<not> str_lt s s"
  by (induction s) auto

lemma str_lt_trans: "str_lt a b \<Longrightarrow> str_lt b c \<Longrightarrow> str_lt a c"
proof (induction a b arbitrary: c rule: str_lt.induct)
  case 1
  then show ?case by simp
next
  case (2 y ys)
  then show ?case by (cases c) auto
next
  case (3 x xs)
  then show ?case by simp
next
  case (4 x xs y ys)
  then show ?case by (cases c) auto
qed

lemma str_lt_total: "\<not> str_lt a b \<Longrightarrow> \<not> str_lt b a \<Longrightarrow> a = b"
proof (induction a b rule: str_lt.induct)
  case (4 x xs y ys)
  then have "(of_char x :: nat) = of_char y" by auto
  then have "x = y" by simp
  with 4 show ?case by auto
qed auto

lemma str_lt_empty: "\<not> str_lt s [] \<and> (s \<noteq> [] \<longrightarrow> str_lt [] s)"
  by (cases s) auto

subsection \<open>The stable sort\<close>

lemma insert_sorted_mset: "mset (insert_sorted cmp x xs) = add_mset x (mset xs)"
  by (induction xs) auto

lemma Array_sort_mset: "mset (Array_sort cmp xs) = mset xs"
  by (induction xs) (auto simp: Array_sort_def insert_sorted_mset)

lemma Array_sort_set: "set (Array_sort cmp xs) = set xs"
  by (rule mset_eq_setD) (rule Array_sort_mset)

lemma insert_sorted_set: "set (insert_sorted cmp x xs) = insert x (set xs)"
  by (induction xs) auto

lemma insert_sorted_filter:
  assumes "\<And>y. P x \<Longrightarrow> P y \<Longrightarrow> cmp x y \<le> 0"
  shows "filter P (insert_sorted cmp x xs) = (if P x then x # filter P xs else filter P xs)"
  using assms by (induction xs) auto

lemma Array_sort_filter:
  assumes "\<And>x y. P x \<Longrightarrow> P y \<Longrightarrow> cmp x y \<le> 0"
  shows "filter P (Array_sort cmp xs) = filter P xs"
proof (induction xs)
  case Nil
  then show ?case by (simp add: Array_sort_def)
next
  case (Cons x xs)
  have "filter P (Array_sort cmp (x # xs)) = filter P (insert_sorted cmp x (Array_sort cmp xs))"
    by (simp add: Array_sort_def)
  also have "\<dots> = (if P x then x # filter P (Array_sort cmp xs) else filter P (Array_sort cmp xs))"
    using assms by (rule insert_sorted_filter)
  finally show ?case using Cons.IH by simp
qed

lemma insert_sorted_sorted:
  assumes total: "\<And>x y. cmp x y \<le> 0 \<or> cmp y x \<le> 0"
    and trans: "\<And>x y z. cmp x y \<le> 0 \<Longrightarrow> cmp y z \<le> 0 \<Longrightarrow> cmp x z \<le> 0"
    and "sorted_wrt (\<lambda>a b. cmp a b \<le> 0) xs"
  shows "sorted_wrt (\<lambda>a b. cmp a b \<le> 0) (insert_sorted cmp x xs)"
  using assms(3)
proof (induction xs)
  case Nil
  then show ?case by simp
next
  case (Cons y ys)
  show ?case
  proof (cases "cmp x y \<le> 0")
    case True
    with Cons.prems trans show ?thesis by auto
  next
    case False
    with total have "cmp y x \<le> 0" by blast
    with False Cons show ?thesis by (auto simp: insert_sorted_set)
  qed
qed

lemma Array_sort_sorted:
  assumes total: "\<And>x y. cmp x y \<le> 0 \<or> cmp y x \<le> 0"
    and trans: "\<And>x y z. cmp x y \<le> 0 \<Longrightarrow> cmp y z \<le> 0 \<Longrightarrow> cmp x z \<le> 0"
  shows "sorted_wrt (\<lambda>a b. cmp a b \<le> 0) (Array_sort cmp xs)"
proof (induction xs)
  case Nil
  then show ?case by (simp add: Array_sort_def)
next
  case (Cons x xs)
  have "Array_sort cmp (x # xs) = insert_sorted cmp x (Array_sort cmp xs)"
    by (simp add: Array_sort_def)
  with insert_sorted_sorted [OF total trans Cons.IH] show ?case by simp
qed

subsection \<open>The comparator\<close>

text \<open>The values of one sort field are all strings or all numbers.\<close>

lemma js_lt_irrefl: "\<not> js_lt v v"
  by (cases v) (simp_all add: str_lt_irrefl)

lemma sortValue_trans:
  "js_lt (sortValue f a) (sortValue f b) \<Longrightarrow> js_lt (sortValue f b) (sortValue f c)
   \<Longrightarrow> js_lt (sortValue f a) (sortValue f c)"
  by (cases f) (auto intro: str_lt_trans)

lemma sortValue_total:
  "\<not> js_lt (sortValue f a) (sortValue f b) \<Longrightarrow> \<not> js_lt (sortValue f b) (sortValue f a)
   \<Longrightarrow> sortValue f a = sortValue f b"
  by (cases f) (auto dest: str_lt_total)

lemma sortValue_asym:
  "js_lt (sortValue f a) (sortValue f b) \<Longrightarrow> \<not> js_lt (sortValue f b) (sortValue f a)"
proof
  assume "js_lt (sortValue f a) (sortValue f b)" "js_lt (sortValue f b) (sortValue f a)"
  then have "js_lt (sortValue f a) (sortValue f a)" by (rule sortValue_trans)
  then show False by (simp add: js_lt_irrefl)
qed

lemma compareCards_le_Asc:
  "compareCards f Asc a b \<le> 0 \<longleftrightarrow> \<not> js_lt (sortValue f b) (sortValue f a)"
proof (cases "js_lt (sortValue f a) (sortValue f b)")
  case True
  then have "\<not> js_lt (sortValue f b) (sortValue f a)" by (rule sortValue_asym)
  with True show ?thesis by (simp add: compareCards_def)
next
  case False
  then show ?thesis by (simp add: compareCards_def)
qed

lemma compareCards_le_Desc:
  "compareCards f Desc a b \<le> 0 \<longleftrightarrow> \<not> js_lt (sortValue f a) (sortValue f b)"
proof (cases "js_lt (sortValue f a) (sortValue f b)")
  case True
  then show ?thesis by (simp add: compareCards_def)
next
  case False
  then show ?thesis by (simp add: compareCards_def)
qed

lemma compareCards_eq: "sortValue f a = sortValue f b \<Longrightarrow> compareCards f d a b = 0"
  by (simp add: compareCards_def js_lt_irrefl)

lemma compareCards_reverse: "compareCards f Desc a b = - compareCards f Asc a b"
  by (simp add: compareCards_def Let_def)

lemma compareCards_zero_iff: "compareCards f d a b = 0 \<longleftrightarrow> sortValue f a = sortValue f b"
proof
  assume "compareCards f d a b = 0"
  then have "\<not> js_lt (sortValue f a) (sortValue f b)" "\<not> js_lt (sortValue f b) (sortValue f a)"
    by (auto simp: compareCards_def Let_def split: if_splits)
  then show "sortValue f a = sortValue f b" by (rule sortValue_total)
next
  assume "sortValue f a = sortValue f b"
  then show "compareCards f d a b = 0" by (rule compareCards_eq)
qed

lemma compareCards_total: "compareCards f d a b \<le> 0 \<or> compareCards f d b a \<le> 0"
proof (cases d)
  case Asc
  show ?thesis
    unfolding Asc compareCards_le_Asc using sortValue_asym [of f a b] by blast
next
  case Desc
  show ?thesis
    unfolding Desc compareCards_le_Desc using sortValue_asym [of f a b] by blast
qed

lemma not_lt_trans:
  assumes "\<not> js_lt (sortValue f b) (sortValue f a)" "\<not> js_lt (sortValue f c) (sortValue f b)"
  shows "\<not> js_lt (sortValue f c) (sortValue f a)"
proof
  assume ca: "js_lt (sortValue f c) (sortValue f a)"
  show False
  proof (cases "js_lt (sortValue f a) (sortValue f b)")
    case True
    with ca have "js_lt (sortValue f c) (sortValue f b)" by (rule sortValue_trans)
    with assms(2) show False by blast
  next
    case False
    from False assms(1) have "sortValue f a = sortValue f b" by (rule sortValue_total)
    with ca have "js_lt (sortValue f c) (sortValue f b)" by simp
    with assms(2) show False by blast
  qed
qed

lemma compareCards_trans:
  assumes "compareCards f d a b \<le> 0" "compareCards f d b c \<le> 0"
  shows "compareCards f d a c \<le> 0"
proof (cases d)
  case Asc
  from assms show ?thesis
    unfolding Asc compareCards_le_Asc by (rule not_lt_trans)
next
  case Desc
  from assms(2,1) show ?thesis
    unfolding Desc compareCards_le_Desc by (rule not_lt_trans)
qed

subsection \<open>Sorting the view\<close>

lemmas view_eval =
  filteredCards_def filterCards_def Array_sort_def compareCards_def dateValue_def priceValue_def
  num_or_def listing_prop_def str_or_def str_or_lit_def matchesQuery_def ascii_toLowerCase_def
  lower_char_def blank_card_def blank_listing_def

lemma priceValue_cases:
  "priceValue c =
     (case listing_prop listingPrice c of
        None \<Rightarrow> mid (suggestedPrice c)
      | Some p \<Rightarrow> if p = 0 then mid (suggestedPrice c) else p)"
  by (simp add: priceValue_def num_or_def split: option.splits)

lemma dateValue_cases:
  "dateValue c =
     (case listing_prop listedDate c of
        Some (x # xs) \<Rightarrow> x # xs
      | _ \<Rightarrow> (case listing_prop soldDate c of Some (y # ys) \<Rightarrow> y # ys | _ \<Rightarrow> []))"
  by (simp add: dateValue_def str_or_def str_or_lit_def split: option.splits list.splits)

lemma priceValue_spec:
  "listing_prop listingPrice c \<noteq> Some 0 \<Longrightarrow> priceValue c = spec_priceKey c"
  by (auto simp: priceValue_def spec_priceKey_def num_or_def split: option.splits)

lemma dateValue_spec:
  "listing_prop listedDate c \<noteq> Some [] \<Longrightarrow> dateValue c = spec_dateKey c"
  by (auto simp: dateValue_def spec_dateKey_def str_or_def str_or_lit_def split: option.splits)

lemma filteredCards_sorted:
  "sorted_wrt (\<lambda>a b. if d = Asc then \<not> js_lt (sortValue f b) (sortValue f a)
                       else \<not> js_lt (sortValue f a) (sortValue f b))
     (filteredCards lc cards sf q f d)"
proof -
  have "sorted_wrt (\<lambda>a b. compareCards f d a b \<le> 0)
          (Array_sort (compareCards f d) (filterCards lc cards sf q))"
    by (rule Array_sort_sorted) (rule compareCards_total, rule compareCards_trans)
  then show ?thesis
    by (cases d) (simp_all add: filteredCards_def compareCards_le_Asc compareCards_le_Desc)
qed

lemma filteredCards_stable:
  "filter (\<lambda>x. sortValue f x = k) (filteredCards lc cards sf q f d) =
   filter (\<lambda>x. sortValue f x = k) (filterCards lc cards sf q)"
  unfolding filteredCards_def
  by (rule Array_sort_filter) (simp add: compareCards_eq)

text \<open>
  C6, as the code has it. The price value is the listing price when it is set and not 0,
  else the suggested mid price; the date value is the listed date when it is set and not
  empty, else the sold date when it is set and not empty, else the empty string. Where
  the listing price is not 0 and the listed date is not the empty string these are the
  values the specification words. No string is smaller than the empty string and the
  empty string is smaller than every other string. The view is a rearrangement of the
  filtered cards, ordered by the value of the sort field in the sort direction; the cards
  with one and the same value stand in the order of the filtered list, in either
  direction; the descending comparator is the negated ascending one, and it returns 0
  exactly on equal values.
\<close>

theorem derived_view_sort:
  "sortValue By_price c =
     VNum (case listing_prop listingPrice c of
             None \<Rightarrow> mid (suggestedPrice c)
           | Some p \<Rightarrow> if p = 0 then mid (suggestedPrice c) else p) \<and>
   (listing_prop listingPrice c \<noteq> Some 0 \<longrightarrow> sortValue By_price c = VNum (spec_priceKey c)) \<and>
   sortValue By_date c =
     VStr (case listing_prop listedDate c of
             Some (x # xs) \<Rightarrow> x # xs
           | _ \<Rightarrow> (case listing_prop soldDate c of Some (y # ys) \<Rightarrow> y # ys | _ \<Rightarrow> [])) \<and>
   (listing_prop listedDate c \<noteq> Some [] \<longrightarrow> sortValue By_date c = VStr (spec_dateKey c)) \<and>
   \<not> js_lt (VStr s) (VStr []) \<and> (s \<noteq> [] \<longrightarrow> js_lt (VStr []) (VStr s)) \<and>
   mset (filteredCards lc cards sf q f d) = mset (filterCards lc cards sf q) \<and>
   sorted_wrt (\<lambda>a b. if d = Asc then \<not> js_lt (sortValue f b) (sortValue f a)
                       else \<not> js_lt (sortValue f a) (sortValue f b))
     (filteredCards lc cards sf q f d) \<and>
   filter (\<lambda>x. sortValue f x = k) (filteredCards lc cards sf q f d) =
     filter (\<lambda>x. sortValue f x = k) (filterCards lc cards sf q) \<and>
   compareCards f Desc a b = - compareCards f Asc a b \<and>
   (compareCards f d a b = 0 \<longleftrightarrow> sortValue f a = sortValue f b)"
proof -
  have price: "sortValue By_price c =
     VNum (case listing_prop listingPrice c of
             None \<Rightarrow> mid (suggestedPrice c)
           | Some p \<Rightarrow> if p = 0 then mid (suggestedPrice c) else p)"
    using priceValue_cases [of c] by simp
  have date: "sortValue By_date c =
     VStr (case listing_prop listedDate c of
             Some (x # xs) \<Rightarrow> x # xs
           | _ \<Rightarrow> (case listing_prop soldDate c of Some (y # ys) \<Rightarrow> y # ys | _ \<Rightarrow> []))"
    using dateValue_cases [of c] by simp
  have empty: "\<not> js_lt (VStr s) (VStr []) \<and> (s \<noteq> [] \<longrightarrow> js_lt (VStr []) (VStr s))"
    using str_lt_empty [of s] by simp
  have perm: "mset (filteredCards lc cards sf q f d) = mset (filterCards lc cards sf q)"
    by (simp add: filteredCards_def Array_sort_mset)
  show ?thesis
    using price date empty perm filteredCards_sorted [where d = d and f = f]
      filteredCards_stable [where f = f and k = k and d = d] compareCards_reverse [of f a b]
      compareCards_zero_iff [of f d a b] priceValue_spec [of c] dateValue_spec [of c]
    by simp
qed

lemma date_desc_example:
  "filteredCards ascii_toLowerCase [card_A, card_B, card_C] All_statuses [] By_date Desc = [card_A, card_C, card_B]"
  by (simp add: view_eval card_A_def card_B_def card_C_def)

lemma date_values_example:
  "sortValue By_date card_A = VStr ''2024-01-01'' \<and> sortValue By_date card_B = VStr [] \<and>
   sortValue By_date card_C = VStr ''2024-01-01''"
  by (simp add: view_eval card_A_def card_B_def card_C_def)

theorem derived_view_sort_witness:
  "listing_prop listingPrice card_C \<noteq> Some 0 \<and>
   sortValue By_price card_C = VNum (spec_priceKey card_C) \<and>
   listing_prop listedDate card_C \<noteq> Some [] \<and>
   sortValue By_date card_C = VStr (spec_dateKey card_C) \<and>
   ''2024-01-01'' \<noteq> [] \<and> js_lt (VStr []) (VStr ''2024-01-01'') \<and>
   sortValue By_date card_A = VStr ''2024-01-01'' \<and> sortValue By_date card_B = VStr [] \<and>
   sortValue By_date card_C = VStr ''2024-01-01'' \<and>
   filterCards ascii_toLowerCase [card_A, card_B, card_C] All_statuses [] = [card_A, card_B, card_C] \<and>
   filteredCards ascii_toLowerCase [card_A, card_B, card_C] All_statuses [] By_date Desc =
     [card_A, card_C, card_B] \<and>
   filter (\<lambda>x. sortValue By_date x = VStr ''2024-01-01'')
     (filteredCards ascii_toLowerCase [card_A, card_B, card_C] All_statuses [] By_date Desc) = [card_A, card_C]"
proof -
  have h1: "listing_prop listingPrice card_C \<noteq> Some 0"
    by (simp add: view_eval card_C_def)
  have h2: "listing_prop listedDate card_C \<noteq> Some []"
    by (simp add: view_eval card_C_def)
  have h3: "filterCards ascii_toLowerCase [card_A, card_B, card_C] All_statuses [] = [card_A, card_B, card_C]"
    by (simp add: filterCards_def)
  note t = derived_view_sort [where lc = ascii_toLowerCase and c = card_C and s = "''2024-01-01''"
      and cards = "[card_A, card_B, card_C]" and sf = All_statuses and q = "[]" and f = By_date
      and d = Desc and k = "VStr ''2024-01-01''" and a = card_A and b = card_C]
  have c1: "sortValue By_price card_C = VNum (spec_priceKey card_C)"
    using t h1 by blast
  have c2: "sortValue By_date card_C = VStr (spec_dateKey card_C)"
    using t h2 by blast
  have h4: "''2024-01-01'' \<noteq> []" by simp
  have c3: "js_lt (VStr []) (VStr ''2024-01-01'')"
    using t h4 by blast
  have "filter (\<lambda>x. sortValue By_date x = VStr ''2024-01-01'')
     (filteredCards ascii_toLowerCase [card_A, card_B, card_C] All_statuses [] By_date Desc) =
        filter (\<lambda>x. sortValue By_date x = VStr ''2024-01-01'')
     (filterCards ascii_toLowerCase [card_A, card_B, card_C] All_statuses [])"
    using t by blast
  then have c4: "filter (\<lambda>x. sortValue By_date x = VStr ''2024-01-01'')
     (filteredCards ascii_toLowerCase [card_A, card_B, card_C] All_statuses [] By_date Desc) = [card_A, card_C]"
    using date_values_example by (simp add: h3)
  show ?thesis
    using h1 h2 h3 h4 c1 c2 c3 c4 date_desc_example date_values_example by blast
qed

text \<open>
  C6 as stated fails: a listing price of 0 is set, and the price value is the suggested
  mid price.
\<close>

theorem derived_view_sort_counterexample:
  "sortValue By_price free_listing \<noteq> VNum (spec_priceKey free_listing)"
  by (simp add: priceValue_def spec_priceKey_def num_or_def listing_prop_def free_listing_def
      blank_card_def blank_listing_def)

subsection \<open>Filtering and the statistics\<close>

lemma filterCards_filter:
  "filterCards lc cards sf q =
     filter (\<lambda>c. (sf = All_statuses \<or> sf = Only (status c)) \<and>
                 (q = [] \<or> matchesQuery lc (lc q) c)) cards"
  by (cases "sf = All_statuses"; cases "q = []") (auto simp: filterCards_def Let_def intro: filter_cong)

lemma matchesQuery_iff:
  "matchesQuery lc (lc q) c \<longleftrightarrow>
     (\<exists>field \<in> {card_name c, card_set c, cardNumber c, game c}.
        \<exists>ps ss. lc field = ps @ lc q @ ss)"
  by (simp add: matchesQuery_def str_includes_sublist sublist_def)

lemma foldl_exact_sum_list:
  "foldl (\<lambda>sum c. sum + g c) (z::real) xs = z + sum_list (map g xs)"
  by (induction xs arbitrary: z) simp_all

lemma sum_list_mset_cong:
  assumes "mset xs = mset ys"
  shows "sum_list (map g xs) = (sum_list (map g ys) :: real)"
proof -
  have "sum_list (map g xs) = sum_mset (image_mset g (mset xs))"
    by (simp flip: sum_mset_sum_list)
  also have "\<dots> = sum_mset (image_mset g (mset ys))"
    by (simp add: assms)
  also have "\<dots> = sum_list (map g ys)"
    by (simp flip: sum_mset_sum_list)
  finally show ?thesis .
qed

lemma length_filter_mset_cong:
  assumes "mset xs = mset ys"
  shows "length (filter P xs) = length (filter P ys)"
proof -
  have "mset (filter P xs) = mset (filter P ys)"
    by (simp add: assms)
  then show ?thesis by (rule mset_eq_length)
qed

lemma filteredCards_mset:
  "mset (filteredCards lc cards sf q f d) = mset (filterCards lc cards sf q)"
  by (simp add: filteredCards_def Array_sort_mset)

lemma stats_counts:
  "stat_all (stats fadd (filteredCards lc cards sf q f d)) = length (filterCards lc cards sf q) \<and>
   stat_inventory (stats fadd (filteredCards lc cards sf q f d)) =
     length (filter (\<lambda>c. status c = Inventory) (filterCards lc cards sf q)) \<and>
   stat_listing (stats fadd (filteredCards lc cards sf q f d)) =
     length (filter (\<lambda>c. status c = Listing) (filterCards lc cards sf q)) \<and>
   stat_sold (stats fadd (filteredCards lc cards sf q f d)) =
     length (filter (\<lambda>c. status c = Sold) (filterCards lc cards sf q))"
proof -
  note perm = filteredCards_mset [of lc cards sf q f d]
  have len: "length (filteredCards lc cards sf q f d) = length (filterCards lc cards sf q)"
    using perm by (rule mset_eq_length)
  show ?thesis
    by (simp add: stats_def len length_filter_mset_cong [OF perm])
qed

lemma stats_total:
  "totalValue (stats fadd cs) = foldl (\<lambda>sum c. fadd sum (priceValue c)) 0 cs"
  by (simp add: stats_def)

lemma foldl_fadd_cong:
  assumes "\<And>x. x \<in> set cs \<Longrightarrow> g x = h x"
  shows "foldl (\<lambda>sum c. fadd sum (g c)) z cs = foldl (\<lambda>sum c. fadd sum (h c)) z cs"
  using assms by (induction cs arbitrary: z) simp_all

lemma stats_total_exact:
  assumes "\<And>a b. fadd a b = a + b"
  shows "totalValue (stats fadd (filteredCards lc cards sf q f d)) =
     sum_list (map priceValue (filterCards lc cards sf q))"
proof -
  have "totalValue (stats fadd (filteredCards lc cards sf q f d)) =
      foldl (\<lambda>sum c. sum + priceValue c) 0 (filteredCards lc cards sf q f d)"
    by (simp add: stats_def assms)
  also have "\<dots> = sum_list (map priceValue (filteredCards lc cards sf q f d))"
    by (simp add: foldl_exact_sum_list)
  also have "\<dots> = sum_list (map priceValue (filterCards lc cards sf q))"
    by (rule sum_list_mset_cong) (rule filteredCards_mset)
  finally show ?thesis .
qed

text \<open>
  C7, as the code has it. With the status filter \<^verbatim>\<open>all\<close> and no query every card is kept;
  in general a card is kept exactly when the status filter is \<^verbatim>\<open>all\<close> or its status, and
  the query is empty or its lower-casing occurs in the lower-casing of the name, set,
  card number or game, for the lower-casing \<open>lc\<close> of the runtime. The view is a
  rearrangement of the filtered cards, so the counts of the statistics are those of the
  filtered cards. The total is the value of the cards of the view added from 0 in the
  order of the view, with the addition \<open>fadd\<close> of the runtime; with an addition that
  does not round it is the sum over the filtered cards. The value of a card is its
  listing price when that is set and not 0, else the suggested mid price, so the total is
  the total the specification words when no filtered card has the listing price 0.
\<close>

theorem derived_view_filter_stats:
  "filterCards lc cards All_statuses [] = cards \<and>
   filterCards lc cards sf q =
     filter (\<lambda>c. (sf = All_statuses \<or> sf = Only (status c)) \<and>
                 (q = [] \<or> matchesQuery lc (lc q) c)) cards \<and>
   (q \<noteq> [] \<longrightarrow>
      (c \<in> set (filteredCards lc cards sf q f d) \<longleftrightarrow>
         c \<in> set cards \<and> (sf = All_statuses \<or> sf = Only (status c)) \<and>
         (\<exists>field \<in> {card_name c, card_set c, cardNumber c, game c}.
            \<exists>ps ss. lc field = ps @ lc q @ ss))) \<and>
   mset (filteredCards lc cards sf q f d) = mset (filterCards lc cards sf q) \<and>
   stat_all (stats fadd (filteredCards lc cards sf q f d)) = length (filterCards lc cards sf q) \<and>
   stat_inventory (stats fadd (filteredCards lc cards sf q f d)) =
     length (filter (\<lambda>c. status c = Inventory) (filterCards lc cards sf q)) \<and>
   stat_listing (stats fadd (filteredCards lc cards sf q f d)) =
     length (filter (\<lambda>c. status c = Listing) (filterCards lc cards sf q)) \<and>
   stat_sold (stats fadd (filteredCards lc cards sf q f d)) =
     length (filter (\<lambda>c. status c = Sold) (filterCards lc cards sf q)) \<and>
   totalValue (stats fadd (filteredCards lc cards sf q f d)) =
     foldl (\<lambda>sum c. fadd sum (priceValue c)) 0 (filteredCards lc cards sf q f d) \<and>
   ((\<forall>a b. fadd a b = a + b) \<longrightarrow>
      totalValue (stats fadd (filteredCards lc cards sf q f d)) =
        sum_list (map priceValue (filterCards lc cards sf q))) \<and>
   priceValue c =
     (case listing_prop listingPrice c of
        None \<Rightarrow> mid (suggestedPrice c)
      | Some p \<Rightarrow> if p = 0 then mid (suggestedPrice c) else p) \<and>
   ((\<forall>x \<in> set (filterCards lc cards sf q). listing_prop listingPrice x \<noteq> Some 0) \<longrightarrow>
      totalValue (stats fadd (filteredCards lc cards sf q f d)) =
        spec_totalValue fadd (filteredCards lc cards sf q f d))"
proof -
  have all: "filterCards lc cards All_statuses [] = cards"
    by (simp add: filterCards_def)
  have viewset: "set (filteredCards lc cards sf q f d) = set (filterCards lc cards sf q)"
    by (simp add: filteredCards_def Array_sort_set)
  have mem: "q \<noteq> [] \<longrightarrow>
      (c \<in> set (filteredCards lc cards sf q f d) \<longleftrightarrow>
         c \<in> set cards \<and> (sf = All_statuses \<or> sf = Only (status c)) \<and>
         (\<exists>field \<in> {card_name c, card_set c, cardNumber c, game c}.
            \<exists>ps ss. lc field = ps @ lc q @ ss))"
  proof
    assume q: "q \<noteq> []"
    show "c \<in> set (filteredCards lc cards sf q f d) \<longleftrightarrow>
         c \<in> set cards \<and> (sf = All_statuses \<or> sf = Only (status c)) \<and>
         (\<exists>field \<in> {card_name c, card_set c, cardNumber c, game c}.
            \<exists>ps ss. lc field = ps @ lc q @ ss)"
      using q by (simp add: viewset filterCards_filter matchesQuery_iff)
  qed
  have exact: "(\<forall>a b. fadd a b = a + b) \<longrightarrow>
      totalValue (stats fadd (filteredCards lc cards sf q f d)) =
        sum_list (map priceValue (filterCards lc cards sf q))"
    using stats_total_exact [of fadd lc cards sf q f d] by blast
  have spec: "(\<forall>x \<in> set (filterCards lc cards sf q). listing_prop listingPrice x \<noteq> Some 0) \<longrightarrow>
      totalValue (stats fadd (filteredCards lc cards sf q f d)) =
        spec_totalValue fadd (filteredCards lc cards sf q f d)"
  proof
    assume "\<forall>x \<in> set (filterCards lc cards sf q). listing_prop listingPrice x \<noteq> Some 0"
    then have "\<And>x. x \<in> set (filteredCards lc cards sf q f d) \<Longrightarrow>
        priceValue x = spec_priceKey x"
      by (simp add: viewset priceValue_spec)
    then have "foldl (\<lambda>sum c. fadd sum (priceValue c)) 0 (filteredCards lc cards sf q f d) =
        foldl (\<lambda>sum c. fadd sum (spec_priceKey c)) 0 (filteredCards lc cards sf q f d)"
      by (rule foldl_fadd_cong)
    then show "totalValue (stats fadd (filteredCards lc cards sf q f d)) =
        spec_totalValue fadd (filteredCards lc cards sf q f d)"
      by (simp only: stats_total spec_totalValue_def)
  qed
  show ?thesis
    by (intro conjI)
      (rule all filterCards_filter mem filteredCards_mset stats_counts [THEN conjunct1]
        stats_counts [THEN conjunct2, THEN conjunct1]
        stats_counts [THEN conjunct2, THEN conjunct2, THEN conjunct1]
        stats_counts [THEN conjunct2, THEN conjunct2, THEN conjunct2]
        stats_total exact priceValue_cases spec)+
qed

lemma sold_view_example:
  "filterCards ascii_toLowerCase five_cards (Only Sold) [] = [card_C, card_D] \<and>
   filteredCards ascii_toLowerCase five_cards (Only Sold) [] By_date Desc = [card_C, card_D]"
  by (simp add: view_eval five_cards_def card_A_def card_B_def card_C_def card_D_def card_E_def)

lemma query_view_example:
  "filterCards ascii_toLowerCase five_cards All_statuses ''chariZ'' = [card_D]"
  by (simp add: view_eval five_cards_def card_A_def card_B_def card_C_def card_D_def card_E_def)

lemma example_values:
  "priceValue card_A = 5 \<and> priceValue card_B = 5 \<and> priceValue card_C = 5 \<and>
   priceValue card_D = 120 \<and> priceValue card_E = 5"
  by (simp add: view_eval card_A_def card_B_def card_C_def card_D_def card_E_def)

lemma example_statuses:
  "status card_A = Listing \<and> status card_B = Inventory \<and> status card_C = Sold \<and>
   status card_D = Sold \<and> status card_E = Inventory"
  by (simp add: view_eval card_A_def card_B_def card_C_def card_D_def card_E_def)

theorem derived_view_filter_stats_witness:
  "''chariZ'' \<noteq> [] \<and>
   card_D \<in> set (filteredCards ascii_toLowerCase five_cards All_statuses ''chariZ'' By_date Desc) \<and>
   card_A \<notin> set (filteredCards ascii_toLowerCase five_cards All_statuses ''chariZ'' By_date Desc) \<and>
   (\<forall>a b. exact_add a b = a + b) \<and>
   listing_prop listingPrice card_C \<noteq> Some 0 \<and> listing_prop listingPrice card_D \<noteq> Some 0 \<and>
   filterCards ascii_toLowerCase five_cards (Only Sold) [] = [card_C, card_D] \<and>
   filteredCards ascii_toLowerCase five_cards (Only Sold) [] By_date Desc = [card_C, card_D] \<and>
   stats exact_add (filteredCards ascii_toLowerCase five_cards (Only Sold) [] By_date Desc) =
     \<lparr>stat_all = 2, stat_inventory = 0, stat_listing = 0, stat_sold = 2, totalValue = 125\<rparr> \<and>
   totalValue (stats exact_add
       (filteredCards ascii_toLowerCase five_cards (Only Sold) [] By_date Desc)) =
     spec_totalValue exact_add [card_C, card_D] \<and>
   totalValue (stats exact_add five_cards) = 140"
proof -
  note t1 = derived_view_filter_stats [where lc = ascii_toLowerCase and fadd = exact_add
      and cards = five_cards and sf = All_statuses and q = "''chariZ''" and f = By_date
      and d = Desc and c = card_D]
  note t1a = derived_view_filter_stats [where lc = ascii_toLowerCase and fadd = exact_add
      and cards = five_cards and sf = All_statuses and q = "''chariZ''" and f = By_date
      and d = Desc and c = card_A]
  note t2 = derived_view_filter_stats [where lc = ascii_toLowerCase and fadd = exact_add
      and cards = five_cards and sf = "Only Sold" and q = "[]" and f = By_date and d = Desc
      and c = card_C]
  have h1: "''chariZ'' \<noteq> []" by simp
  have h2: "listing_prop listingPrice card_C \<noteq> Some 0"
    by (simp add: view_eval card_C_def)
  have h3: "listing_prop listingPrice card_D \<noteq> Some 0"
    by (simp add: view_eval card_D_def)
  have h4: "\<forall>a b. exact_add a b = a + b"
    by (simp add: exact_add_def)
  note iff = t1 [THEN conjunct2, THEN conjunct2, THEN conjunct1, THEN mp, OF h1]
  have mem: "card_D \<in> set five_cards"
    by (simp add: five_cards_def)
  have m: "ascii_toLowerCase (card_name card_D) = [] @ ascii_toLowerCase ''chariZ'' @ ''ard''"
    by (simp add: view_eval card_D_def)
  have ex: "\<exists>field \<in> {card_name card_D, card_set card_D, cardNumber card_D, game card_D}.
        \<exists>ps ss. ascii_toLowerCase field = ps @ ascii_toLowerCase ''chariZ'' @ ss"
  proof (rule bexI)
    show "\<exists>ps ss. ascii_toLowerCase (card_name card_D) = ps @ ascii_toLowerCase ''chariZ'' @ ss"
      using m by blast
    show "card_name card_D \<in> {card_name card_D, card_set card_D, cardNumber card_D, game card_D}"
      by simp
  qed
  have st: "All_statuses = All_statuses" by simp
  have c1: "card_D \<in> set (filteredCards ascii_toLowerCase five_cards All_statuses ''chariZ''
      By_date Desc)"
    by (rule iffD2 [OF iff]) (intro conjI disjI1 mem st ex)
  have "set (filteredCards ascii_toLowerCase five_cards All_statuses ''chariZ'' By_date Desc) =
      set (filterCards ascii_toLowerCase five_cards All_statuses ''chariZ'')"
    using t1a [THEN conjunct2, THEN conjunct2, THEN conjunct2, THEN conjunct1]
    by (rule mset_eq_setD)
  moreover have "card_A \<noteq> card_D"
  proof
    assume "card_A = card_D"
    then have "status card_A = status card_D" by simp
    moreover have "status card_A = Listing" "status card_D = Sold"
      using example_statuses by blast+
    ultimately show False by simp
  qed
  ultimately have c1a: "card_A \<notin> set (filteredCards ascii_toLowerCase five_cards All_statuses
      ''chariZ'' By_date Desc)"
    by (simp add: query_view_example)
  have f: "filterCards ascii_toLowerCase five_cards (Only Sold) [] = [card_C, card_D]"
    using sold_view_example by (rule conjunct1)
  have v: "filteredCards ascii_toLowerCase five_cards (Only Sold) [] By_date Desc =
      [card_C, card_D]"
    using sold_view_example by (rule conjunct2)
  note counts = t2 [THEN conjunct2, THEN conjunct2, THEN conjunct2, THEN conjunct2]
  have n1: "stat_all (stats exact_add
      (filteredCards ascii_toLowerCase five_cards (Only Sold) [] By_date Desc)) = 2"
    using counts [THEN conjunct1] by (simp add: f)
  have n2: "stat_inventory (stats exact_add
      (filteredCards ascii_toLowerCase five_cards (Only Sold) [] By_date Desc)) = 0"
    using counts [THEN conjunct2, THEN conjunct1] example_statuses by (simp add: f)
  have n3: "stat_listing (stats exact_add
      (filteredCards ascii_toLowerCase five_cards (Only Sold) [] By_date Desc)) = 0"
    using counts [THEN conjunct2, THEN conjunct2, THEN conjunct1] example_statuses
    by (simp add: f)
  have n4: "stat_sold (stats exact_add
      (filteredCards ascii_toLowerCase five_cards (Only Sold) [] By_date Desc)) = 2"
    using counts [THEN conjunct2, THEN conjunct2, THEN conjunct2, THEN conjunct1]
      example_statuses
    by (simp add: f)
  have n5: "totalValue (stats exact_add
      (filteredCards ascii_toLowerCase five_cards (Only Sold) [] By_date Desc)) = 125"
    using counts [THEN conjunct2, THEN conjunct2, THEN conjunct2, THEN conjunct2, THEN conjunct2,
        THEN conjunct1, THEN mp, OF h4] example_values
    by (simp add: f)
  have c2: "stats exact_add
      (filteredCards ascii_toLowerCase five_cards (Only Sold) [] By_date Desc) =
     \<lparr>stat_all = 2, stat_inventory = 0, stat_listing = 0, stat_sold = 2, totalValue = 125\<rparr>"
    using n1 n2 n3 n4 n5
    by (cases "stats exact_add
      (filteredCards ascii_toLowerCase five_cards (Only Sold) [] By_date Desc)") simp
  have nz: "\<forall>x \<in> set (filterCards ascii_toLowerCase five_cards (Only Sold) []).
      listing_prop listingPrice x \<noteq> Some 0"
    using h2 h3 by (simp add: f)
  have "totalValue (stats exact_add
      (filteredCards ascii_toLowerCase five_cards (Only Sold) [] By_date Desc)) =
     spec_totalValue exact_add
       (filteredCards ascii_toLowerCase five_cards (Only Sold) [] By_date Desc)"
    by (rule counts [THEN conjunct2, THEN conjunct2, THEN conjunct2, THEN conjunct2,
          THEN conjunct2, THEN conjunct2, THEN conjunct2, THEN mp, OF nz])
  then have c3: "totalValue (stats exact_add
      (filteredCards ascii_toLowerCase five_cards (Only Sold) [] By_date Desc)) =
     spec_totalValue exact_add [card_C, card_D]"
    by (simp only: v)
  have c4: "totalValue (stats exact_add five_cards) = 140"
    using example_values by (simp add: stats_def exact_add_def five_cards_def)
  show ?thesis
    by (intro conjI) (rule h1 c1 c1a h4 h2 h3 f v c2 c3 c4)+
qed

text \<open>
  C7 as stated fails: a listing price of 0 is present, and the total counts the
  suggested mid price of the card.
\<close>

theorem derived_view_filter_stats_counterexample:
  "totalValue (stats exact_add
     (filteredCards ascii_toLowerCase [give_away] All_statuses [] By_date Desc)) \<noteq>
   spec_totalValue exact_add
     (filteredCards ascii_toLowerCase [give_away] All_statuses [] By_date Desc)"
  by (simp add: stats_def spec_totalValue_def spec_priceKey_def exact_add_def view_eval
      give_away_def)

section \<open>Properties of grading, regrading and listing copy\<close>

lemmas reconcile_eval =
  tryWithFallback_def candidate_models_def ANALYSIS_MODELS_def LISTING_MODELS_def
  first_answers_def parse_grading_example_def parse_listing_example_def

lemma startAnalysis_parsed:
  assumes "capturedImages \<noteq> []"
    and "tryWithFallback (candidate_models ANALYSIS_MODELS analysisModel) generateContent w =
           (Inr response, w')"
    and "JSON_parse (result response) = Some data"
  shows "startAnalysis JSON_parse new_id st analysisModel capturedImages generateContent w =
     (Analyzed (newCard new_id st capturedImages
        (data\<lparr>p_strictness := Some st, p_groundingSources := Some []\<rparr>)), w')"
  using assms by (simp add: startAnalysis_def analyzeCard_def)

text \<open>
  C4. When the response of the model parses, \<^verbatim>\<open>startAnalysis\<close> hands over a card and
  sets no error: nothing is thrown. Every property that is absent from the parsed
  response has its default on the card: the three agent placeholders with price 0 and
  confidence 0, the placeholder strings, the grading with every condition near mint, the
  price triple of zeros, the empty history and the empty identifier. A grading, price
  triple, agents record or history that is present is taken over.
\<close>

theorem reconcile_defaults:
  assumes "capturedImages \<noteq> []"
    and "tryWithFallback (candidate_models ANALYSIS_MODELS analysisModel) generateContent w =
           (Inr response, w')"
    and "JSON_parse (result response) = Some data"
    and "crd = newCard new_id st capturedImages
           (data\<lparr>p_strictness := Some st, p_groundingSources := Some []\<rparr>)"
  shows "startAnalysis JSON_parse new_id st analysisModel capturedImages generateContent w =
           (Analyzed crd, w') \<and>
         (p_agents data = None \<longrightarrow>
            agents crd = default_agents \<and>
            price (conservative (agents crd)) = 0 \<and> confidence (conservative (agents crd)) = 0 \<and>
            price (market (agents crd)) = 0 \<and> confidence (market (agents crd)) = 0 \<and>
            price (speculative (agents crd)) = 0 \<and> confidence (speculative (agents crd)) = 0) \<and>
         (p_game data = None \<longrightarrow> game crd = ''Unknown TCG'') \<and>
         (p_name data = None \<longrightarrow> card_name crd = ''Unknown Card'') \<and>
         (p_set data = None \<longrightarrow> card_set crd = ''Unknown Set'') \<and>
         (p_cardNumber data = None \<longrightarrow> cardNumber crd = ''???'') \<and>
         (p_rarity data = None \<longrightarrow> rarity crd = ''Common'') \<and>
         (p_isHolo data = None \<longrightarrow> isHolo crd = False) \<and>
         (p_grading data = None \<longrightarrow>
            grading crd = default_grading \<and>
            centering (grading crd) = NM \<and> corners (grading crd) = NM \<and>
            edges (grading crd) = NM \<and> surface (grading crd) = NM \<and>
            overallCondition (grading crd) = NM) \<and>
         (p_suggestedPrice data = None \<longrightarrow> suggestedPrice crd = \<lparr>low = 0, mid = 0, high = 0\<rparr>) \<and>
         (p_historicalData data = None \<longrightarrow> historicalData crd = []) \<and>
         (p_cardIdentifier data = None \<longrightarrow> cardIdentifier crd = Some []) \<and>
         (\<forall>g. p_grading data = Some g \<longrightarrow> grading crd = g) \<and>
         (\<forall>a. p_agents data = Some a \<longrightarrow> agents crd = a) \<and>
         (\<forall>p. p_suggestedPrice data = Some p \<longrightarrow> suggestedPrice crd = p) \<and>
         (\<forall>h. p_historicalData data = Some h \<longrightarrow> historicalData crd = h)"
proof -
  have run: "startAnalysis JSON_parse new_id st analysisModel capturedImages generateContent w =
           (Analyzed crd, w')"
    using assms by (simp add: startAnalysis_parsed)
  have fields: "agents crd = obj_or (p_agents data) default_agents"
    "game crd = str_or_lit (p_game data) ''Unknown TCG''"
    "card_name crd = str_or_lit (p_name data) ''Unknown Card''"
    "card_set crd = str_or_lit (p_set data) ''Unknown Set''"
    "cardNumber crd = str_or_lit (p_cardNumber data) ''???''"
    "rarity crd = str_or_lit (p_rarity data) ''Common''"
    "isHolo crd = bool_or_false (p_isHolo data)"
    "grading crd = obj_or (p_grading data) default_grading"
    "suggestedPrice crd = obj_or (p_suggestedPrice data) \<lparr>low = 0, mid = 0, high = 0\<rparr>"
    "historicalData crd = obj_or (p_historicalData data) []"
    "cardIdentifier crd = Some (str_or_lit (p_cardIdentifier data) [])"
    using assms(4) by (simp_all add: newCard_def)
  show ?thesis
    using run unfolding fields
    by (simp add: obj_or_def str_or_lit_def bool_or_false_def default_agents_def default_grading_def)
qed

lemma name_only_run:
  "tryWithFallback (candidate_models ANALYSIS_MODELS None) (first_answers name_only_text) 0 =
     (Inr \<lparr>result = name_only_text, model = ''gemini-2.5-flash''\<rparr>, 1)"
  by (simp add: reconcile_eval)

theorem reconcile_defaults_witness:
  "[''data:image/jpeg;base64,AAAA''] \<noteq> [] \<and>
   tryWithFallback (candidate_models ANALYSIS_MODELS None) (first_answers name_only_text) 0 =
     (Inr \<lparr>result = name_only_text, model = ''gemini-2.5-flash''\<rparr>, 1) \<and>
   parse_grading_example name_only_text = Some name_only \<and>
   p_agents name_only = None \<and> p_game name_only = None \<and> p_grading name_only = None \<and>
   (\<exists>crd. startAnalysis parse_grading_example ''id1'' Standard None
           [''data:image/jpeg;base64,AAAA''] (first_answers name_only_text) 0 =
           (Analyzed crd, 1) \<and>
         agents crd = default_agents \<and> price (market (agents crd)) = 0 \<and>
         confidence (market (agents crd)) = 0 \<and> game crd = ''Unknown TCG'' \<and>
         grading crd = default_grading \<and> card_name crd = ''Pikachu'' \<and>
         cardIdentifier crd = Some ''BS-58'')"
proof -
  have h1: "[''data:image/jpeg;base64,AAAA''] \<noteq> []" by simp
  have h3: "parse_grading_example (result \<lparr>result = name_only_text, model = ''gemini-2.5-flash''\<rparr>) =
     Some name_only"
    by (simp add: parse_grading_example_def)
  have h3': "parse_grading_example name_only_text = Some name_only"
    by (simp add: parse_grading_example_def)
  have pa: "p_agents name_only = None"
    by (simp add: name_only_def empty_partial_def)
  have pg: "p_game name_only = None"
    by (simp add: name_only_def empty_partial_def)
  have pgr: "p_grading name_only = None"
    by (simp add: name_only_def empty_partial_def)
  define crd where "crd = newCard ''id1'' Standard [''data:image/jpeg;base64,AAAA'']
           (name_only\<lparr>p_strictness := Some Standard, p_groundingSources := Some []\<rparr>)"
  note t = reconcile_defaults [where capturedImages = "[''data:image/jpeg;base64,AAAA'']"
      and analysisModel = None and generateContent = "first_answers name_only_text" and w = 0
      and response = "\<lparr>result = name_only_text, model = ''gemini-2.5-flash''\<rparr>" and w' = 1
      and JSON_parse = parse_grading_example and data = name_only and crd = crd
      and new_id = "''id1''" and st = Standard, OF h1 name_only_run h3 crd_def]
  have run: "startAnalysis parse_grading_example ''id1'' Standard None
           [''data:image/jpeg;base64,AAAA''] (first_answers name_only_text) 0 = (Analyzed crd, 1)"
    by (rule t [THEN conjunct1])
  have ag: "agents crd = default_agents \<and>
            price (conservative (agents crd)) = 0 \<and> confidence (conservative (agents crd)) = 0 \<and>
            price (market (agents crd)) = 0 \<and> confidence (market (agents crd)) = 0 \<and>
            price (speculative (agents crd)) = 0 \<and> confidence (speculative (agents crd)) = 0"
    by (rule t [THEN conjunct2, THEN conjunct1, THEN mp, OF pa])
  have gm: "game crd = ''Unknown TCG''"
    by (rule t [THEN conjunct2, THEN conjunct2, THEN conjunct1, THEN mp, OF pg])
  have gr: "grading crd = default_grading"
    using t [THEN conjunct2, THEN conjunct2, THEN conjunct2, THEN conjunct2, THEN conjunct2,
        THEN conjunct2, THEN conjunct2, THEN conjunct2, THEN conjunct1, THEN mp, OF pgr]
    by (rule conjunct1)
  have nm: "card_name crd = ''Pikachu''"
    by (simp add: crd_def newCard_def name_only_def empty_partial_def str_or_lit_def)
  have ci: "cardIdentifier crd = Some ''BS-58''"
    by (simp add: crd_def newCard_def name_only_def empty_partial_def str_or_lit_def)
  have a1: "agents crd = default_agents" using ag by (rule conjunct1)
  have a2: "price (market (agents crd)) = 0"
    using ag [THEN conjunct2, THEN conjunct2, THEN conjunct2] by (rule conjunct1)
  have a3: "confidence (market (agents crd)) = 0"
    using ag [THEN conjunct2, THEN conjunct2, THEN conjunct2, THEN conjunct2] by (rule conjunct1)
  show ?thesis
    by (intro conjI exI [where x = crd])
      (rule h1 name_only_run h3' pa pg pgr run a1 a2 a3 gm gr nm ci)+
qed

lemma handleRegrade_regraded:
  assumes "images editedCard \<noteq> []"
    and "convertImages (images editedCard) w = (base64Images, w1)"
    and "filter (\<lambda>img. length img > 0) base64Images \<noteq> []"
    and "analyzeCard JSON_parse (strictness editedCard) analysisModel generateContent w1 =
           (Inr res, w2)"
  shows "handleRegrade JSON_parse analysisModel convertImages generateContent editedCard w =
           (Regraded (updatedCard editedCard res), w2)"
  using assms by (simp add: handleRegrade_def Let_def)

text \<open>
  C5, as the code has it. When the regrade succeeds, the grading, the suggested price and
  the agents of the result replace those of the card where the result has them, and
  stay as they are where it has not; every other field of the card is unchanged: id,
  images, status, listing information, market data, and also the identifier and the
  descriptive fields.
\<close>

theorem regrade_partial_merge:
  assumes "images editedCard \<noteq> []"
    and "convertImages (images editedCard) w = (base64Images, w1)"
    and "filter (\<lambda>img. length img > 0) base64Images \<noteq> []"
    and "analyzeCard JSON_parse (strictness editedCard) analysisModel generateContent w1 =
           (Inr res, w2)"
    and "crd = updatedCard editedCard res"
  shows "handleRegrade JSON_parse analysisModel convertImages generateContent editedCard w =
           (Regraded crd, w2) \<and>
         (\<forall>g. p_grading res = Some g \<longrightarrow> grading crd = g) \<and>
         (\<forall>p. p_suggestedPrice res = Some p \<longrightarrow> suggestedPrice crd = p) \<and>
         (\<forall>a. p_agents res = Some a \<longrightarrow> agents crd = a) \<and>
         (p_grading res = None \<longrightarrow> grading crd = grading editedCard) \<and>
         (p_suggestedPrice res = None \<longrightarrow> suggestedPrice crd = suggestedPrice editedCard) \<and>
         (p_agents res = None \<longrightarrow> agents crd = agents editedCard) \<and>
         card_id crd = card_id editedCard \<and> images crd = images editedCard \<and>
         status crd = status editedCard \<and> listingInfo crd = listingInfo editedCard \<and>
         marketData crd = marketData editedCard \<and>
         cardIdentifier crd = cardIdentifier editedCard \<and>
         game crd = game editedCard \<and> card_name crd = card_name editedCard \<and>
         card_set crd = card_set editedCard \<and> cardNumber crd = cardNumber editedCard \<and>
         rarity crd = rarity editedCard \<and> isHolo crd = isHolo editedCard \<and>
         strictness crd = strictness editedCard \<and> tags crd = tags editedCard \<and>
         historicalData crd = historicalData editedCard \<and>
         groundingSources crd = groundingSources editedCard"
proof -
  have run: "handleRegrade JSON_parse analysisModel convertImages generateContent editedCard w =
           (Regraded crd, w2)"
    using assms by (simp add: handleRegrade_regraded)
  have merged: "grading crd = obj_or (p_grading res) (grading editedCard)"
    "suggestedPrice crd = obj_or (p_suggestedPrice res) (suggestedPrice editedCard)"
    "agents crd = obj_or (p_agents res) (agents editedCard)"
    using assms(5) by (simp_all add: updatedCard_def)
  have frame: "card_id crd = card_id editedCard" "images crd = images editedCard"
    "status crd = status editedCard" "listingInfo crd = listingInfo editedCard"
    "marketData crd = marketData editedCard" "cardIdentifier crd = cardIdentifier editedCard"
    "game crd = game editedCard" "card_name crd = card_name editedCard"
    "card_set crd = card_set editedCard" "cardNumber crd = cardNumber editedCard"
    "rarity crd = rarity editedCard" "isHolo crd = isHolo editedCard"
    "strictness crd = strictness editedCard" "tags crd = tags editedCard"
    "historicalData crd = historicalData editedCard"
    "groundingSources crd = groundingSources editedCard"
    using assms(5) by (simp_all add: updatedCard_def)
  show ?thesis
    unfolding merged frame using run by (simp add: obj_or_def)
qed

lemma regrade_example_analysis:
  "analyzeCard parse_grading_example Standard None (first_answers name_only_text) 0 =
     (Inr (name_only\<lparr>p_strictness := Some Standard, p_groundingSources := Some []\<rparr>), 1)"
  by (simp add: analyzeCard_def reconcile_eval)

lemma listed_card_fields:
  "images listed_card = [''url1'', ''url2''] \<and> status listed_card = Listing \<and>
   strictness listed_card = Standard \<and> cardIdentifier listed_card = Some ''OLD-1''"
  by (simp add: listed_card_def blank_card_def)

lemma regrade_text_differs: "regrade_text \<noteq> name_only_text"
  by (simp add: regrade_text_def name_only_text_def quoted_def json_string_field_def)

lemma regrade_response_analysis:
  "analyzeCard parse_grading_example Standard None (first_answers regrade_text) 0 =
     (Inr (regrade_response\<lparr>p_strictness := Some Standard, p_groundingSources := Some []\<rparr>), 1)"
  using regrade_text_differs
  by (simp add: analyzeCard_def tryWithFallback_def candidate_models_def ANALYSIS_MODELS_def
      first_answers_def parse_grading_example_def)

theorem regrade_partial_merge_witness:
  "images listed_card \<noteq> [] \<and>
   keep_images (images listed_card) 0 = ([''url1'', ''url2''], 0) \<and>
   filter (\<lambda>img. length img > 0) [''url1'', ''url2''] \<noteq> [] \<and>
   analyzeCard parse_grading_example (strictness listed_card) None
       (first_answers regrade_text) 0 =
     (Inr (regrade_response\<lparr>p_strictness := Some Standard, p_groundingSources := Some []\<rparr>), 1) \<and>
   p_grading regrade_response = Some lp_grading \<and>
   p_suggestedPrice regrade_response = Some \<lparr>low = 10, mid = 12, high = 15\<rparr> \<and>
   p_agents regrade_response = None \<and>
   grading listed_card \<noteq> lp_grading \<and>
   suggestedPrice listed_card \<noteq> \<lparr>low = 10, mid = 12, high = 15\<rparr> \<and>
   (\<exists>crd. handleRegrade parse_grading_example None keep_images (first_answers regrade_text)
            listed_card 0 = (Regraded crd, 1) \<and>
          grading crd = lp_grading \<and>
          suggestedPrice crd = \<lparr>low = 10, mid = 12, high = 15\<rparr> \<and>
          agents crd = agents listed_card \<and>
          images crd = [''url1'', ''url2''] \<and> status crd = Listing \<and>
          cardIdentifier crd = Some ''OLD-1'')"
proof -
  define res where
    "res = regrade_response\<lparr>p_strictness := Some Standard, p_groundingSources := Some []\<rparr>"
  define crd where "crd = updatedCard listed_card res"
  have h1: "images listed_card \<noteq> []"
    using listed_card_fields by simp
  have h2: "keep_images (images listed_card) 0 = ([''url1'', ''url2''], 0)"
    using listed_card_fields by (simp add: keep_images_def)
  have h3: "filter (\<lambda>img. length img > 0) [''url1'', ''url2''] \<noteq> []"
    by simp
  have h4: "analyzeCard parse_grading_example (strictness listed_card) None
       (first_answers regrade_text) 0 = (Inr res, 1)"
    using listed_card_fields regrade_response_analysis by (simp add: res_def)
  have h4': "analyzeCard parse_grading_example (strictness listed_card) None
       (first_answers regrade_text) 0 =
     (Inr (regrade_response\<lparr>p_strictness := Some Standard, p_groundingSources := Some []\<rparr>), 1)"
    using h4 by (simp add: res_def)
  have g0: "p_grading regrade_response = Some lp_grading"
    by (simp add: regrade_response_def empty_partial_def)
  have p0: "p_suggestedPrice regrade_response = Some \<lparr>low = 10, mid = 12, high = 15\<rparr>"
    by (simp add: regrade_response_def empty_partial_def)
  have a0: "p_agents regrade_response = None"
    by (simp add: regrade_response_def empty_partial_def)
  have pg: "p_grading res = Some lp_grading" using g0 by (simp add: res_def)
  have pp: "p_suggestedPrice res = Some \<lparr>low = 10, mid = 12, high = 15\<rparr>"
    using p0 by (simp add: res_def)
  have pa: "p_agents res = None" using a0 by (simp add: res_def)
  have d1: "grading listed_card \<noteq> lp_grading"
    by (simp add: listed_card_def blank_card_def blank_grading_def lp_grading_def)
  have d2: "suggestedPrice listed_card \<noteq> \<lparr>low = 10, mid = 12, high = 15\<rparr>"
    by (simp add: listed_card_def blank_card_def)
  note t = regrade_partial_merge [where editedCard = listed_card and convertImages = keep_images
      and w = 0 and ?base64Images = "[''url1'', ''url2'']" and ?w1.0 = 0
      and JSON_parse = parse_grading_example and analysisModel = None
      and generateContent = "first_answers regrade_text" and res = res and ?w2.0 = 1
      and crd = crd, OF h1 h2 h3 h4 crd_def]
  have run: "handleRegrade parse_grading_example None keep_images (first_answers regrade_text)
            listed_card 0 = (Regraded crd, 1)"
    by (rule t [THEN conjunct1])
  have gr: "grading crd = lp_grading"
    by (rule t [THEN conjunct2, THEN conjunct1, THEN spec, THEN mp, OF pg])
  have pr: "suggestedPrice crd = \<lparr>low = 10, mid = 12, high = 15\<rparr>"
    by (rule t [THEN conjunct2, THEN conjunct2, THEN conjunct1, THEN spec, THEN mp, OF pp])
  have ag: "agents crd = agents listed_card"
    by (rule t [THEN conjunct2, THEN conjunct2, THEN conjunct2, THEN conjunct2, THEN conjunct2,
          THEN conjunct2, THEN conjunct1, THEN mp, OF pa])
  note frame = t [THEN conjunct2, THEN conjunct2, THEN conjunct2, THEN conjunct2, THEN conjunct2,
          THEN conjunct2, THEN conjunct2]
  have im: "images crd = [''url1'', ''url2'']"
    using frame [THEN conjunct2, THEN conjunct1] listed_card_fields by simp
  have st: "status crd = Listing"
    using frame [THEN conjunct2, THEN conjunct2, THEN conjunct1] listed_card_fields by simp
  have ci: "cardIdentifier crd = Some ''OLD-1''"
    using frame [THEN conjunct2, THEN conjunct2, THEN conjunct2, THEN conjunct2, THEN conjunct2,
        THEN conjunct1] listed_card_fields by simp
  show ?thesis
    by (intro conjI exI [where x = crd]) (rule h1 h2 h3 h4' g0 p0 a0 d1 d2 run gr pr ag im st ci)+
qed

text \<open>
  C5 as stated fails: the result carries an identifier, and the regraded card keeps the
  old one.
\<close>

theorem regrade_partial_merge_counterexample:
  "fst (handleRegrade parse_grading_example None keep_images (first_answers name_only_text)
          listed_card 0) \<noteq>
   Regraded (spec_merge listed_card
     (name_only\<lparr>p_strictness := Some Standard, p_groundingSources := Some []\<rparr>))"
proof -
  have "handleRegrade parse_grading_example None keep_images (first_answers name_only_text)
          listed_card 0 =
     (Regraded (updatedCard listed_card
        (name_only\<lparr>p_strictness := Some Standard, p_groundingSources := Some []\<rparr>)), 1)"
    using listed_card_fields regrade_example_analysis
    by (simp add: handleRegrade_def keep_images_def)
  moreover have "cardIdentifier (updatedCard listed_card
        (name_only\<lparr>p_strictness := Some Standard, p_groundingSources := Some []\<rparr>)) =
      Some ''OLD-1''"
    using listed_card_fields by (simp add: updatedCard_def)
  moreover have "cardIdentifier (spec_merge listed_card
        (name_only\<lparr>p_strictness := Some Standard, p_groundingSources := Some []\<rparr>)) =
      Some ''BS-58''"
    by (simp add: spec_merge_def name_only_def empty_partial_def str_or_lit_def)
  ultimately show ?thesis by auto
qed

text \<open>
  C8, as the code has it. When a candidate answers, \<^verbatim>\<open>generateListingCopy\<close> throws
  exactly when \<^verbatim>\<open>JSON.parse\<close> throws, and otherwise returns the parsed object as it is,
  whichever of the three properties it has.
\<close>

theorem listing_copy_unchecked:
  assumes "tryWithFallback (candidate_models LISTING_MODELS preferredModel) generateContent w =
             (Inr response, w')"
  shows "generateListingCopy JSON_parse preferredModel generateContent w =
           (case JSON_parse (result response) of
              None \<Rightarrow> (Inl SyntaxError, w')
            | Some copy \<Rightarrow> (Inr copy, w')) \<and>
         (\<forall>copy. JSON_parse (result response) = Some copy \<longrightarrow>
            generateListingCopy JSON_parse preferredModel generateContent w = (Inr copy, w'))"
  using assms by (simp add: generateListingCopy_def)

lemma title_only_run:
  "tryWithFallback (candidate_models LISTING_MODELS None) (first_answers title_only_text) 0 =
     (Inr \<lparr>result = title_only_text, model = ''gemini-2.5-flash''\<rparr>, 1)"
  by (simp add: reconcile_eval)

theorem listing_copy_unchecked_witness:
  "tryWithFallback (candidate_models LISTING_MODELS None) (first_answers title_only_text) 0 =
     (Inr \<lparr>result = title_only_text, model = ''gemini-2.5-flash''\<rparr>, 1) \<and>
   parse_listing_example title_only_text = Some title_only \<and>
   generateListingCopy parse_listing_example None (first_answers title_only_text) 0 =
     (Inr title_only, 1)"
proof -
  have p: "parse_listing_example title_only_text = Some title_only"
    by (simp add: parse_listing_example_def)
  have p': "parse_listing_example
      (result \<lparr>result = title_only_text, model = ''gemini-2.5-flash''\<rparr>) = Some title_only"
    by (simp add: parse_listing_example_def)
  have "generateListingCopy parse_listing_example None (first_answers title_only_text) 0 =
     (Inr title_only, 1)"
    by (rule listing_copy_unchecked [where JSON_parse = parse_listing_example,
          OF title_only_run, THEN conjunct2, THEN spec, THEN mp, OF p'])
  with title_only_run p show ?thesis by (intro conjI)
qed

text \<open>
  C8 as stated fails: a response with the title alone is returned, with the other two
  properties missing.
\<close>

theorem listing_copy_counterexample:
  "generateListingCopy parse_listing_example None (first_answers title_only_text) 0 =
     (Inr title_only, 1) \<and>
   \<not> complete_copy title_only"
  by (simp add: generateListingCopy_def reconcile_eval complete_copy_def title_only_def)
section \<open>Properties of the market data cache\<close>

lemma cachedMarketData_hit:
  assumes "marketData c = Some md" "cacheExpiry md = Some s" "s \<noteq> []"
    "Date_getTime rt s = Some expiry" "now < expiry"
  shows "cachedMarketData rt now c False = Some md"
  using assms by (simp add: cachedMarketData_def)

lemma cachedMarketData_forced: "cachedMarketData rt now c True = None"
  by (simp add: cachedMarketData_def)

lemma cachedMarketData_uncached:
  "cachedMarketData rt now (c\<lparr>marketData := None\<rparr>) forceRefresh = None"
  by (simp add: cachedMarketData_def)

text \<open>Without credentials no token is asked for and the state stays as it is.\<close>

lemma getTCGPlayerToken_not_configured:
  assumes "\<not> configured (getConfig (fst st))"
  shows "getTCGPlayerToken Date_now getConfig fetch st = (Inl TypeError, st) \<or>
         getTCGPlayerToken Date_now getConfig fetch st = (Inr None, st)"
  using assms
  by (cases st; cases "getConfig (fst st)") (auto simp add: getTCGPlayerToken_def configured_def)

lemma str_truthy_None [simp]: "\<not> str_truthy None"
  by (simp add: str_truthy_def)

lemma provider_outcome_not_configured:
  assumes "\<not> configured (getConfig (fst st))"
  shows "provider_outcome rt Date_now getConfig fetch c st = (None, st)"
  using getTCGPlayerToken_not_configured [where getConfig = getConfig and st = st
      and Date_now = Date_now and fetch = fetch, OF assms]
  by (cases st) (auto simp add: provider_outcome_def searchTCGPlayerProduct_def)

text \<open>The provider block stores what the provider answers and changes nothing else.\<close>

lemma fetchTCGPlayer_outcome:
  "fetchTCGPlayer rt Date_now getConfig fetch c md st =
     (case provider_outcome rt Date_now getConfig fetch c st of
        (None, st') \<Rightarrow> (md, st')
      | (Some tcgData, st') \<Rightarrow> (md\<lparr>tcgplayer := Some tcgData\<rparr>, st'))"
  by (simp add: fetchTCGPlayer_def provider_outcome_def
      split: prod.splits sum.splits option.splits)

lemma fetchMarketData_refresh:
  assumes "cachedMarketData rt (Date_now (fst st)) c forceRefresh = None"
    and "provider_outcome rt Date_now getConfig fetch c st = (found, st1)"
  shows "fetchMarketData rt Date_now getConfig fetch c forceRefresh st =
     (\<lparr>tcgplayer = found,
       ebay_data = Some \<lparr>link_url = getEbaySearchUrl rt c,
                         link_lastUpdated = toISOString rt (Date_now (fst st1))\<rparr>,
       cardmarket = Some \<lparr>link_url = getCardmarketSearchUrl rt c,
                          link_lastUpdated = toISOString rt (Date_now (fst st1))\<rparr>,
       cacheExpiry = Some (toISOString rt (Date_now (fst st) + CACHE_DURATION_MS))\<rparr>, st1)"
  using assms by (cases found) (simp_all add: fetchMarketData_def fetchTCGPlayer_outcome)

lemma provider_outcome_card:
  "provider_outcome rt Date_now getConfig fetch (c\<lparr>marketData := m\<rparr>) st =
   provider_outcome rt Date_now getConfig fetch c st"
  by (simp add: provider_outcome_def)

subsection \<open>The requests made\<close>

lemma logged_fetch_apply:
  "logged_fetch fetch req (w, calls) = (case fetch req w of (r, w') \<Rightarrow> (r, (w', calls @ [req])))"
  by (simp add: logged_fetch_def)

lemma requestToken_log:
  "\<exists>r w' tc'. requestToken (Date_now \<circ> fst) config (logged_fetch fetch) ((w, calls), tc) =
     (r, ((w', calls @ [token_request config]), tc'))"
  by (simp add: requestToken_def logged_fetch_apply Let_def
      split: prod.splits sum.splits option.splits)

lemma getTCGPlayerToken_log:
  "\<exists>r w' tc' rest. getTCGPlayerToken (Date_now \<circ> fst) (getConfig \<circ> fst) (logged_fetch fetch)
       ((w, calls), tc) = (r, ((w', calls @ rest), tc'))"
proof -
  show ?thesis
  proof (cases "getConfig w")
    case None
    then have "getTCGPlayerToken (Date_now \<circ> fst) (getConfig \<circ> fst) (logged_fetch fetch)
       ((w, calls), tc) = (Inl TypeError, ((w, calls @ []), tc))"
      by (simp add: getTCGPlayerToken_def)
    then show ?thesis by blast
  next
    case (Some config)
    obtain r w' tc' where
      q: "requestToken (Date_now \<circ> fst) config (logged_fetch fetch) ((w, calls), tc) =
         (r, ((w', calls @ [token_request config]), tc'))"
      using requestToken_log [of Date_now config fetch w calls tc] by blast
    consider (a) "\<not> str_truthy (publicKey config) \<or> \<not> str_truthy (privateKey config)"
      | (b) entry where "str_truthy (publicKey config)" "str_truthy (privateKey config)"
          "cachedToken (Date_now w) tc = Some entry"
      | (c) "str_truthy (publicKey config)" "str_truthy (privateKey config)"
          "cachedToken (Date_now w) tc = None"
      by (cases "cachedToken (Date_now w) tc") auto
    then show ?thesis
    proof cases
      case a
      with Some have "getTCGPlayerToken (Date_now \<circ> fst) (getConfig \<circ> fst) (logged_fetch fetch)
         ((w, calls), tc) = (Inr None, ((w, calls @ []), tc))"
        by (auto simp add: getTCGPlayerToken_def)
      then show ?thesis by blast
    next
      case b
      with Some have "getTCGPlayerToken (Date_now \<circ> fst) (getConfig \<circ> fst) (logged_fetch fetch)
         ((w, calls), tc) = (Inr (tc_token entry), ((w, calls @ []), tc))"
        by (simp add: getTCGPlayerToken_def)
      then show ?thesis by blast
    next
      case c
      with Some q have "getTCGPlayerToken (Date_now \<circ> fst) (getConfig \<circ> fst) (logged_fetch fetch)
         ((w, calls), tc) = (Inr r, ((w', calls @ [token_request config]), tc'))"
        by (simp add: getTCGPlayerToken_def)
      then show ?thesis by blast
    qed
  qed
qed

lemma getTCGPlayerToken_first:
  assumes "getConfig w = Some config" and "configured (getConfig w)"
    and "cachedToken (Date_now w) tc = None"
  shows "\<exists>r w' tc'. getTCGPlayerToken (Date_now \<circ> fst) (getConfig \<circ> fst) (logged_fetch fetch)
       ((w, calls), tc) = (Inr r, ((w', calls @ [token_request config]), tc'))"
proof -
  obtain r w' tc' where
    q: "requestToken (Date_now \<circ> fst) config (logged_fetch fetch) ((w, calls), tc) =
       (r, ((w', calls @ [token_request config]), tc'))"
    using requestToken_log [of Date_now config fetch w calls tc] by blast
  with assms have "getTCGPlayerToken (Date_now \<circ> fst) (getConfig \<circ> fst) (logged_fetch fetch)
       ((w, calls), tc) = (Inr r, ((w', calls @ [token_request config]), tc'))"
    by (simp add: getTCGPlayerToken_def configured_def)
  then show ?thesis by blast
qed

text \<open>After the token, the search and the pricing only add requests.\<close>

lemma after_token_search_log:
  "\<exists>r w' rest.
     (case (tok, ((w1, calls), tc1)) of
        (Inl e, st1) \<Rightarrow> (Inl e, st1)
      | (Inr token, (w1, tc1)) \<Rightarrow>
          if \<not> str_truthy token then (Inr None, (w1, tc1))
          else (case logged_fetch fetch (search_request rt (str_or_lit token []) n s g) w1 of
                  (Inl e, w2) \<Rightarrow> (Inr None, (w2, tc1))
                | (Inr response, w2) \<Rightarrow>
                    if \<not> resp_ok response then (Inr None, (w2, tc1))
                    else (case resp_json response of
                            Inl e \<Rightarrow> (Inr None, (w2, tc1))
                          | Inr None \<Rightarrow> (Inr None, (w2, tc1))
                          | Inr (Some data) \<Rightarrow>
                              (case results data of
                                 Some (r # rs) \<Rightarrow> (Inr (row_productId r), (w2, tc1))
                               | _ \<Rightarrow> (Inr None, (w2, tc1)))))) =
     ((r :: exn + int option), ((w', calls @ rest), tc1))"
  by (simp add: logged_fetch_apply split: prod.splits sum.splits option.splits list.splits)

lemma searchTCGPlayerProduct_log:
  "\<exists>r w' tc' rest. searchTCGPlayerProduct rt (Date_now \<circ> fst) (getConfig \<circ> fst) (logged_fetch fetch)
       n s g ((w, calls), tc) = (r, ((w', calls @ rest), tc'))"
proof -
  obtain tok w1 tc1 rest1 where
    t: "getTCGPlayerToken (Date_now \<circ> fst) (getConfig \<circ> fst) (logged_fetch fetch)
       ((w, calls), tc) = (tok, ((w1, calls @ rest1), tc1))"
    using getTCGPlayerToken_log [of Date_now getConfig fetch w calls tc] by blast
  obtain r w' rest where
    "searchTCGPlayerProduct rt (Date_now \<circ> fst) (getConfig \<circ> fst) (logged_fetch fetch)
       n s g ((w, calls), tc) = (r, ((w', (calls @ rest1) @ rest), tc1))"
    using after_token_search_log [where tok = tok and ?w1.0 = w1 and calls = "calls @ rest1"
        and ?tc1.0 = tc1 and fetch = fetch and rt = rt and n = n and s = s and g = g]
    unfolding searchTCGPlayerProduct_def t by blast
  then have "searchTCGPlayerProduct rt (Date_now \<circ> fst) (getConfig \<circ> fst) (logged_fetch fetch)
       n s g ((w, calls), tc) = (r, ((w', calls @ (rest1 @ rest)), tc1))"
    by simp
  then show ?thesis by blast
qed

lemma searchTCGPlayerProduct_first:
  assumes "getConfig w = Some config" and "configured (getConfig w)"
    and "cachedToken (Date_now w) tc = None"
  shows "\<exists>r w' tc' rest. searchTCGPlayerProduct rt (Date_now \<circ> fst) (getConfig \<circ> fst)
       (logged_fetch fetch) n s g ((w, calls), tc) =
         (r, ((w', calls @ token_request config # rest), tc'))"
proof -
  obtain tok w1 tc1 where
    t: "getTCGPlayerToken (Date_now \<circ> fst) (getConfig \<circ> fst) (logged_fetch fetch)
       ((w, calls), tc) = (Inr tok, ((w1, calls @ [token_request config]), tc1))"
    using getTCGPlayerToken_first [where fetch = fetch and calls = calls and getConfig = getConfig
        and Date_now = Date_now and w = w and tc = tc and config = config, OF assms] by blast
  obtain r w' rest where
    "searchTCGPlayerProduct rt (Date_now \<circ> fst) (getConfig \<circ> fst) (logged_fetch fetch)
       n s g ((w, calls), tc) = (r, ((w', (calls @ [token_request config]) @ rest), tc1))"
    using after_token_search_log [where tok = "Inr tok" and ?w1.0 = w1
        and calls = "calls @ [token_request config]"
        and ?tc1.0 = tc1 and fetch = fetch and rt = rt and n = n and s = s and g = g]
    unfolding searchTCGPlayerProduct_def t by blast
  then have "searchTCGPlayerProduct rt (Date_now \<circ> fst) (getConfig \<circ> fst) (logged_fetch fetch)
       n s g ((w, calls), tc) = (r, ((w', calls @ token_request config # rest), tc1))"
    by simp
  then show ?thesis by blast
qed

lemma after_token_pricing_log:
  "\<exists>r w' rest.
     (case (tok, ((w1, calls), tc1)) of
        (Inl e, st1) \<Rightarrow> (Inl e, st1)
      | (Inr token, (w1, tc1)) \<Rightarrow>
          if \<not> str_truthy token then (Inr None, (w1, tc1))
          else (case logged_fetch fetch (pricing_request (str_or_lit token []) pid) w1 of
                  (Inl e, w2) \<Rightarrow> (Inr None, (w2, tc1))
                | (Inr response, w2) \<Rightarrow>
                    if \<not> resp_ok response then (Inr None, (w2, tc1))
                    else (case resp_json response of
                            Inl e \<Rightarrow> (Inr None, (w2, tc1))
                          | Inr None \<Rightarrow> (Inr None, (w2, tc1))
                          | Inr (Some data) \<Rightarrow>
                              (case results data of
                                 Some (r # rs) \<Rightarrow> (Inr (Some (priced r rs w2)), (w2, tc1))
                               | _ \<Rightarrow> (Inr None, (w2, tc1)))))) =
     ((r :: exn + TCGPlayerData option), ((w', calls @ rest), tc1))"
  by (simp add: logged_fetch_apply split: prod.splits sum.splits option.splits list.splits)

lemma getTCGPlayerPricing_log:
  "\<exists>r w' tc' rest. getTCGPlayerPricing rt (Date_now \<circ> fst) (getConfig \<circ> fst) (logged_fetch fetch)
       pid ((w, calls), tc) = (r, ((w', calls @ rest), tc'))"
proof -
  obtain tok w1 tc1 rest1 where
    t: "getTCGPlayerToken (Date_now \<circ> fst) (getConfig \<circ> fst) (logged_fetch fetch)
       ((w, calls), tc) = (tok, ((w1, calls @ rest1), tc1))"
    using getTCGPlayerToken_log [of Date_now getConfig fetch w calls tc] by blast
  obtain r w' rest where
    "getTCGPlayerPricing rt (Date_now \<circ> fst) (getConfig \<circ> fst) (logged_fetch fetch)
       pid ((w, calls), tc) = (r, ((w', (calls @ rest1) @ rest), tc1))"
    using after_token_pricing_log [where tok = tok and ?w1.0 = w1 and calls = "calls @ rest1"
        and ?tc1.0 = tc1 and fetch = fetch and pid = pid
        and priced = "\<lambda>r rs w2.
          \<lparr>productId = pid,
           tp_url = ''https://www.tcgplayer.com/product/'' @ String_of_int pid,
           prices = Some \<lparr>tp_low = nm_price (foldl add_row Map.empty (r # rs)) ''_low'',
                          tp_mid = nm_price (foldl add_row Map.empty (r # rs)) ''_mid'',
                          tp_high = nm_price (foldl add_row Map.empty (r # rs)) ''_high'',
                          tp_market = nm_price (foldl add_row Map.empty (r # rs)) ''_market''\<rparr>,
           tp_lastUpdated = toISOString rt ((Date_now \<circ> fst) w2)\<rparr>"]
    unfolding getTCGPlayerPricing_def t Let_def by blast
  then have "getTCGPlayerPricing rt (Date_now \<circ> fst) (getConfig \<circ> fst) (logged_fetch fetch)
       pid ((w, calls), tc) = (r, ((w', calls @ (rest1 @ rest)), tc1))"
    by simp
  then show ?thesis by blast
qed

lemma provider_outcome_first:
  assumes "getConfig w = Some config" and "configured (getConfig w)"
    and "cachedToken (Date_now w) tc = None"
  shows "\<exists>found w' tc' rest. provider_outcome rt (Date_now \<circ> fst) (getConfig \<circ> fst)
       (logged_fetch fetch) c ((w, []), tc) = (found, ((w', token_request config # rest), tc'))"
proof -
  obtain r w1 tc1 rest1 where
    s: "searchTCGPlayerProduct rt (Date_now \<circ> fst) (getConfig \<circ> fst) (logged_fetch fetch)
         (card_name c) (card_set c) (game c) ((w, []), tc) =
          (r, ((w1, [] @ token_request config # rest1), tc1))"
    using searchTCGPlayerProduct_first [where rt = rt and fetch = fetch and n = "card_name c"
        and s = "card_set c" and g = "game c" and calls = "[]" and getConfig = getConfig
        and Date_now = Date_now and w = w and tc = tc and config = config, OF assms]
    by blast
  show ?thesis
  proof (cases "\<exists>pid. r = Inr (Some pid) \<and> pid \<noteq> 0")
    case False
    then have "provider_outcome rt (Date_now \<circ> fst) (getConfig \<circ> fst) (logged_fetch fetch) c
        ((w, []), tc) = (None, ((w1, token_request config # rest1), tc1))"
      using s by (auto simp add: provider_outcome_def split: sum.splits option.splits)
    then show ?thesis by blast
  next
    case True
    then obtain pid where r: "r = Inr (Some pid)" and pid: "pid \<noteq> 0" by blast
    obtain r2 w2 tc2 rest2 where
      p: "getTCGPlayerPricing rt (Date_now \<circ> fst) (getConfig \<circ> fst) (logged_fetch fetch)
         pid ((w1, token_request config # rest1), tc1) =
           (r2, ((w2, (token_request config # rest1) @ rest2), tc2))"
      using getTCGPlayerPricing_log [of rt Date_now getConfig fetch pid w1
          "token_request config # rest1" tc1] by blast
    have "provider_outcome rt (Date_now \<circ> fst) (getConfig \<circ> fst) (logged_fetch fetch) c
        ((w, []), tc) =
          ((case r2 of Inl e \<Rightarrow> None | Inr t \<Rightarrow> t),
           ((w2, token_request config # (rest1 @ rest2)), tc2))"
      using s r pid p by (simp add: provider_outcome_def split: sum.splits)
    then show ?thesis by blast
  qed
qed

text \<open>
  C9. When the card has market data whose \<^verbatim>\<open>cacheExpiry\<close> is a date later than the
  clock, \<^verbatim>\<open>fetchMarketData\<close> without \<^verbatim>\<open>forceRefresh\<close> returns the cached market data and
  makes no request: the state and the list of requests are unchanged. With
  \<^verbatim>\<open>forceRefresh\<close> it does not look at the cache and returns what it returns for the card
  without market data: data that expire 24 hours after the clock, with new eBay and
  Cardmarket links and with the TCGPlayer data that the provider answers (the pricing of
  the product found by the search, none if there is none). Whether it makes a request
  depends on the credentials: when they are not configured, it makes no request at all;
  when they are configured and no valid token is cached, its first request is the token
  request.
\<close>

theorem market_data_cache:
  assumes "marketData c = Some md" and "cacheExpiry md = Some s" and "s \<noteq> []"
    and "Date_getTime rt s = Some expiry" and "Date_now w < expiry"
  shows "fetchMarketData rt Date_now getConfig fetch c False (w, tc) = (md, (w, tc)) \<and>
         fetchMarketData rt (Date_now \<circ> fst) (getConfig \<circ> fst) (logged_fetch fetch) c False
             ((w, []), tc) = (md, ((w, []), tc)) \<and>
         fetchMarketData rt Date_now getConfig fetch c True (w, tc) =
           (case provider_outcome rt Date_now getConfig fetch c (w, tc) of
              (found, st1) \<Rightarrow>
                (\<lparr>tcgplayer = found,
                  ebay_data = Some \<lparr>link_url = getEbaySearchUrl rt c,
                                    link_lastUpdated = toISOString rt (Date_now (fst st1))\<rparr>,
                  cardmarket = Some \<lparr>link_url = getCardmarketSearchUrl rt c,
                                     link_lastUpdated = toISOString rt (Date_now (fst st1))\<rparr>,
                  cacheExpiry = Some (toISOString rt (Date_now w + CACHE_DURATION_MS))\<rparr>,
                 st1)) \<and>
         fetchMarketData rt Date_now getConfig fetch c True (w, tc) =
           fetchMarketData rt Date_now getConfig fetch (c\<lparr>marketData := None\<rparr>) False (w, tc) \<and>
         (\<not> configured (getConfig w) \<longrightarrow>
            fetchMarketData rt (Date_now \<circ> fst) (getConfig \<circ> fst) (logged_fetch fetch) c True
                ((w, []), tc) =
              (\<lparr>tcgplayer = None,
                ebay_data = Some \<lparr>link_url = getEbaySearchUrl rt c,
                                  link_lastUpdated = toISOString rt (Date_now w)\<rparr>,
                cardmarket = Some \<lparr>link_url = getCardmarketSearchUrl rt c,
                                   link_lastUpdated = toISOString rt (Date_now w)\<rparr>,
                cacheExpiry = Some (toISOString rt (Date_now w + CACHE_DURATION_MS))\<rparr>,
               ((w, []), tc))) \<and>
         (\<forall>config. getConfig w = Some config \<and> configured (getConfig w) \<and>
              cachedToken (Date_now w) tc = None \<longrightarrow>
            (\<exists>rest. requests_made
               (fetchMarketData rt (Date_now \<circ> fst) (getConfig \<circ> fst) (logged_fetch fetch) c True
                  ((w, []), tc)) = token_request config # rest))"
proof (intro conjI allI impI)
  show "fetchMarketData rt Date_now getConfig fetch c False (w, tc) = (md, (w, tc))"
    using assms by (simp add: fetchMarketData_def cachedMarketData_hit)
  show "fetchMarketData rt (Date_now \<circ> fst) (getConfig \<circ> fst) (logged_fetch fetch) c False
      ((w, []), tc) = (md, ((w, []), tc))"
    using assms by (simp add: fetchMarketData_def cachedMarketData_hit)
  obtain found st1 where
    po: "provider_outcome rt Date_now getConfig fetch c (w, tc) = (found, st1)"
    by (cases "provider_outcome rt Date_now getConfig fetch c (w, tc)")
  have forced: "fetchMarketData rt Date_now getConfig fetch c True (w, tc) =
      (\<lparr>tcgplayer = found,
        ebay_data = Some \<lparr>link_url = getEbaySearchUrl rt c,
                          link_lastUpdated = toISOString rt (Date_now (fst st1))\<rparr>,
        cardmarket = Some \<lparr>link_url = getCardmarketSearchUrl rt c,
                           link_lastUpdated = toISOString rt (Date_now (fst st1))\<rparr>,
        cacheExpiry = Some (toISOString rt (Date_now w + CACHE_DURATION_MS))\<rparr>, st1)"
    using fetchMarketData_refresh [where st = "(w, tc)" and forceRefresh = True,
        OF cachedMarketData_forced po] by simp
  show "fetchMarketData rt Date_now getConfig fetch c True (w, tc) =
           (case provider_outcome rt Date_now getConfig fetch c (w, tc) of
              (found, st1) \<Rightarrow>
                (\<lparr>tcgplayer = found,
                  ebay_data = Some \<lparr>link_url = getEbaySearchUrl rt c,
                                    link_lastUpdated = toISOString rt (Date_now (fst st1))\<rparr>,
                  cardmarket = Some \<lparr>link_url = getCardmarketSearchUrl rt c,
                                     link_lastUpdated = toISOString rt (Date_now (fst st1))\<rparr>,
                  cacheExpiry = Some (toISOString rt (Date_now w + CACHE_DURATION_MS))\<rparr>,
                 st1))"
    by (simp add: forced po)
  have po': "provider_outcome rt Date_now getConfig fetch (c\<lparr>marketData := None\<rparr>) (w, tc) =
      (found, st1)"
    by (simp add: provider_outcome_card po)
  have "fetchMarketData rt Date_now getConfig fetch (c\<lparr>marketData := None\<rparr>) False (w, tc) =
      (\<lparr>tcgplayer = found,
        ebay_data = Some \<lparr>link_url = getEbaySearchUrl rt (c\<lparr>marketData := None\<rparr>),
                          link_lastUpdated = toISOString rt (Date_now (fst st1))\<rparr>,
        cardmarket = Some \<lparr>link_url = getCardmarketSearchUrl rt (c\<lparr>marketData := None\<rparr>),
                           link_lastUpdated = toISOString rt (Date_now (fst st1))\<rparr>,
        cacheExpiry = Some (toISOString rt (Date_now w + CACHE_DURATION_MS))\<rparr>, st1)"
    using fetchMarketData_refresh [where st = "(w, tc)" and forceRefresh = False,
        OF cachedMarketData_uncached po'] by simp
  then show "fetchMarketData rt Date_now getConfig fetch c True (w, tc) =
      fetchMarketData rt Date_now getConfig fetch (c\<lparr>marketData := None\<rparr>) False (w, tc)"
    by (simp add: forced getEbaySearchUrl_def getCardmarketSearchUrl_def)
next
  assume nc: "\<not> configured (getConfig w)"
  have "provider_outcome rt (Date_now \<circ> fst) (getConfig \<circ> fst) (logged_fetch fetch) c
      ((w, []), tc) = (None, ((w, []), tc))"
    by (rule provider_outcome_not_configured) (simp add: nc)
  from fetchMarketData_refresh [where forceRefresh = True, OF cachedMarketData_forced this]
  show "fetchMarketData rt (Date_now \<circ> fst) (getConfig \<circ> fst) (logged_fetch fetch) c True
      ((w, []), tc) =
        (\<lparr>tcgplayer = None,
          ebay_data = Some \<lparr>link_url = getEbaySearchUrl rt c,
                            link_lastUpdated = toISOString rt (Date_now w)\<rparr>,
          cardmarket = Some \<lparr>link_url = getCardmarketSearchUrl rt c,
                             link_lastUpdated = toISOString rt (Date_now w)\<rparr>,
          cacheExpiry = Some (toISOString rt (Date_now w + CACHE_DURATION_MS))\<rparr>,
         ((w, []), tc))"
    by simp
next
  fix config
  assume a: "getConfig w = Some config \<and> configured (getConfig w) \<and>
    cachedToken (Date_now w) tc = None"
  obtain found w' tc' rest where
    po: "provider_outcome rt (Date_now \<circ> fst) (getConfig \<circ> fst) (logged_fetch fetch) c
       ((w, []), tc) = (found, ((w', token_request config # rest), tc'))"
    using provider_outcome_first [where getConfig = getConfig and w = w and config = config
        and Date_now = Date_now and tc = tc and rt = rt and fetch = fetch and c = c,
        OF a [THEN conjunct1] a [THEN conjunct2, THEN conjunct1]
          a [THEN conjunct2, THEN conjunct2]]
    by blast
  from fetchMarketData_refresh [where forceRefresh = True, OF cachedMarketData_forced po]
  have "requests_made
      (fetchMarketData rt (Date_now \<circ> fst) (getConfig \<circ> fst) (logged_fetch fetch) c True
         ((w, []), tc)) = token_request config # rest"
    by (simp add: requests_made_def)
  then show "\<exists>rest. requests_made
      (fetchMarketData rt (Date_now \<circ> fst) (getConfig \<circ> fst) (logged_fetch fetch) c True
         ((w, []), tc)) = token_request config # rest"
    by blast
qed

subsection \<open>The example\<close>

lemma cached_card_data: "marketData cached_card = Some cached_data"
  by (simp add: cached_card_def)

lemma cached_data_expiry: "cacheExpiry cached_data = Some ''2026-01-01T01:00:00.000Z''"
  by (simp add: cached_data_def)

lemma example_expiry:
  "Date_getTime example_runtime ''2026-01-01T01:00:00.000Z'' = Some 1767229200000"
  by (simp add: example_runtime_def)

lemma example_clock_now [simp]: "example_clock n = 1767225600000"
  by (simp add: example_clock_def)

lemma example_ebay_url:
  "getEbaySearchUrl example_runtime cached_card =
     ''https://www.ebay.com/sch/i.html?_nkw=Pikachu%20Base%20Set%2058''"
  by (simp add: getEbaySearchUrl_def example_runtime_def example_encode_def cached_card_def
      blank_card_def)

lemma example_cardmarket_url:
  "getCardmarketSearchUrl example_runtime cached_card =
     ''https://www.cardmarket.com/en/Pokemon/Products/Search?searchString=Pikachu%20Base%20Set''"
  by (simp add: getCardmarketSearchUrl_def example_runtime_def example_encode_def cached_card_def
      blank_card_def)

lemma example_now_text:
  "toISOString example_runtime 1767225600000 = ''2026-01-01T00:00:00.000Z''"
  by (simp add: example_runtime_def)

lemma example_expiry_text:
  "toISOString example_runtime (1767225600000 + CACHE_DURATION_MS) = ''2026-01-02T00:00:00.000Z''"
  by (simp add: example_runtime_def CACHE_DURATION_MS_def)

lemma example_not_configured: "\<not> configured (no_credentials 0)"
  by (simp add: configured_def no_credentials_def)

lemma example_configured: "configured (with_credentials 0)"
  by (simp add: configured_def with_credentials_def example_keys_def str_truthy_def)

lemma example_no_token: "cachedToken (example_clock 0) None = None"
  by (simp add: cachedToken_def)

text \<open>The three requests of a forced refresh with credentials, one after the other.\<close>

lemma example_token:
  "getTCGPlayerToken (example_clock \<circ> fst) (with_credentials \<circ> fst) (logged_fetch example_server)
       ((0, []), None) =
     (Inr (Some ''tok''), ((1, [token_request example_keys]), Some example_entry))"
  by (simp add: getTCGPlayerToken_def with_credentials_def example_keys_def str_truthy_def
      cachedToken_def requestToken_def logged_fetch_apply token_request_def example_server_def
      empty_body_def num_or_def example_entry_def Let_def)

lemma example_token_cached:
  "getTCGPlayerToken (example_clock \<circ> fst) (with_credentials \<circ> fst) (logged_fetch example_server)
       ((n, calls), Some example_entry) =
     (Inr (Some ''tok''), ((n, calls), Some example_entry))"
  by (simp add: getTCGPlayerToken_def with_credentials_def example_keys_def str_truthy_def
      cachedToken_def example_entry_def)

lemma example_search_request:
  "search_request example_runtime ''tok'' ''Pikachu'' ''Base Set'' ''Pokemon'' =
     \<lparr>req_url =
        ''https://api.tcgplayer.com/catalog/products?categoryId=3&productName=Pikachu%20Base%20Set&limit=10'',
      req_method = ''GET'',
      req_headers = [(''Authorization'', ''bearer tok'')],
      req_form = []\<rparr>"
  by (simp add: search_request_def example_runtime_def example_encode_def categoryId_def
      String_of_int_def digit_char_def)

lemma example_pricing_request:
  "pricing_request ''tok'' 42 =
     \<lparr>req_url = ''https://api.tcgplayer.com/pricing/product/42'',
      req_method = ''GET'',
      req_headers = [(''Authorization'', ''bearer tok'')],
      req_form = []\<rparr>"
  by (simp add: pricing_request_def String_of_int_def digit_char_def)

lemma example_search:
  "searchTCGPlayerProduct example_runtime (example_clock \<circ> fst) (with_credentials \<circ> fst)
       (logged_fetch example_server) ''Pikachu'' ''Base Set'' ''Pokemon'' ((0, []), None) =
     (Inr (Some 42),
      ((2, [token_request example_keys,
            search_request example_runtime ''tok'' ''Pikachu'' ''Base Set'' ''Pokemon'']),
       Some example_entry))"
  unfolding searchTCGPlayerProduct_def example_token
  by (simp add: str_truthy_def str_or_lit_def logged_fetch_apply example_search_request
      example_server_def empty_body_def empty_row_def)

lemma example_pricing:
  "getTCGPlayerPricing example_runtime (example_clock \<circ> fst) (with_credentials \<circ> fst)
       (logged_fetch example_server) 42 ((2, calls), Some example_entry) =
     (Inr (Some example_tcgplayer),
      ((3, calls @ [pricing_request ''tok'' 42]), Some example_entry))"
  unfolding getTCGPlayerPricing_def example_token_cached
  by (simp add: str_truthy_def str_or_lit_def logged_fetch_apply example_pricing_request
      example_server_def empty_body_def empty_row_def add_row_def store_price_def nm_price_def
      example_tcgplayer_def example_runtime_def String_of_int_def digit_char_def Let_def)

lemma cached_card_names:
  "card_name cached_card = ''Pikachu''" "card_set cached_card = ''Base Set''"
  "game cached_card = ''Pokemon''"
  by (simp_all add: cached_card_def blank_card_def)

lemma example_outcome:
  "provider_outcome example_runtime (example_clock \<circ> fst) (with_credentials \<circ> fst)
       (logged_fetch example_server) cached_card ((0, []), None) =
     (Some example_tcgplayer,
      ((3, [token_request example_keys,
            search_request example_runtime ''tok'' ''Pikachu'' ''Base Set'' ''Pokemon'',
            pricing_request ''tok'' 42]),
       Some example_entry))"
  unfolding provider_outcome_def cached_card_names example_search
  by (simp add: example_pricing)

lemma forced_with_credentials:
  "fetchMarketData example_runtime (example_clock \<circ> fst) (with_credentials \<circ> fst)
       (logged_fetch example_server) cached_card True ((0, []), None) =
     (\<lparr>tcgplayer = Some example_tcgplayer,
       ebay_data =
         Some \<lparr>link_url = ''https://www.ebay.com/sch/i.html?_nkw=Pikachu%20Base%20Set%2058'',
               link_lastUpdated = ''2026-01-01T00:00:00.000Z''\<rparr>,
       cardmarket =
         Some \<lparr>link_url =
                 ''https://www.cardmarket.com/en/Pokemon/Products/Search?searchString=Pikachu%20Base%20Set'',
               link_lastUpdated = ''2026-01-01T00:00:00.000Z''\<rparr>,
       cacheExpiry = Some ''2026-01-02T00:00:00.000Z''\<rparr>,
      ((3, [token_request example_keys,
            search_request example_runtime ''tok'' ''Pikachu'' ''Base Set'' ''Pokemon'',
            pricing_request ''tok'' 42]),
       Some example_entry))"
  using fetchMarketData_refresh [where forceRefresh = True,
      OF cachedMarketData_forced example_outcome]
  by (simp add: example_ebay_url example_cardmarket_url example_now_text example_expiry_text)

lemma forced_without_credentials:
  "fetchMarketData example_runtime (example_clock \<circ> fst) (no_credentials \<circ> fst)
       (logged_fetch example_server) cached_card True ((0, []), None) =
     (\<lparr>tcgplayer = None,
       ebay_data =
         Some \<lparr>link_url = ''https://www.ebay.com/sch/i.html?_nkw=Pikachu%20Base%20Set%2058'',
               link_lastUpdated = ''2026-01-01T00:00:00.000Z''\<rparr>,
       cardmarket =
         Some \<lparr>link_url =
                 ''https://www.cardmarket.com/en/Pokemon/Products/Search?searchString=Pikachu%20Base%20Set'',
               link_lastUpdated = ''2026-01-01T00:00:00.000Z''\<rparr>,
       cacheExpiry = Some ''2026-01-02T00:00:00.000Z''\<rparr>,
      ((0, []), None))"
proof -
  have "provider_outcome example_runtime (example_clock \<circ> fst) (no_credentials \<circ> fst)
      (logged_fetch example_server) cached_card ((0, []), None) = (None, ((0, []), None))"
    by (rule provider_outcome_not_configured) (simp add: example_not_configured)
  from fetchMarketData_refresh [where forceRefresh = True, OF cachedMarketData_forced this]
  show ?thesis
    by (simp add: example_ebay_url example_cardmarket_url example_now_text example_expiry_text)
qed

theorem market_data_cache_witness:
  "marketData cached_card = Some cached_data \<and>
   cacheExpiry cached_data = Some ''2026-01-01T01:00:00.000Z'' \<and>
   ''2026-01-01T01:00:00.000Z'' \<noteq> [] \<and>
   Date_getTime example_runtime ''2026-01-01T01:00:00.000Z'' = Some 1767229200000 \<and>
   example_clock 0 < 1767229200000 \<and>
   fetchMarketData example_runtime (example_clock \<circ> fst) (with_credentials \<circ> fst)
       (logged_fetch example_server) cached_card False ((0, []), None) =
     (cached_data, ((0, []), None)) \<and>
   \<not> configured (no_credentials 0) \<and>
   fetchMarketData example_runtime (example_clock \<circ> fst) (no_credentials \<circ> fst)
       (logged_fetch example_server) cached_card True ((0, []), None) =
     (\<lparr>tcgplayer = None,
       ebay_data =
         Some \<lparr>link_url = ''https://www.ebay.com/sch/i.html?_nkw=Pikachu%20Base%20Set%2058'',
               link_lastUpdated = ''2026-01-01T00:00:00.000Z''\<rparr>,
       cardmarket =
         Some \<lparr>link_url =
                 ''https://www.cardmarket.com/en/Pokemon/Products/Search?searchString=Pikachu%20Base%20Set'',
               link_lastUpdated = ''2026-01-01T00:00:00.000Z''\<rparr>,
       cacheExpiry = Some ''2026-01-02T00:00:00.000Z''\<rparr>,
      ((0, []), None)) \<and>
   with_credentials 0 = Some example_keys \<and> configured (with_credentials 0) \<and>
   cachedToken (example_clock 0) None = None \<and>
   (\<exists>rest. requests_made
      (fetchMarketData example_runtime (example_clock \<circ> fst) (with_credentials \<circ> fst)
         (logged_fetch example_server) cached_card True ((0, []), None)) =
      token_request example_keys # rest) \<and>
   fetchMarketData example_runtime (example_clock \<circ> fst) (with_credentials \<circ> fst)
       (logged_fetch example_server) cached_card True ((0, []), None) =
     (\<lparr>tcgplayer = Some example_tcgplayer,
       ebay_data =
         Some \<lparr>link_url = ''https://www.ebay.com/sch/i.html?_nkw=Pikachu%20Base%20Set%2058'',
               link_lastUpdated = ''2026-01-01T00:00:00.000Z''\<rparr>,
       cardmarket =
         Some \<lparr>link_url =
                 ''https://www.cardmarket.com/en/Pokemon/Products/Search?searchString=Pikachu%20Base%20Set'',
               link_lastUpdated = ''2026-01-01T00:00:00.000Z''\<rparr>,
       cacheExpiry = Some ''2026-01-02T00:00:00.000Z''\<rparr>,
      ((3, [token_request example_keys,
            search_request example_runtime ''tok'' ''Pikachu'' ''Base Set'' ''Pokemon'',
            pricing_request ''tok'' 42]),
       Some example_entry))"
proof -
  have h3: "''2026-01-01T01:00:00.000Z'' \<noteq> []" by simp
  have h5: "example_clock 0 < 1767229200000" by (simp add: example_clock_def)
  have k: "with_credentials 0 = Some example_keys" by (simp add: with_credentials_def)
  note t1 = market_data_cache [where Date_now = example_clock and getConfig = no_credentials
      and fetch = example_server and tc = None and w = 0 and rt = example_runtime
      and c = cached_card and md = cached_data,
      OF cached_card_data cached_data_expiry h3 example_expiry h5]
  note t2 = market_data_cache [where Date_now = example_clock and getConfig = with_credentials
      and fetch = example_server and tc = None and w = 0 and rt = example_runtime
      and c = cached_card and md = cached_data,
      OF cached_card_data cached_data_expiry h3 example_expiry h5]
  have c1: "fetchMarketData example_runtime (example_clock \<circ> fst) (with_credentials \<circ> fst)
       (logged_fetch example_server) cached_card False ((0, []), None) =
     (cached_data, ((0, []), None))"
    by (rule t2 [THEN conjunct2, THEN conjunct1])
  have c2: "fetchMarketData example_runtime (example_clock \<circ> fst) (no_credentials \<circ> fst)
       (logged_fetch example_server) cached_card True ((0, []), None) =
     (\<lparr>tcgplayer = None,
       ebay_data =
         Some \<lparr>link_url = ''https://www.ebay.com/sch/i.html?_nkw=Pikachu%20Base%20Set%2058'',
               link_lastUpdated = ''2026-01-01T00:00:00.000Z''\<rparr>,
       cardmarket =
         Some \<lparr>link_url =
                 ''https://www.cardmarket.com/en/Pokemon/Products/Search?searchString=Pikachu%20Base%20Set'',
               link_lastUpdated = ''2026-01-01T00:00:00.000Z''\<rparr>,
       cacheExpiry = Some ''2026-01-02T00:00:00.000Z''\<rparr>,
      ((0, []), None))"
    using t1 [THEN conjunct2, THEN conjunct2, THEN conjunct2, THEN conjunct2, THEN conjunct1,
        THEN mp, OF example_not_configured]
    by (simp add: example_ebay_url example_cardmarket_url example_clock_def example_now_text
        example_expiry_text)
  have c3: "\<exists>rest. requests_made
      (fetchMarketData example_runtime (example_clock \<circ> fst) (with_credentials \<circ> fst)
         (logged_fetch example_server) cached_card True ((0, []), None)) =
      token_request example_keys # rest"
    by (rule t2 [THEN conjunct2, THEN conjunct2, THEN conjunct2, THEN conjunct2, THEN conjunct2,
          THEN spec, THEN mp])
      (intro conjI k example_configured example_no_token)
  show ?thesis
    by (intro conjI)
      (rule cached_card_data cached_data_expiry h3 example_expiry h5 c1 example_not_configured
        c2 k example_configured example_no_token c3 forced_with_credentials)+
qed

theorem market_data_cache_counterexample:
  "marketData cached_card = Some cached_data \<and>
   cacheExpiry cached_data = Some ''2026-01-01T01:00:00.000Z'' \<and>
   Date_getTime example_runtime ''2026-01-01T01:00:00.000Z'' = Some 1767229200000 \<and>
   example_clock 0 < 1767229200000 \<and>
   requests_made
     (fetchMarketData example_runtime (example_clock \<circ> fst) (no_credentials \<circ> fst)
        (logged_fetch example_server) cached_card True ((0, []), None)) = []"
proof -
  have h5: "example_clock 0 < 1767229200000" by (simp add: example_clock_def)
  have r: "requests_made
     (fetchMarketData example_runtime (example_clock \<circ> fst) (no_credentials \<circ> fst)
        (logged_fetch example_server) cached_card True ((0, []), None)) = []"
    by (simp add: forced_without_credentials requests_made_def)
  show ?thesis
    by (intro conjI) (rule cached_card_data cached_data_expiry example_expiry h5 r)+
qed

section \<open>Properties of the image upload\<close>

lemma base64ToFile_no_payload:
  assumes "length (split_on CHR '','' dataurl) < 2"
  shows "base64ToFile atob dataurl filename = error_file"
proof (cases "split_on CHR '','' dataurl")
  case Nil
  then show ?thesis by (simp add: base64ToFile_def)
next
  case (Cons a0 tl0)
  with assms have "tl0 = []" by simp
  with Cons show ?thesis by (simp add: base64ToFile_def)
qed

lemma base64ToFile_atob_throws:
  assumes "split_on CHR '','' dataurl = a0 # a1 # rest" and "atob a1 = None"
  shows "base64ToFile atob dataurl filename = error_file"
  using assms by (simp add: base64ToFile_def)

lemma error_file_empty: "file_size error_file = 0"
  by (simp add: file_size_def error_file_def)

lemma uploadImage_returns:
  "\<exists>url w'. uploadImage atob filename fetchUpload base64Image w = (Inr url, w')"
proof (cases "upload_try atob filename fetchUpload base64Image w")
  case (Pair r w')
  then show ?thesis by (cases r) (simp_all add: uploadImage_def)
qed

lemma uploadImage_empty_file:
  assumes "file_size (base64ToFile atob base64Image filename) = 0"
  shows "uploadImage atob filename fetchUpload base64Image w = (Inr (Some base64Image), w)"
  using assms by (simp add: uploadImage_def upload_try_def)

lemma uploadImage_request:
  assumes "file_size (base64ToFile atob base64Image filename) \<noteq> 0"
    and "fetchUpload (base64ToFile atob base64Image filename) w = (r, w')"
  shows "uploadImage atob filename fetchUpload base64Image w =
     (case r of
        Inl e \<Rightarrow> (Inr (Some base64Image), w')
      | Inr res \<Rightarrow>
          if \<not> res_ok res then (Inr (Some base64Image), w')
          else (case res_json res of
                  Inl e \<Rightarrow> (Inr (Some base64Image), w')
                | Inr Body_null \<Rightarrow> (Inr (Some base64Image), w')
                | Inr (Body_object url) \<Rightarrow> (Inr url, w')))"
  using assms
  by (simp add: uploadImage_def upload_try_def split: sum.splits upload_body.splits)

lemma logged_upload_apply:
  "logged_upload fetchUpload file (w, calls) =
     (case fetchUpload file w of (r, w') \<Rightarrow> (r, (w', calls @ [file])))"
  by (simp add: logged_upload_def)

lemma uploadedImages_all_fail:
  assumes "\<And>file w. \<exists>e w'. fetchUpload file w = (Inl e, w')"
  shows "\<exists>w'. uploadedImages atob filename fetchUpload imgs w = (Inr (map Some imgs), w')"
proof (induction imgs arbitrary: w)
  case Nil
  then show ?case by simp
next
  case (Cons img imgs)
  have "\<exists>w1. uploadImage atob filename fetchUpload img w = (Inr (Some img), w1)"
  proof (cases "file_size (base64ToFile atob img filename) = 0")
    case True
    then show ?thesis by (simp add: uploadImage_empty_file)
  next
    case False
    obtain e w1 where "fetchUpload (base64ToFile atob img filename) w = (Inl e, w1)"
      using assms by blast
    with False show ?thesis by (simp add: uploadImage_request)
  qed
  then obtain w1 where u: "uploadImage atob filename fetchUpload img w = (Inr (Some img), w1)"
    by blast
  obtain w2 where "uploadedImages atob filename fetchUpload imgs w1 = (Inr (map Some imgs), w2)"
    using Cons.IH by blast
  with u show ?case by simp
qed

text \<open>
  C10. \<^verbatim>\<open>uploadImage\<close> always returns a value. When the conversion fails (no comma in
  the string, or \<^verbatim>\<open>atob\<close> throws), and whenever the file is empty, it returns the string
  it was given without any request. When the request is rejected, the response is not
  ok, or its body cannot be read, it returns the string it was given. Otherwise it
  returns the \<^verbatim>\<open>url\<close> property of the response. So when every upload request is
  rejected, the images of the saved card are the strings it was given.
\<close>

theorem upload_never_throws:
  "(\<exists>url w'. uploadImage atob filename fetchUpload base64Image w = (Inr url, w')) \<and>
   (length (split_on CHR '','' base64Image) < 2 \<or>
    (\<exists>a0 a1 rest. split_on CHR '','' base64Image = a0 # a1 # rest \<and> atob a1 = None) \<longrightarrow>
      uploadImage atob filename (logged_upload fetchUpload) base64Image (w, []) =
        (Inr (Some base64Image), (w, []))) \<and>
   (file_size (base64ToFile atob base64Image filename) = 0 \<longrightarrow>
      uploadImage atob filename (logged_upload fetchUpload) base64Image (w, []) =
        (Inr (Some base64Image), (w, []))) \<and>
   (\<forall>r w'. file_size (base64ToFile atob base64Image filename) \<noteq> 0 \<longrightarrow>
      fetchUpload (base64ToFile atob base64Image filename) w = (r, w') \<longrightarrow>
      (isl r \<or> \<not> res_ok (projr r) \<or> isl (res_json (projr r)) \<or>
       res_json (projr r) = Inr Body_null) \<longrightarrow>
      uploadImage atob filename fetchUpload base64Image w = (Inr (Some base64Image), w')) \<and>
   (\<forall>res url w'. file_size (base64ToFile atob base64Image filename) \<noteq> 0 \<longrightarrow>
      fetchUpload (base64ToFile atob base64Image filename) w = (Inr res, w') \<longrightarrow>
      res_ok res \<longrightarrow> res_json res = Inr (Body_object url) \<longrightarrow>
      uploadImage atob filename fetchUpload base64Image w = (Inr url, w')) \<and>
   ((\<forall>file v. \<exists>e v'. fetchUpload file v = (Inl e, v')) \<longrightarrow>
      (\<exists>w'. uploadedImages atob filename fetchUpload imgs w = (Inr (map Some imgs), w')))"
proof (intro conjI)
  show "\<exists>url w'. uploadImage atob filename fetchUpload base64Image w = (Inr url, w')"
    by (rule uploadImage_returns)
  show "length (split_on CHR '','' base64Image) < 2 \<or>
    (\<exists>a0 a1 rest. split_on CHR '','' base64Image = a0 # a1 # rest \<and> atob a1 = None) \<longrightarrow>
      uploadImage atob filename (logged_upload fetchUpload) base64Image (w, []) =
        (Inr (Some base64Image), (w, []))"
  proof
    assume "length (split_on CHR '','' base64Image) < 2 \<or>
      (\<exists>a0 a1 rest. split_on CHR '','' base64Image = a0 # a1 # rest \<and> atob a1 = None)"
    then have "base64ToFile atob base64Image filename = error_file"
      using base64ToFile_no_payload base64ToFile_atob_throws by blast
    then have "file_size (base64ToFile atob base64Image filename) = 0"
      by (simp add: error_file_empty)
    then show "uploadImage atob filename (logged_upload fetchUpload) base64Image (w, []) =
        (Inr (Some base64Image), (w, []))"
      by (rule uploadImage_empty_file)
  qed
  show "file_size (base64ToFile atob base64Image filename) = 0 \<longrightarrow>
      uploadImage atob filename (logged_upload fetchUpload) base64Image (w, []) =
        (Inr (Some base64Image), (w, []))"
    by (simp add: uploadImage_empty_file)
  show "\<forall>r w'. file_size (base64ToFile atob base64Image filename) \<noteq> 0 \<longrightarrow>
      fetchUpload (base64ToFile atob base64Image filename) w = (r, w') \<longrightarrow>
      (isl r \<or> \<not> res_ok (projr r) \<or> isl (res_json (projr r)) \<or>
       res_json (projr r) = Inr Body_null) \<longrightarrow>
      uploadImage atob filename fetchUpload base64Image w = (Inr (Some base64Image), w')"
  proof (intro allI impI)
    fix r w'
    assume ne: "file_size (base64ToFile atob base64Image filename) \<noteq> 0"
      and f: "fetchUpload (base64ToFile atob base64Image filename) w = (r, w')"
      and fail: "isl r \<or> \<not> res_ok (projr r) \<or> isl (res_json (projr r)) \<or>
       res_json (projr r) = Inr Body_null"
    note req = uploadImage_request [where fetchUpload = fetchUpload, OF ne f]
    show "uploadImage atob filename fetchUpload base64Image w = (Inr (Some base64Image), w')"
    proof (cases r)
      case (Inl e)
      then show ?thesis using req by simp
    next
      case (Inr res)
      with fail have "\<not> res_ok res \<or> isl (res_json res) \<or> res_json res = Inr Body_null"
        by simp
      then show ?thesis
        using req Inr
        by (cases "res_json res") (auto split: upload_body.splits)
    qed
  qed
  show "\<forall>res url w'. file_size (base64ToFile atob base64Image filename) \<noteq> 0 \<longrightarrow>
      fetchUpload (base64ToFile atob base64Image filename) w = (Inr res, w') \<longrightarrow>
      res_ok res \<longrightarrow> res_json res = Inr (Body_object url) \<longrightarrow>
      uploadImage atob filename fetchUpload base64Image w = (Inr url, w')"
    by (simp add: uploadImage_request)
  show "(\<forall>file v. \<exists>e v'. fetchUpload file v = (Inl e, v')) \<longrightarrow>
      (\<exists>w'. uploadedImages atob filename fetchUpload imgs w = (Inr (map Some imgs), w'))"
    using uploadedImages_all_fail [of fetchUpload atob filename imgs w] by blast
qed

lemmas upload_eval =
  base64ToFile_def example_atob_def file_size_def error_file_def server_down_def server_up_def

lemma example_file:
  "base64ToFile example_atob ''data:image/png;base64,QUJD'' ''scan-1.jpg'' =
     \<lparr>file_content = ''ABC'', file_name = ''scan-1.jpg'', file_type = ''image/png''\<rparr>"
  by (simp add: upload_eval)

theorem upload_never_throws_witness:
  "length (split_on CHR '','' ''no payload'') < 2 \<and>
   uploadImage example_atob ''scan-1.jpg'' (logged_upload server_up) ''no payload'' (0, []) =
     (Inr (Some ''no payload''), (0, [])) \<and>
   file_size (base64ToFile example_atob ''data:image/png;base64,QUJD'' ''scan-1.jpg'') \<noteq> 0 \<and>
   server_down (base64ToFile example_atob ''data:image/png;base64,QUJD'' ''scan-1.jpg'') 0 =
     (Inl NetworkError, 1) \<and>
   isl (Inl NetworkError :: exn + upload_response) \<and>
   uploadImage example_atob ''scan-1.jpg'' server_down ''data:image/png;base64,QUJD'' 0 =
     (Inr (Some ''data:image/png;base64,QUJD''), 1) \<and>
   uploadImage example_atob ''scan-1.jpg'' server_up ''data:image/png;base64,QUJD'' 0 =
     (Inr (Some ''http://localhost:3001/uploads/1.jpg''), 1) \<and>
   (\<exists>n. uploadedImages example_atob ''scan-1.jpg'' server_down
          [''data:image/png;base64,QUJD'', ''no payload''] 0 =
        (Inr [Some ''data:image/png;base64,QUJD'', Some ''no payload''], n))"
proof -
  have h1: "length (split_on CHR '','' ''no payload'') < 2" by simp
  have c1: "uploadImage example_atob ''scan-1.jpg'' (logged_upload server_up) ''no payload''
       (0, []) = (Inr (Some ''no payload''), (0, []))"
    using upload_never_throws [where atob = example_atob and filename = "''scan-1.jpg''"
        and fetchUpload = server_up and ?base64Image = "''no payload''" and w = 0,
        THEN conjunct2, THEN conjunct1] h1
    by blast
  have h2: "file_size (base64ToFile example_atob ''data:image/png;base64,QUJD'' ''scan-1.jpg'') \<noteq> 0"
    by (simp add: example_file file_size_def)
  have h3: "server_down (base64ToFile example_atob ''data:image/png;base64,QUJD'' ''scan-1.jpg'') 0 =
     (Inl NetworkError, 1)"
    by (simp add: server_down_def)
  have h4: "isl (Inl NetworkError :: exn + upload_response)" by simp
  note t2 = upload_never_throws [where atob = example_atob and filename = "''scan-1.jpg''"
        and fetchUpload = server_down and ?base64Image = "''data:image/png;base64,QUJD''"
        and w = 0 and imgs = "[''data:image/png;base64,QUJD'', ''no payload'']"]
  have c2: "uploadImage example_atob ''scan-1.jpg'' server_down ''data:image/png;base64,QUJD'' 0 =
     (Inr (Some ''data:image/png;base64,QUJD''), 1)"
    using t2 [THEN conjunct2, THEN conjunct2, THEN conjunct2, THEN conjunct1, THEN spec,
        THEN spec, THEN mp, THEN mp, OF h2 h3] h4
    by blast
  have c3: "uploadImage example_atob ''scan-1.jpg'' server_up ''data:image/png;base64,QUJD'' 0 =
     (Inr (Some ''http://localhost:3001/uploads/1.jpg''), 1)"
    by (simp add: uploadImage_def upload_try_def example_file file_size_def server_up_def)
  have h5: "\<forall>file v. \<exists>e v'. server_down file v = (Inl e, v')"
    by (simp add: server_down_def)
  have c4: "\<exists>n. uploadedImages example_atob ''scan-1.jpg'' server_down
          [''data:image/png;base64,QUJD'', ''no payload''] 0 =
        (Inr (map Some [''data:image/png;base64,QUJD'', ''no payload'']), n)"
    by (rule t2 [THEN conjunct2, THEN conjunct2, THEN conjunct2, THEN conjunct2, THEN conjunct2,
          THEN mp, OF h5])
  then have c4': "\<exists>n. uploadedImages example_atob ''scan-1.jpg'' server_down
          [''data:image/png;base64,QUJD'', ''no payload''] 0 =
        (Inr [Some ''data:image/png;base64,QUJD'', Some ''no payload''], n)"
    by simp
  show ?thesis
    by (intro conjI) (rule h1 c1 h2 h3 h4 c2 c3 c4')+
qed

end
